theory Spec2Isabelle
  imports Main
begin

section \<open>Python values, exceptions and the primitive operations the code uses\<close>

text \<open>
  The provider's responses and the normalised resource records are Python dictionaries
  holding JSON-like data. A value is \<open>None\<close>, a bool, an int, a string, a list or a
  dict (an association list in insertion order), or a \<open>datetime\<close> object, which the code
  only observes through \<open>isoformat()\<close>, \<open>str()\<close> and \<open>repr()\<close>: the three
  strings it carries. A string is the list of its code points (below 256).
\<close>

datatype pyval =
    PNone
  | PBool bool
  | PInt int
  | PStr string
  | PDateTime string string string
  | PList "pyval list"
  | PDict "(pyval \<times> pyval) list"

text \<open>
  The exception classes the handlers of the code tell apart: botocore's \<open>ClientError\<close>
  (with \<open>e.response['Error']['Code']\<close>), \<open>NoCredentialsError\<close>, \<open>ValueError\<close>
  (with its message), and every other subclass of \<open>Exception\<close> (with its class name),
  such as the \<open>KeyError\<close>, \<open>TypeError\<close> and \<open>AttributeError\<close> of the primitive
  operations below.
\<close>

datatype exn =
    ClientError string
  | NoCredentialsError
  | ValueError string
  | OtherException string

text \<open>A record as the collectors build it: a dict with string-literal keys.\<close>

type_synonym resource = "(string \<times> pyval) list"

definition bind_exn :: "exn + 'a \<Rightarrow> ('a \<Rightarrow> exn + 'b) \<Rightarrow> exn + 'b" where
  "bind_exn m f = (case m of Inl e \<Rightarrow> Inl e | Inr x \<Rightarrow> f x)"

text \<open>Python identifies the dict keys \<open>True\<close> and \<open>1\<close>, \<open>False\<close> and \<open>0\<close>.\<close>

fun norm_key :: "pyval \<Rightarrow> pyval" where
  "norm_key (PBool b) = PInt (if b then 1 else 0)"
| "norm_key v = v"

fun hashable :: "pyval \<Rightarrow> bool" where
  "hashable (PList xs) = False"
| "hashable (PDict kv) = False"
| "hashable v = True"

fun lookup :: "(pyval \<times> 'a) list \<Rightarrow> pyval \<Rightarrow> 'a option" where
  "lookup [] k = None"
| "lookup ((k', v) # kv) k = (if norm_key k' = norm_key k then Some v else lookup kv k)"

text \<open>\<open>d[k] = v\<close> on a dict: an existing key keeps its place, a new one goes last.\<close>

fun dict_set :: "(pyval \<times> 'a) list \<Rightarrow> pyval \<Rightarrow> 'a \<Rightarrow> (pyval \<times> 'a) list" where
  "dict_set [] k v = [(k, v)]"
| "dict_set ((k', v') # kv) k v =
     (if norm_key k' = norm_key k then (k', v) # kv else (k', v') # dict_set kv k v)"

text \<open>\<open>d[k]\<close> for a string literal \<open>k\<close>.\<close>

definition subscr :: "pyval \<Rightarrow> string \<Rightarrow> exn + pyval" where
  "subscr d k =
     (case d of
        PDict kv \<Rightarrow> (case lookup kv (PStr k) of
                       Some v \<Rightarrow> Inr v
                     | None \<Rightarrow> Inl (OtherException ''KeyError''))
      | _ \<Rightarrow> Inl (OtherException ''TypeError''))"

text \<open>\<open>d.get(k, default)\<close>; only a dict has the method.\<close>

definition dict_get :: "pyval \<Rightarrow> string \<Rightarrow> pyval \<Rightarrow> exn + pyval" where
  "dict_get d k dflt =
     (case d of
        PDict kv \<Rightarrow> (case lookup kv (PStr k) of Some v \<Rightarrow> Inr v | None \<Rightarrow> Inr dflt)
      | _ \<Rightarrow> Inl (OtherException ''AttributeError''))"

text \<open>The same two operations on a record with string keys.\<close>

definition rsub :: "resource \<Rightarrow> string \<Rightarrow> exn + pyval" where
  "rsub r k = (case map_of r k of Some v \<Rightarrow> Inr v | None \<Rightarrow> Inl (OtherException ''KeyError''))"

definition rget :: "resource \<Rightarrow> string \<Rightarrow> pyval \<Rightarrow> pyval" where
  "rget r k dflt = (case map_of r k of Some v \<Rightarrow> v | None \<Rightarrow> dflt)"

fun rset :: "resource \<Rightarrow> string \<Rightarrow> pyval \<Rightarrow> resource" where
  "rset [] k v = [(k, v)]"
| "rset ((k', v') # r) k v = (if k' = k then (k', v) # r else (k', v') # rset r k v)"

fun truthy :: "pyval \<Rightarrow> bool" where
  "truthy PNone = False"
| "truthy (PBool b) = b"
| "truthy (PInt i) = (i \<noteq> 0)"
| "truthy (PStr s) = (s \<noteq> [])"
| "truthy (PDateTime i s r) = True"
| "truthy (PList xs) = (xs \<noteq> [])"
| "truthy (PDict kv) = (kv \<noteq> [])"

text \<open>What a \<open>for\<close> loop or a comprehension iterates over.\<close>

fun py_iter :: "pyval \<Rightarrow> exn + pyval list" where
  "py_iter (PList xs) = Inr xs"
| "py_iter (PDict kv) = Inr (map fst kv)"
| "py_iter (PStr s) = Inr (map (\<lambda>c. PStr [c]) s)"
| "py_iter v = Inl (OtherException ''TypeError'')"

fun py_len :: "pyval \<Rightarrow> exn + nat" where
  "py_len (PList xs) = Inr (length xs)"
| "py_len (PDict kv) = Inr (length kv)"
| "py_len (PStr s) = Inr (length s)"
| "py_len v = Inl (OtherException ''TypeError'')"

fun isoformat :: "pyval \<Rightarrow> exn + pyval" where
  "isoformat (PDateTime i s r) = Inr (PStr i)"
| "isoformat v = Inl (OtherException ''AttributeError'')"

text \<open>
  A dict display \<open>{'a': e1, 'b': e2, ...}\<close> with distinct literal keys: the entries are
  evaluated in order and the first exception is the display's.
\<close>

fun build_dict :: "(string \<times> (exn + pyval)) list \<Rightarrow> exn + resource" where
  "build_dict [] = Inr []"
| "build_dict ((k, m) # rest) =
     (case m of
        Inl e \<Rightarrow> Inl e
      | Inr v \<Rightarrow> (case build_dict rest of Inl e \<Rightarrow> Inl e | Inr r \<Rightarrow> Inr ((k, v) # r)))"

text \<open>A list comprehension \<open>[f(x) for x in xs]\<close> whose element expression may raise.\<close>

fun comprehension :: "('a \<Rightarrow> exn + 'b) \<Rightarrow> 'a list \<Rightarrow> exn + 'b list" where
  "comprehension f [] = Inr []"
| "comprehension f (x # xs) =
     (case f x of
        Inl e \<Rightarrow> Inl e
      | Inr y \<Rightarrow> (case comprehension f xs of Inl e \<Rightarrow> Inl e | Inr ys \<Rightarrow> Inr (y # ys)))"

text \<open>
  \<open>for x in xs: ...; acc.append(f(x))\<close>: the loop stops at the first exception; what
  was appended before stays in \<open>acc\<close>, which the handler after the loop still sees.
\<close>

fun for_append :: "('a \<Rightarrow> exn + 'b) \<Rightarrow> 'a list \<Rightarrow> 'b list \<Rightarrow> exn option \<times> 'b list" where
  "for_append f [] acc = (None, acc)"
| "for_append f (x # xs) acc =
     (case f x of
        Inl e \<Rightarrow> (Some e, acc)
      | Inr y \<Rightarrow> for_append f xs (acc @ [y]))"

text \<open>
  The dict comprehension \<open>{tag['Key']: tag['Value'] for tag in tags}\<close>: key before
  value, a key that is a list or a dict cannot be hashed, a repeated key keeps its first
  place and takes the last value.
\<close>

fun tags_loop :: "pyval list \<Rightarrow> (pyval \<times> pyval) list \<Rightarrow> exn + (pyval \<times> pyval) list" where
  "tags_loop [] acc = Inr acc"
| "tags_loop (tag # tags) acc =
     bind_exn (subscr tag ''Key'') (\<lambda>k.
     bind_exn (subscr tag ''Value'') (\<lambda>v.
       if hashable k then tags_loop tags (dict_set acc k v)
       else Inl (OtherException ''TypeError'')))"

definition tags_dict :: "exn + pyval \<Rightarrow> exn + pyval" where
  "tags_dict m =
     bind_exn m (\<lambda>tags.
     bind_exn (py_iter tags) (\<lambda>ts.
     bind_exn (tags_loop ts []) (\<lambda>kv. Inr (PDict kv))))"

section \<open>The provider and the world\<close>

text \<open>
  The requests the code sends, with the arguments that vary: \<open>Instance(id).load()\<close>,
  and the \<open>describe_*\<close> calls with their filter values.
\<close>

datatype api_call =
    LoadInstance string
  | DescribeVolumes string
  | DescribeNetworkInterfaces string
  | DescribeSnapshots "pyval list"
  | DescribeImages "pyval list"
  | DescribeSecurityGroups "pyval list"
  | DescribeAddresses string

text \<open>
  The provider is outside the program. Its answer to a request may depend on every
  request made before it; it either raises or returns the parsed response (for
  \<open>load()\<close>: the attribute data of the instance).
\<close>

type_synonym provider = "api_call list \<Rightarrow> api_call \<Rightarrow> exn + pyval"

text \<open>
  What \<open>print\<close> writes: a line of text, or a fixed text followed by \<open>str(e)\<close> of
  an exception (whose message the model does not spell out).
\<close>

datatype event =
    Print string
  | PrintErr string exn

record world =
  calls :: "api_call list"
  out :: "event list"
  files :: "(string \<times> string) list"

definition call :: "provider \<Rightarrow> api_call \<Rightarrow> world \<Rightarrow> (exn + pyval) \<times> world" where
  "call prov c w = (prov (calls w) c, w\<lparr>calls := calls w @ [c]\<rparr>)"

definition emit :: "event \<Rightarrow> world \<Rightarrow> world" where
  "emit ev w = w\<lparr>out := out w @ [ev]\<rparr>"

text \<open>An attribute of a loaded boto3 resource: \<open>meta.data.get(name)\<close>.\<close>

definition attr :: "pyval \<Rightarrow> string \<Rightarrow> pyval" where
  "attr data name =
     (case data of
        PDict kv \<Rightarrow> (case lookup kv (PStr name) of Some v \<Rightarrow> v | None \<Rightarrow> PNone)
      | _ \<Rightarrow> PNone)"

text \<open>
  The end of every collector: \<open>except ClientError as e: print(...)\<close> and then
  \<open>return acc\<close>; any other exception leaves the collector.
\<close>

definition except_client_error ::
  "string \<Rightarrow> exn option \<times> resource list \<Rightarrow> world \<Rightarrow> (exn + resource list) \<times> world" where
  "except_client_error msg body w =
     (case fst body of
        None \<Rightarrow> (Inr (snd body), w)
      | Some (ClientError c) \<Rightarrow> (Inr (snd body), emit (PrintErr msg (ClientError c)) w)
      | Some e \<Rightarrow> (Inl e, w))"

text \<open>\<open>for x in response[member]: acc.append(info(x))\<close>, starting from the empty list.\<close>

definition collect_loop ::
  "(pyval \<Rightarrow> exn + resource) \<Rightarrow> string \<Rightarrow> pyval \<Rightarrow> exn option \<times> resource list" where
  "collect_loop info member response =
     (case bind_exn (subscr response member) py_iter of
        Inl e \<Rightarrow> (Some e, [])
      | Inr items \<Rightarrow> for_append info items [])"

section \<open>ec2_resource_discovery.py\<close>

definition get_instance_details ::
  "provider \<Rightarrow> string \<Rightarrow> world \<Rightarrow> (exn + resource) \<times> world" where
  "get_instance_details prov instance_id w =
     (let (loaded, w1) = call prov (LoadInstance instance_id) w;
          body = bind_exn loaded (\<lambda>instance. build_dict
            [(''instance_id'', Inr (PStr instance_id)),
             (''instance_type'', Inr (attr instance ''InstanceType'')),
             (''state'', subscr (attr instance ''State'') ''Name''),
             (''launch_time'',
                if truthy (attr instance ''LaunchTime'')
                then isoformat (attr instance ''LaunchTime'') else Inr PNone),
             (''availability_zone'', subscr (attr instance ''Placement'') ''AvailabilityZone''),
             (''vpc_id'', Inr (attr instance ''VpcId'')),
             (''subnet_id'', Inr (attr instance ''SubnetId'')),
             (''private_ip'', Inr (attr instance ''PrivateIpAddress'')),
             (''public_ip'', Inr (attr instance ''PublicIpAddress'')),
             (''image_id'', Inr (attr instance ''ImageId'')),
             (''key_name'', Inr (attr instance ''KeyName'')),
             (''tags'', tags_dict (Inr (if truthy (attr instance ''Tags'')
                                        then attr instance ''Tags'' else PList [])))])
      in case body of
           Inl (ClientError code) \<Rightarrow>
             if code = ''InvalidInstanceID.NotFound''
             then (Inl (ValueError (''Instance '' @ instance_id @ '' not found'')), w1)
             else (Inl (ClientError code), w1)
         | Inl e \<Rightarrow> (Inl e, w1)
         | Inr details \<Rightarrow> (Inr details, w1))"

fun attachment_loop :: "string \<Rightarrow> pyval list \<Rightarrow> resource \<Rightarrow> exn + resource" where
  "attachment_loop instance_id [] volume_info = Inr volume_info"
| "attachment_loop instance_id (attachment # rest) volume_info =
     bind_exn (subscr attachment ''InstanceId'') (\<lambda>i.
       if i = PStr instance_id
       then bind_exn (subscr attachment ''Device'') (\<lambda>device.
            bind_exn (subscr attachment ''DeleteOnTermination'') (\<lambda>dot.
              Inr (rset (rset volume_info ''device'' device) ''delete_on_termination'' dot)))
       else attachment_loop instance_id rest volume_info)"

definition volume_info :: "string \<Rightarrow> pyval \<Rightarrow> exn + resource" where
  "volume_info instance_id volume =
     bind_exn (build_dict
       [(''resource_type'', Inr (PStr ''EBS Volume'')),
        (''resource_id'', subscr volume ''VolumeId''),
        (''size_gb'', subscr volume ''Size''),
        (''volume_type'', subscr volume ''VolumeType''),
        (''state'', subscr volume ''State''),
        (''encrypted'', subscr volume ''Encrypted''),
        (''iops'', dict_get volume ''Iops'' (PStr ''N/A'')),
        (''throughput'', dict_get volume ''Throughput'' (PStr ''N/A'')),
        (''device'', Inr PNone),
        (''delete_on_termination'', Inr (PBool False)),
        (''tags'', tags_dict (dict_get volume ''Tags'' (PList [])))]) (\<lambda>info.
     bind_exn (dict_get volume ''Attachments'' (PList [])) (\<lambda>attachments.
     bind_exn (py_iter attachments) (\<lambda>atts.
       attachment_loop instance_id atts info)))"

definition get_associated_volumes ::
  "provider \<Rightarrow> string \<Rightarrow> world \<Rightarrow> (exn + resource list) \<times> world" where
  "get_associated_volumes prov instance_id w =
     (let (answer, w1) = call prov (DescribeVolumes instance_id) w;
          body = (case answer of
                    Inl e \<Rightarrow> (Some e, [])
                  | Inr response \<Rightarrow> collect_loop (volume_info instance_id) ''Volumes'' response)
      in except_client_error ''Error retrieving volumes: '' body w1)"

definition eni_info :: "pyval \<Rightarrow> exn + resource" where
  "eni_info eni =
     build_dict
       [(''resource_type'', Inr (PStr ''Network Interface'')),
        (''resource_id'', subscr eni ''NetworkInterfaceId''),
        (''interface_type'', dict_get eni ''InterfaceType'' (PStr ''interface'')),
        (''status'', subscr eni ''Status''),
        (''subnet_id'', subscr eni ''SubnetId''),
        (''vpc_id'', subscr eni ''VpcId''),
        (''private_ip'', dict_get eni ''PrivateIpAddress'' PNone),
        (''public_ip'',
           bind_exn (dict_get eni ''Association'' (PDict [])) (\<lambda>a. dict_get a ''PublicIp'' PNone)),
        (''security_groups'',
           bind_exn (dict_get eni ''Groups'' (PList [])) (\<lambda>groups.
           bind_exn (py_iter groups) (\<lambda>gs.
           bind_exn (comprehension (\<lambda>sg. subscr sg ''GroupId'') gs) (\<lambda>ids. Inr (PList ids))))),
        (''source_dest_check'', dict_get eni ''SourceDestCheck'' PNone),
        (''tags'', tags_dict (dict_get eni ''TagSet'' (PList [])))]"

definition get_associated_network_interfaces ::
  "provider \<Rightarrow> string \<Rightarrow> world \<Rightarrow> (exn + resource list) \<times> world" where
  "get_associated_network_interfaces prov instance_id w =
     (let (answer, w1) = call prov (DescribeNetworkInterfaces instance_id) w;
          body = (case answer of
                    Inl e \<Rightarrow> (Some e, [])
                  | Inr response \<Rightarrow> collect_loop eni_info ''NetworkInterfaces'' response)
      in except_client_error ''Error retrieving network interfaces: '' body w1)"

definition snapshot_info :: "pyval \<Rightarrow> exn + resource" where
  "snapshot_info snapshot =
     build_dict
       [(''resource_type'', Inr (PStr ''EBS Snapshot'')),
        (''resource_id'', subscr snapshot ''SnapshotId''),
        (''volume_id'', subscr snapshot ''VolumeId''),
        (''volume_size_gb'', subscr snapshot ''VolumeSize''),
        (''state'', subscr snapshot ''State''),
        (''progress'', dict_get snapshot ''Progress'' (PStr ''N/A'')),
        (''start_time'', bind_exn (subscr snapshot ''StartTime'') isoformat),
        (''description'', dict_get snapshot ''Description'' (PStr [])),
        (''encrypted'', subscr snapshot ''Encrypted''),
        (''tags'', tags_dict (dict_get snapshot ''Tags'' (PList [])))]"

text \<open>
  The volume lookup runs before the \<open>try\<close>: an exception that leaves it leaves the
  snapshot collector too. With no volume id the collector returns at once.
\<close>

definition get_associated_snapshots ::
  "provider \<Rightarrow> string \<Rightarrow> world \<Rightarrow> (exn + resource list) \<times> world" where
  "get_associated_snapshots prov instance_id w =
     (case get_associated_volumes prov instance_id w of
        (Inl e, w1) \<Rightarrow> (Inl e, w1)
      | (Inr volumes, w1) \<Rightarrow>
          (case comprehension (\<lambda>vol. rsub vol ''resource_id'') volumes of
             Inl e \<Rightarrow> (Inl e, w1)
           | Inr volume_ids \<Rightarrow>
               if volume_ids = [] then (Inr [], w1)
               else
                 (let (answer, w2) = call prov (DescribeSnapshots volume_ids) w1;
                      body = (case answer of
                                Inl e \<Rightarrow> (Some e, [])
                              | Inr response \<Rightarrow> collect_loop snapshot_info ''Snapshots'' response)
                  in except_client_error ''Error retrieving snapshots: '' body w2)))"

definition ami_info :: "pyval \<Rightarrow> exn + resource" where
  "ami_info ami =
     build_dict
       [(''resource_type'', Inr (PStr ''AMI'')),
        (''resource_id'', subscr ami ''ImageId''),
        (''name'', dict_get ami ''Name'' (PStr [])),
        (''description'', dict_get ami ''Description'' (PStr [])),
        (''state'', subscr ami ''State''),
        (''architecture'', dict_get ami ''Architecture'' PNone),
        (''platform'', dict_get ami ''Platform'' (PStr ''Linux'')),
        (''virtualization_type'', dict_get ami ''VirtualizationType'' PNone),
        (''root_device_type'', dict_get ami ''RootDeviceType'' PNone),
        (''creation_date'', dict_get ami ''CreationDate'' (PStr [])),
        (''public'', dict_get ami ''Public'' (PBool False)),
        (''tags'', tags_dict (dict_get ami ''Tags'' (PList [])))]"

definition get_associated_ami ::
  "provider \<Rightarrow> string \<Rightarrow> world \<Rightarrow> (exn + resource list) \<times> world" where
  "get_associated_ami prov instance_id w =
     (let (loaded, w1) = call prov (LoadInstance instance_id) w
      in case loaded of
           Inl e \<Rightarrow> except_client_error ''Error retrieving AMI: '' (Some e, []) w1
         | Inr instance \<Rightarrow>
             if truthy (attr instance ''ImageId'')
             then
               (let (answer, w2) = call prov (DescribeImages [attr instance ''ImageId'']) w1;
                    body = (case answer of
                              Inl e \<Rightarrow> (Some e, [])
                            | Inr response \<Rightarrow> collect_loop ami_info ''Images'' response)
                in except_client_error ''Error retrieving AMI: '' body w2)
             else except_client_error ''Error retrieving AMI: '' (None, []) w1)"

definition sg_info :: "pyval \<Rightarrow> exn + resource" where
  "sg_info sg =
     build_dict
       [(''resource_type'', Inr (PStr ''Security Group'')),
        (''resource_id'', subscr sg ''GroupId''),
        (''name'', subscr sg ''GroupName''),
        (''description'', subscr sg ''Description''),
        (''vpc_id'', dict_get sg ''VpcId'' PNone),
        (''inbound_rules'',
           bind_exn (dict_get sg ''IpPermissions'' (PList [])) (\<lambda>p.
           bind_exn (py_len p) (\<lambda>n. Inr (PInt (int n))))),
        (''outbound_rules'',
           bind_exn (dict_get sg ''IpPermissionsEgress'' (PList [])) (\<lambda>p.
           bind_exn (py_len p) (\<lambda>n. Inr (PInt (int n))))),
        (''tags'', tags_dict (dict_get sg ''Tags'' (PList [])))]"

definition get_associated_security_groups ::
  "provider \<Rightarrow> string \<Rightarrow> world \<Rightarrow> (exn + resource list) \<times> world" where
  "get_associated_security_groups prov instance_id w =
     (let (loaded, w1) = call prov (LoadInstance instance_id) w
      in case loaded of
           Inl e \<Rightarrow> except_client_error ''Error retrieving security groups: '' (Some e, []) w1
         | Inr instance \<Rightarrow>
             (case bind_exn (py_iter (attr instance ''SecurityGroups''))
                     (comprehension (\<lambda>sg. subscr sg ''GroupId'')) of
                Inl e \<Rightarrow> except_client_error ''Error retrieving security groups: '' (Some e, []) w1
              | Inr sg_ids \<Rightarrow>
                  if sg_ids \<noteq> []
                  then
                    (let (answer, w2) = call prov (DescribeSecurityGroups sg_ids) w1;
                         body = (case answer of
                                   Inl e \<Rightarrow> (Some e, [])
                                 | Inr response \<Rightarrow> collect_loop sg_info ''SecurityGroups'' response)
                     in except_client_error ''Error retrieving security groups: '' body w2)
                  else except_client_error ''Error retrieving security groups: '' (None, []) w1))"

definition eip_info :: "pyval \<Rightarrow> exn + resource" where
  "eip_info eip =
     build_dict
       [(''resource_type'', Inr (PStr ''Elastic IP'')),
        (''resource_id'', dict_get eip ''AllocationId'' (PStr ''N/A'')),
        (''public_ip'', subscr eip ''PublicIp''),
        (''private_ip'', dict_get eip ''PrivateIpAddress'' PNone),
        (''domain'', dict_get eip ''Domain'' (PStr ''vpc'')),
        (''network_interface_id'', dict_get eip ''NetworkInterfaceId'' PNone),
        (''association_id'', dict_get eip ''AssociationId'' PNone),
        (''tags'', tags_dict (dict_get eip ''Tags'' (PList [])))]"

definition get_associated_elastic_ips ::
  "provider \<Rightarrow> string \<Rightarrow> world \<Rightarrow> (exn + resource list) \<times> world" where
  "get_associated_elastic_ips prov instance_id w =
     (let (answer, w1) = call prov (DescribeAddresses instance_id) w;
          body = (case answer of
                    Inl e \<Rightarrow> (Some e, [])
                  | Inr response \<Rightarrow> collect_loop eip_info ''Addresses'' response)
      in except_client_error ''Error retrieving Elastic IPs: '' body w1)"

text \<open>The dict that \<open>discover_all_resources\<close> returns, with its three fixed keys.\<close>

record discovery_result =
  instance_details :: resource
  resources :: "resource list"
  summary :: resource

text \<open>Sequencing of two steps inside a \<open>try\<close>: an exception skips what follows.\<close>

definition bind_io ::
  "(world \<Rightarrow> (exn + 'a) \<times> world) \<Rightarrow> ('a \<Rightarrow> world \<Rightarrow> (exn + 'b) \<times> world) \<Rightarrow>
   world \<Rightarrow> (exn + 'b) \<times> world" where
  "bind_io m f w = (case m w of (Inl e, w1) \<Rightarrow> (Inl e, w1) | (Inr x, w1) \<Rightarrow> f x w1)"

definition instance_resource :: "string \<Rightarrow> resource \<Rightarrow> exn + resource" where
  "instance_resource instance_id details =
     build_dict
       [(''resource_type'', Inr (PStr ''EC2 Instance'')),
        (''resource_id'', Inr (PStr instance_id)),
        (''instance_type'', rsub details ''instance_type''),
        (''state'', rsub details ''state''),
        (''availability_zone'', rsub details ''availability_zone''),
        (''vpc_id'', rsub details ''vpc_id''),
        (''private_ip'', rsub details ''private_ip''),
        (''public_ip'', rsub details ''public_ip''),
        (''tags'', rsub details ''tags'')]"

definition make_result ::
  "resource \<Rightarrow> resource \<Rightarrow> resource list \<Rightarrow> resource list \<Rightarrow> resource list \<Rightarrow>
   resource list \<Rightarrow> resource list \<Rightarrow> resource list \<Rightarrow> discovery_result" where
  "make_result details inst volumes network_interfaces snapshots amis security_groups elastic_ips =
     (let all_resources =
            ((((([inst] @ volumes) @ network_interfaces) @ snapshots) @ amis) @ security_groups)
              @ elastic_ips
      in \<lparr>instance_details = details,
          resources = all_resources,
          summary =
            [(''total_resources'', PInt (int (length all_resources))),
             (''volumes'', PInt (int (length volumes))),
             (''network_interfaces'', PInt (int (length network_interfaces))),
             (''snapshots'', PInt (int (length snapshots))),
             (''amis'', PInt (int (length amis))),
             (''security_groups'', PInt (int (length security_groups))),
             (''elastic_ips'', PInt (int (length elastic_ips)))]\<rparr>)"

definition discover_body ::
  "provider \<Rightarrow> string \<Rightarrow> world \<Rightarrow> (exn + discovery_result) \<times> world" where
  "discover_body prov instance_id =
     bind_io (get_instance_details prov instance_id) (\<lambda>details.
     bind_io (\<lambda>w. (instance_resource instance_id details, w)) (\<lambda>inst.
     bind_io (get_associated_volumes prov instance_id) (\<lambda>volumes.
     bind_io (get_associated_network_interfaces prov instance_id) (\<lambda>network_interfaces.
     bind_io (get_associated_snapshots prov instance_id) (\<lambda>snapshots.
     bind_io (get_associated_ami prov instance_id) (\<lambda>amis.
     bind_io (get_associated_security_groups prov instance_id) (\<lambda>security_groups.
     bind_io (get_associated_elastic_ips prov instance_id) (\<lambda>elastic_ips.
       (\<lambda>w. (Inr (make_result details inst volumes network_interfaces snapshots amis
                      security_groups elastic_ips), w))))))))))"

text \<open>
  \<open>except ValueError\<close> and \<open>except Exception\<close>: both print and return \<open>None\<close>.
\<close>

definition discover_all_resources ::
  "provider \<Rightarrow> string \<Rightarrow> world \<Rightarrow> discovery_result option \<times> world" where
  "discover_all_resources prov instance_id w =
     (case discover_body prov instance_id
             (emit (Print (''Discovering resources for EC2 instance: '' @ instance_id)) w) of
        (Inr result, w1) \<Rightarrow> (Some result, w1)
      | (Inl (ValueError m), w1) \<Rightarrow> (None, emit (PrintErr ''Error: '' (ValueError m)) w1)
      | (Inl e, w1) \<Rightarrow> (None, emit (PrintErr ''Unexpected error: '' e) w1))"

section \<open>Text of values: \<open>str\<close>, \<open>repr\<close>, \<open>join\<close>, slices\<close>

fun digits :: "nat \<Rightarrow> string" where
  "digits n =
     (if n < 10 then [''0123456789'' ! n]
      else digits (n div 10) @ [''0123456789'' ! (n mod 10)])"

definition str_int :: "int \<Rightarrow> string" where
  "str_int i = (if i < 0 then CHR ''-'' # digits (nat (- i)) else digits (nat i))"

text \<open>\<open>sep.join(xs)\<close> on strings.\<close>

fun join :: "string \<Rightarrow> string list \<Rightarrow> string" where
  "join sep [] = []"
| "join sep [x] = x"
| "join sep (x # y # ys) = x @ sep @ join sep (y # ys)"

definition hex2 :: "nat \<Rightarrow> string" where
  "hex2 n = [''0123456789abcdef'' ! (n div 16), ''0123456789abcdef'' ! (n mod 16)]"

text \<open>
  \<open>repr\<close> of a string: single quotes, unless the string has a single quote and no double
  quote; the quote and the backslash are escaped, tab, newline and carriage return are
  written \<open>\t\<close>, \<open>\n\<close>, \<open>\r\<close>, and the other code points that are not printable
  (controls, 0x7f to 0xa0, 0xad) as \<open>\xNN\<close>.
\<close>

definition repr_char :: "char \<Rightarrow> char \<Rightarrow> string" where
  "repr_char q c =
     (let n = (of_char c :: nat) in
      if c = q \<or> c = CHR 0x5C then [CHR 0x5C, c]
      else if n = 9 then [CHR 0x5C, CHR ''t'']
      else if n = 10 then [CHR 0x5C, CHR ''n'']
      else if n = 13 then [CHR 0x5C, CHR ''r'']
      else if n < 32 \<or> n = 127 then [CHR 0x5C, CHR ''x''] @ hex2 n
      else if n < 127 then [c]
      else if n < 161 \<or> n = 173 then [CHR 0x5C, CHR ''x''] @ hex2 n
      else [c])"

definition repr_str :: "string \<Rightarrow> string" where
  "repr_str s =
     (let q = (if CHR 0x27 \<in> set s \<and> CHR 0x22 \<notin> set s then CHR 0x22 else CHR 0x27)
      in [q] @ concat (map (repr_char q) s) @ [q])"

fun py_repr :: "pyval \<Rightarrow> string" where
  "py_repr PNone = ''None''"
| "py_repr (PBool b) = (if b then ''True'' else ''False'')"
| "py_repr (PInt i) = str_int i"
| "py_repr (PStr s) = repr_str s"
| "py_repr (PDateTime i s r) = r"
| "py_repr (PList xs) = ''['' @ join '', '' (map py_repr xs) @ '']''"
| "py_repr (PDict kv) =
     ''{'' @ join '', '' (map (\<lambda>(k, v). py_repr k @ '': '' @ py_repr v) kv) @ ''}''"

text \<open>\<open>str(v)\<close>, which is also what an f-string field \<open>{v}\<close> shows.\<close>

fun py_str :: "pyval \<Rightarrow> string" where
  "py_str (PStr s) = s"
| "py_str (PDateTime i s r) = s"
| "py_str v = py_repr v"

text \<open>
  \<open>v[:n]\<close>: a string or a list gives its first \<open>n\<close> items, any other value
  raises (\<open>TypeError\<close>; for a dict \<open>KeyError\<close> from Python 3.12 on).
\<close>

fun slice_to :: "nat \<Rightarrow> pyval \<Rightarrow> exn + pyval" where
  "slice_to n (PStr s) = Inr (PStr (take n s))"
| "slice_to n (PList xs) = Inr (PList (take n xs))"
| "slice_to n v = Inl (OtherException ''TypeError'')"

text \<open>\<open>v + '...'\<close>: only a string can be extended by a string.\<close>

fun add_str :: "pyval \<Rightarrow> string \<Rightarrow> exn + pyval" where
  "add_str (PStr s) t = Inr (PStr (s @ t))"
| "add_str v t = Inl (OtherException ''TypeError'')"

fun the_strings :: "pyval list \<Rightarrow> exn + string list" where
  "the_strings [] = Inr []"
| "the_strings (PStr s # xs) = bind_exn (the_strings xs) (\<lambda>ss. Inr (s # ss))"
| "the_strings (v # xs) = Inl (OtherException ''TypeError'')"

text \<open>\<open>sep.join(v)\<close>: every item of \<open>v\<close> must be a string.\<close>

definition str_join :: "string \<Rightarrow> pyval \<Rightarrow> exn + pyval" where
  "str_join sep v =
     bind_exn (py_iter v) (\<lambda>xs.
     bind_exn (the_strings xs) (\<lambda>ss. Inr (PStr (join sep ss))))"

section \<open>table_formatter.py\<close>

text \<open>
  The libraries the formatter calls are parameters: \<open>tabulate\<close> applied to the data frame
  of the rows, with the table format; Python's \<open>str.title\<close>; \<open>DataFrame.to_csv\<close>
  with the columns of the frame, its rows and the file name, and \<open>json.dump\<close> into the
  opened file, each giving the text written or the exception raised.
\<close>

record library =
  tabulate :: "resource list \<Rightarrow> string \<Rightarrow> exn + string"
  title :: "string \<Rightarrow> string"
  to_csv :: "string list \<Rightarrow> resource list \<Rightarrow> string \<Rightarrow> exn + string"
  json_dump :: "discovery_result \<Rightarrow> string \<Rightarrow> exn + string"

definition format_tags :: "pyval \<Rightarrow> exn + string" where
  "format_tags tags =
     (if \<not> truthy tags then Inr ''None''
      else case tags of
             PDict kv \<Rightarrow>
               (let tag_strings = map (\<lambda>(k, v). py_str k @ '':'' @ py_str v) (take 2 kv);
                    result = join '', '' tag_strings
                in if length kv > 2
                   then Inr (result @ '' (+'' @ str_int (int (length kv) - 2) @ '' more)'')
                   else Inr result)
           | _ \<Rightarrow> Inl (OtherException ''AttributeError''))"

fun details_loop :: "resource \<Rightarrow> string list \<Rightarrow> string list" where
  "details_loop [] details = details"
| "details_loop ((key, v) # rest) details =
     details_loop rest
       (if key \<notin> {''resource_type'', ''resource_id'', ''tags''} \<and> v \<noteq> PNone \<and> v \<noteq> PStr ''N/A''
        then (case v of
                PList xs \<Rightarrow>
                  if truthy v then details @ [key @ '': '' @ take 50 (py_str v) @ ''...'']
                  else details
              | PDict kv \<Rightarrow>
                  if truthy v then details @ [key @ '': '' @ take 50 (py_str v) @ ''...'']
                  else details
              | _ \<Rightarrow> details @ [key @ '': '' @ py_str v])
        else details)"

definition format_resource_details :: "resource \<Rightarrow> string" where
  "format_resource_details r = join ''; '' (take 3 (details_loop r []))"

definition tags_cell :: "resource \<Rightarrow> exn + pyval" where
  "tags_cell r = bind_exn (format_tags (rget r ''tags'' (PDict []))) (\<lambda>s. Inr (PStr s))"

text \<open>
  \<open>r.get(k, 'N/A')[:n] + '...' if len(r.get(k, '')) > n else r.get(k, 'N/A')\<close>
\<close>

definition shortened :: "resource \<Rightarrow> string \<Rightarrow> nat \<Rightarrow> exn + pyval" where
  "shortened r k n =
     bind_exn (py_len (rget r k (PStr []))) (\<lambda>l.
       if l > n
       then bind_exn (slice_to n (rget r k (PStr ''N/A''))) (\<lambda>s. add_str s ''...'')
       else Inr (rget r k (PStr ''N/A'')))"

text \<open>\<open>r.get(k, 'N/A')[:n] if r.get(k) else 'N/A'\<close>\<close>

definition prefix_or_na :: "resource \<Rightarrow> string \<Rightarrow> nat \<Rightarrow> exn + pyval" where
  "prefix_or_na r k n =
     (if truthy (rget r k PNone) then slice_to n (rget r k (PStr ''N/A''))
      else Inr (PStr ''N/A''))"

definition format_ec2_instances_table ::
  "library \<Rightarrow> resource list \<Rightarrow> string \<Rightarrow> exn + string" where
  "format_ec2_instances_table lib instances table_format =
     bind_exn (comprehension (\<lambda>instance. build_dict
       [(''Instance ID'', Inr (rget instance ''resource_id'' (PStr ''N/A''))),
        (''Instance Type'', Inr (rget instance ''instance_type'' (PStr ''N/A''))),
        (''State'', Inr (rget instance ''state'' (PStr ''N/A''))),
        (''AZ'', Inr (rget instance ''availability_zone'' (PStr ''N/A''))),
        (''VPC ID'', Inr (rget instance ''vpc_id'' (PStr ''N/A''))),
        (''Private IP'', Inr (rget instance ''private_ip'' (PStr ''N/A''))),
        (''Public IP'', Inr (rget instance ''public_ip'' (PStr ''N/A''))),
        (''Tags'', tags_cell instance)]) instances)
       (\<lambda>table_data. tabulate lib table_data table_format)"

definition format_volumes_table ::
  "library \<Rightarrow> resource list \<Rightarrow> string \<Rightarrow> exn + string" where
  "format_volumes_table lib volumes table_format =
     bind_exn (comprehension (\<lambda>volume. build_dict
       [(''Volume ID'', Inr (rget volume ''resource_id'' (PStr ''N/A''))),
        (''Size (GB)'', Inr (rget volume ''size_gb'' (PStr ''N/A''))),
        (''Type'', Inr (rget volume ''volume_type'' (PStr ''N/A''))),
        (''State'', Inr (rget volume ''state'' (PStr ''N/A''))),
        (''Device'', Inr (rget volume ''device'' (PStr ''N/A''))),
        (''Encrypted'', Inr (rget volume ''encrypted'' (PStr ''N/A''))),
        (''IOPS'', Inr (rget volume ''iops'' (PStr ''N/A''))),
        (''Delete on Term'', Inr (rget volume ''delete_on_termination'' (PStr ''N/A''))),
        (''Tags'', tags_cell volume)]) volumes)
       (\<lambda>table_data. tabulate lib table_data table_format)"

definition format_network_interfaces_table ::
  "library \<Rightarrow> resource list \<Rightarrow> string \<Rightarrow> exn + string" where
  "format_network_interfaces_table lib interfaces table_format =
     bind_exn (comprehension (\<lambda>interface. build_dict
       [(''Interface ID'', Inr (rget interface ''resource_id'' (PStr ''N/A''))),
        (''Type'', Inr (rget interface ''interface_type'' (PStr ''N/A''))),
        (''Status'', Inr (rget interface ''status'' (PStr ''N/A''))),
        (''Subnet ID'', Inr (rget interface ''subnet_id'' (PStr ''N/A''))),
        (''Private IP'', Inr (rget interface ''private_ip'' (PStr ''N/A''))),
        (''Public IP'', Inr (rget interface ''public_ip'' (PStr ''N/A''))),
        (''Security Groups'', str_join '', '' (rget interface ''security_groups'' (PList []))),
        (''Tags'', tags_cell interface)]) interfaces)
       (\<lambda>table_data. tabulate lib table_data table_format)"

definition format_snapshots_table ::
  "library \<Rightarrow> resource list \<Rightarrow> string \<Rightarrow> exn + string" where
  "format_snapshots_table lib snapshots table_format =
     bind_exn (comprehension (\<lambda>snapshot. build_dict
       [(''Snapshot ID'', Inr (rget snapshot ''resource_id'' (PStr ''N/A''))),
        (''Volume ID'', Inr (rget snapshot ''volume_id'' (PStr ''N/A''))),
        (''Size (GB)'', Inr (rget snapshot ''volume_size_gb'' (PStr ''N/A''))),
        (''State'', Inr (rget snapshot ''state'' (PStr ''N/A''))),
        (''Progress'', Inr (rget snapshot ''progress'' (PStr ''N/A''))),
        (''Start Time'', prefix_or_na snapshot ''start_time'' 19),
        (''Encrypted'', Inr (rget snapshot ''encrypted'' (PStr ''N/A''))),
        (''Description'', shortened snapshot ''description'' 30),
        (''Tags'', tags_cell snapshot)]) snapshots)
       (\<lambda>table_data. tabulate lib table_data table_format)"

definition format_amis_table ::
  "library \<Rightarrow> resource list \<Rightarrow> string \<Rightarrow> exn + string" where
  "format_amis_table lib amis table_format =
     bind_exn (comprehension (\<lambda>ami. build_dict
       [(''AMI ID'', Inr (rget ami ''resource_id'' (PStr ''N/A''))),
        (''Name'', shortened ami ''name'' 30),
        (''State'', Inr (rget ami ''state'' (PStr ''N/A''))),
        (''Architecture'', Inr (rget ami ''architecture'' (PStr ''N/A''))),
        (''Platform'', Inr (rget ami ''platform'' (PStr ''N/A''))),
        (''Virtualization'', Inr (rget ami ''virtualization_type'' (PStr ''N/A''))),
        (''Root Device'', Inr (rget ami ''root_device_type'' (PStr ''N/A''))),
        (''Public'', Inr (rget ami ''public'' (PStr ''N/A''))),
        (''Creation Date'', prefix_or_na ami ''creation_date'' 10),
        (''Tags'', tags_cell ami)]) amis)
       (\<lambda>table_data. tabulate lib table_data table_format)"

definition format_security_groups_table ::
  "library \<Rightarrow> resource list \<Rightarrow> string \<Rightarrow> exn + string" where
  "format_security_groups_table lib security_groups table_format =
     bind_exn (comprehension (\<lambda>sg. build_dict
       [(''Security Group ID'', Inr (rget sg ''resource_id'' (PStr ''N/A''))),
        (''Name'', Inr (rget sg ''name'' (PStr ''N/A''))),
        (''Description'', shortened sg ''description'' 40),
        (''VPC ID'', Inr (rget sg ''vpc_id'' (PStr ''N/A''))),
        (''Inbound Rules'', Inr (rget sg ''inbound_rules'' (PStr ''N/A''))),
        (''Outbound Rules'', Inr (rget sg ''outbound_rules'' (PStr ''N/A''))),
        (''Tags'', tags_cell sg)]) security_groups)
       (\<lambda>table_data. tabulate lib table_data table_format)"

definition format_elastic_ips_table ::
  "library \<Rightarrow> resource list \<Rightarrow> string \<Rightarrow> exn + string" where
  "format_elastic_ips_table lib elastic_ips table_format =
     bind_exn (comprehension (\<lambda>eip. build_dict
       [(''Allocation ID'', Inr (rget eip ''resource_id'' (PStr ''N/A''))),
        (''Public IP'', Inr (rget eip ''public_ip'' (PStr ''N/A''))),
        (''Private IP'', Inr (rget eip ''private_ip'' (PStr ''N/A''))),
        (''Domain'', Inr (rget eip ''domain'' (PStr ''N/A''))),
        (''Network Interface'', Inr (rget eip ''network_interface_id'' (PStr ''N/A''))),
        (''Association ID'', Inr (rget eip ''association_id'' (PStr ''N/A''))),
        (''Tags'', tags_cell eip)]) elastic_ips)
       (\<lambda>table_data. tabulate lib table_data table_format)"

definition format_generic_table ::
  "library \<Rightarrow> resource list \<Rightarrow> string \<Rightarrow> exn + string" where
  "format_generic_table lib rs table_format =
     tabulate lib
       (map (\<lambda>r. [(''Resource ID'', rget r ''resource_id'' (PStr ''N/A'')),
                   (''Details'', PStr (format_resource_details r))]) rs)
       table_format"

definition format_resources_table ::
  "library \<Rightarrow> resource list \<Rightarrow> string \<Rightarrow> exn + string" where
  "format_resources_table lib rs table_format =
     (if rs = [] then Inr ''No resources found.''
      else tabulate lib
             (map (\<lambda>r. [(''Resource Type'', rget r ''resource_type'' (PStr ''Unknown'')),
                         (''Resource ID'', rget r ''resource_id'' (PStr ''N/A'')),
                         (''Details'', PStr (format_resource_details r))]) rs)
             table_format)"

text \<open>
  Grouping by \<open>resource_type\<close>: the groups are the entries of a dict, in the order in
  which each type is first seen; a type that cannot be hashed cannot be a key.
\<close>

fun group_loop ::
  "resource list \<Rightarrow> (pyval \<times> resource list) list \<Rightarrow> exn + (pyval \<times> resource list) list" where
  "group_loop [] resource_groups = Inr resource_groups"
| "group_loop (r # rest) resource_groups =
     (let resource_type = rget r ''resource_type'' (PStr ''Unknown'')
      in if \<not> hashable resource_type then Inl (OtherException ''TypeError'')
         else case lookup resource_groups resource_type of
                None \<Rightarrow> group_loop rest (resource_groups @ [(resource_type, [r])])
              | Some resource_list \<Rightarrow>
                  group_loop rest (dict_set resource_groups resource_type (resource_list @ [r])))"

definition format_group ::
  "library \<Rightarrow> string \<Rightarrow> pyval \<times> resource list \<Rightarrow> exn + string list" where
  "format_group lib table_format g =
     (let resource_type = fst g; resource_list = snd g
      in bind_exn
           (if resource_type = PStr ''EC2 Instance''
              then format_ec2_instances_table lib resource_list table_format
            else if resource_type = PStr ''EBS Volume''
              then format_volumes_table lib resource_list table_format
            else if resource_type = PStr ''Network Interface''
              then format_network_interfaces_table lib resource_list table_format
            else if resource_type = PStr ''EBS Snapshot''
              then format_snapshots_table lib resource_list table_format
            else if resource_type = PStr ''AMI''
              then format_amis_table lib resource_list table_format
            else if resource_type = PStr ''Security Group''
              then format_security_groups_table lib resource_list table_format
            else if resource_type = PStr ''Elastic IP''
              then format_elastic_ips_table lib resource_list table_format
            else format_generic_table lib resource_list table_format)
           (\<lambda>table. Inr [[CHR 0x0A] @ ''## '' @ py_str resource_type @ ''s'' @ [CHR 0x0A], table]))"

definition format_detailed_resources_table ::
  "library \<Rightarrow> resource list \<Rightarrow> string \<Rightarrow> exn + string" where
  "format_detailed_resources_table lib rs table_format =
     (if rs = [] then Inr ''No resources found.''
      else bind_exn (group_loop rs []) (\<lambda>resource_groups.
           bind_exn (comprehension (format_group lib table_format) resource_groups)
             (\<lambda>formatted_tables. Inr (join [CHR 0x0A] (concat formatted_tables)))))"

definition format_summary_table :: "library \<Rightarrow> resource \<Rightarrow> string \<Rightarrow> exn + string" where
  "format_summary_table lib summ table_format =
     tabulate lib
       (map (\<lambda>(resource_type, count).
               [(''Resource Type'',
                   PStr (title lib (map (\<lambda>c. if c = CHR ''_'' then CHR '' '' else c) resource_type))),
                (''Count'', count)])
            (filter (\<lambda>(resource_type, count). resource_type \<noteq> ''total_resources'') summ)
        @ [[(''Resource Type'', PStr ''TOTAL''),
            (''Count'', rget summ ''total_resources'' (PInt 0))]])
       table_format"

text \<open>
  Flattening one record for the CSV export: the entries of a dict-valued field go under
  \<open>key_subkey\<close>, a list becomes the text of its items joined by a comma and a space, any
  other value is kept. Every assignment is a dict store: a name used twice keeps its first
  place and the last value.
\<close>

fun flatten_sub :: "string \<Rightarrow> (pyval \<times> pyval) list \<Rightarrow> resource \<Rightarrow> resource" where
  "flatten_sub key [] flattened = flattened"
| "flatten_sub key ((sub_key, sub_value) # rest) flattened =
     flatten_sub key rest (rset flattened (key @ ''_'' @ py_str sub_key) sub_value)"

fun flatten_loop :: "resource \<Rightarrow> resource \<Rightarrow> resource" where
  "flatten_loop [] flattened = flattened"
| "flatten_loop ((key, v) # rest) flattened =
     flatten_loop rest
       (case v of
          PDict kv \<Rightarrow> flatten_sub key kv flattened
        | PList xs \<Rightarrow> rset flattened key (PStr (join '', '' (map py_str xs)))
        | _ \<Rightarrow> rset flattened key v)"

definition flatten_resource :: "resource \<Rightarrow> resource" where
  "flatten_resource r = flatten_loop r []"

text \<open>
  Modelled from the spec: the header of the CSV file, which pandas (not code of this
  repository) derives from \<open>pd.DataFrame(rows)\<close>: the union of the keys of all
  flattened rows, each once, taken in the order of their first appearance.
\<close>

definition dataframe_columns :: "resource list \<Rightarrow> string list" where
  "dataframe_columns rows = rev (remdups (rev (concat (map (map fst) rows))))"

definition export_to_csv ::
  "library \<Rightarrow> resource list \<Rightarrow> string \<Rightarrow> world \<Rightarrow> (exn + string) \<times> world" where
  "export_to_csv lib rs filename w =
     (let flattened_resources = map flatten_resource rs
      in case to_csv lib (dataframe_columns flattened_resources) flattened_resources filename of
           Inl e \<Rightarrow> (Inl e, w)
         | Inr text \<Rightarrow>
             (Inr (''Resources exported to '' @ filename),
              w\<lparr>files := files w @ [(filename, text)]\<rparr>))"

definition export_to_json ::
  "library \<Rightarrow> discovery_result \<Rightarrow> string \<Rightarrow> world \<Rightarrow> (exn + string) \<times> world" where
  "export_to_json lib discovery filename w =
     (case json_dump lib discovery filename of
        Inl e \<Rightarrow> (Inl e, w)
      | Inr text \<Rightarrow>
          (Inr (''Discovery result exported to '' @ filename),
           w\<lparr>files := files w @ [(filename, text)]\<rparr>))"

section \<open>aws_ec2_resource_discovery.py\<close>

text \<open>The parsed command line, as \<open>argparse\<close> hands it to \<open>main\<close>.\<close>

record args =
  arg_instance_id :: string
  arg_region :: "string option"
  arg_profile :: "string option"
  arg_format :: string
  arg_detailed :: bool
  arg_export_csv :: "string option"
  arg_export_json :: "string option"
  arg_summary_only :: bool

text \<open>
  What \<open>main\<close> finds around it: the session and client set-up of boto3 for a region
  and a profile, which raises or gives the provider behind the client (no request is sent
  yet); the text of \<open>datetime.now().strftime(...)\<close>; the libraries.
\<close>

record env =
  connect :: "string option \<Rightarrow> string option \<Rightarrow> exn + provider"
  now :: string
  lib :: library

text \<open>
  \<open>EC2ResourceDiscovery.__init__\<close>: on any exception it prints and calls
  \<open>sys.exit(1)\<close>, here the result \<open>None\<close>.
\<close>

definition init_discovery ::
  "env \<Rightarrow> string option \<Rightarrow> string option \<Rightarrow> world \<Rightarrow> provider option \<times> world" where
  "init_discovery e region_name profile_name w =
     (case connect e region_name profile_name of
        Inr prov \<Rightarrow> (Some prov, w)
      | Inl NoCredentialsError \<Rightarrow>
          (None, emit (Print ''Error: AWS credentials not found. Please configure your credentials.'') w)
      | Inl x \<Rightarrow> (None, emit (PrintErr ''Error initializing AWS session: '' x) w))"

definition say :: "string \<Rightarrow> world \<Rightarrow> (exn + unit) \<times> world" where
  "say s w = (Inr (), emit (Print s) w)"

definition say_result :: "exn + string \<Rightarrow> world \<Rightarrow> (exn + unit) \<times> world" where
  "say_result m w = (case m of Inl e \<Rightarrow> (Inl e, w) | Inr s \<Rightarrow> say s w)"

text \<open>\<open>print(f"<label>{d[k]}")\<close>\<close>

definition say_field :: "string \<Rightarrow> resource \<Rightarrow> string \<Rightarrow> world \<Rightarrow> (exn + unit) \<times> world" where
  "say_field label d k = say_result (bind_exn (rsub d k) (\<lambda>v. Inr (label @ py_str v)))"

fun run_steps :: "(world \<Rightarrow> (exn + unit) \<times> world) list \<Rightarrow> world \<Rightarrow> (exn + unit) \<times> world" where
  "run_steps [] w = (Inr (), w)"
| "run_steps (step # steps) w =
     (case step w of (Inl e, w1) \<Rightarrow> (Inl e, w1) | (Inr u, w1) \<Rightarrow> run_steps steps w1)"

definition when_steps ::
  "bool \<Rightarrow> (world \<Rightarrow> (exn + unit) \<times> world) list \<Rightarrow> world \<Rightarrow> (exn + unit) \<times> world" where
  "when_steps b steps w = (if b then run_steps steps w else (Inr (), w))"

text \<open>
  The source writes \<open>\\n\<close> inside its f-strings: what is printed starts with a backslash
  and the letter n.
\<close>

definition bsn :: string where
  "bsn = [CHR 0x5C, CHR ''n'']"

text \<open>\<open>name or 'default'\<close>\<close>

definition or_default :: "string option \<Rightarrow> string" where
  "or_default name = (case name of None \<Rightarrow> ''default'' | Some s \<Rightarrow> if s \<noteq> [] then s else ''default'')"

definition when_given ::
  "string option \<Rightarrow> (string \<Rightarrow> world \<Rightarrow> (exn + unit) \<times> world) \<Rightarrow> world \<Rightarrow> (exn + unit) \<times> world" where
  "when_given name step w =
     (case name of None \<Rightarrow> (Inr (), w) | Some s \<Rightarrow> if s \<noteq> [] then step s w else (Inr (), w))"

text \<open>
  \<open>when_given\<close> is \<open>if name: ...\<close> on an optional file name. \<open>report\<close> is what
  \<open>main\<close> does after a successful discovery, inside its \<open>try\<close>.
\<close>

definition report :: "env \<Rightarrow> args \<Rightarrow> discovery_result \<Rightarrow> world \<Rightarrow> (exn + unit) \<times> world" where
  "report e a result =
     run_steps
       [say (bsn @ ''Instance Details:''),
        say_field ''  Instance Type: '' (instance_details result) ''instance_type'',
        say_field ''  State: '' (instance_details result) ''state'',
        say_field ''  Availability Zone: '' (instance_details result) ''availability_zone'',
        say_field ''  VPC ID: '' (instance_details result) ''vpc_id'',
        say_field ''  Launch Time: '' (instance_details result) ''launch_time'',
        say (bsn @ ''Resource Summary:''),
        say_result (format_summary_table (lib e) (summary result) (arg_format a)),
        when_steps (\<not> arg_summary_only a)
          [say (bsn @ ''Detailed Resource Information:''),
           say (replicate 50 CHR ''-''),
           (if arg_detailed a
            then say_result (format_detailed_resources_table (lib e) (resources result) (arg_format a))
            else say_result (format_resources_table (lib e) (resources result) (arg_format a)))],
        when_given (arg_export_csv a) (\<lambda>filename.
          bind_io (export_to_csv (lib e) (resources result) filename)
            (\<lambda>csv_message. say (bsn @ csv_message))),
        when_given (arg_export_json a) (\<lambda>filename.
          bind_io (export_to_json (lib e) result filename)
            (\<lambda>json_message. say (bsn @ json_message))),
        say (bsn @ ''Resource discovery completed successfully!''),
        say_field ''Total billable resources found: '' (summary result) ''total_resources'']"

text \<open>
  \<open>main\<close> gives the exit status of the process: 1 where the source calls
  \<open>sys.exit(1)\<close>, 0 where it runs to its end.
\<close>

definition main :: "env \<Rightarrow> args \<Rightarrow> world \<Rightarrow> nat \<times> world" where
  "main e a w =
     (if \<not> (take 2 (arg_instance_id a) = ''i-'') \<or> length (arg_instance_id a) \<noteq> 19
      then (1, emit (Print ''Instance ID should be in format: i-1234567890abcdef0'')
                 (emit (Print (''Error: Invalid instance ID format: '' @ arg_instance_id a)) w))
      else
        (let w1 = emit (Print (replicate 50 CHR ''=''))
                 (emit (Print (''Timestamp: '' @ now e))
                 (emit (Print (''Profile: '' @ or_default (arg_profile a)))
                 (emit (Print (''Region: '' @ or_default (arg_region a)))
                 (emit (Print (''Instance ID: '' @ arg_instance_id a))
                 (emit (Print (replicate 50 CHR ''=''))
                 (emit (Print ''AWS EC2 Resource Discovery Tool'') w))))))
         in case init_discovery e (arg_region a) (arg_profile a) w1 of
              (None, w2) \<Rightarrow> (1, w2)
            | (Some prov, w2) \<Rightarrow>
                (case discover_all_resources prov (arg_instance_id a) w2 of
                   (None, w3) \<Rightarrow> (1, emit (Print ''Resource discovery failed.'') w3)
                 | (Some result, w3) \<Rightarrow>
                     (case report e a result w3 of
                        (Inl x, w4) \<Rightarrow> (1, emit (PrintErr (bsn @ ''Error: '') x) w4)
                      | (Inr u, w4) \<Rightarrow> (0, w4)))))"

text \<open>
  The format the specification asks of an instance id: \<open>i-\<close> followed by 17 hexadecimal
  characters, 19 characters in all.
\<close>

definition hex_char :: "char \<Rightarrow> bool" where
  "hex_char c = (c \<in> set ''0123456789abcdefABCDEF'')"

definition spec_instance_id_format :: "string \<Rightarrow> bool" where
  "spec_instance_id_format s =
     (take 2 s = ''i-'' \<and> length (drop 2 s) = 17 \<and> list_all hex_char (drop 2 s))"

section \<open>Sample data\<close>

text \<open>
  A provider with one instance, two volumes and one item of every other kind, in the
  shape of the EC2 API responses.
\<close>

definition obj :: "(string \<times> pyval) list \<Rightarrow> pyval" where
  "obj kv = PDict (map (\<lambda>(k, v). (PStr k, v)) kv)"

definition demo_id :: string where
  "demo_id = ''i-1234567890abcdef0''"

definition demo_instance :: pyval where
  "demo_instance = obj
     [(''InstanceType'', PStr ''t3.medium''),
      (''State'', obj [(''Name'', PStr ''running'')]),
      (''LaunchTime'', PDateTime ''2024-06-15T09:30:00+00:00'' ''2024-06-15 09:30:00+00:00''
                         ''datetime.datetime(2024, 6, 15, 9, 30, tzinfo=tzutc())''),
      (''Placement'', obj [(''AvailabilityZone'', PStr ''us-east-1a'')]),
      (''VpcId'', PStr ''vpc-1''),
      (''ImageId'', PStr ''ami-1''),
      (''SecurityGroups'', PList [obj [(''GroupId'', PStr ''sg-1'')]]),
      (''Tags'', PList [obj [(''Key'', PStr ''Name''), (''Value'', PStr ''WebServer'')]])]"

definition demo_volume :: "string \<Rightarrow> string \<Rightarrow> pyval" where
  "demo_volume vid device = obj
     [(''VolumeId'', PStr vid),
      (''Size'', PInt 20),
      (''VolumeType'', PStr ''gp3''),
      (''State'', PStr ''in-use''),
      (''Encrypted'', PBool True),
      (''Attachments'', PList [obj [(''InstanceId'', PStr demo_id),
                                   (''Device'', PStr device),
                                   (''DeleteOnTermination'', PBool True)]])]"

definition demo_provider :: provider where
  "demo_provider h c =
     (case c of
        LoadInstance i \<Rightarrow> Inr demo_instance
      | DescribeVolumes i \<Rightarrow>
          Inr (obj [(''Volumes'', PList [demo_volume ''vol-1'' ''/dev/sda1'',
                                        demo_volume ''vol-2'' ''/dev/sdf''])])
      | DescribeNetworkInterfaces i \<Rightarrow>
          Inr (obj [(''NetworkInterfaces'', PList [obj
                 [(''NetworkInterfaceId'', PStr ''eni-1''),
                  (''Status'', PStr ''in-use''),
                  (''SubnetId'', PStr ''subnet-1''),
                  (''VpcId'', PStr ''vpc-1''),
                  (''Groups'', PList [obj [(''GroupId'', PStr ''sg-1'')]])]])])
      | DescribeSnapshots ids \<Rightarrow>
          Inr (obj [(''Snapshots'', PList [obj
                 [(''SnapshotId'', PStr ''snap-1''),
                  (''VolumeId'', PStr ''vol-1''),
                  (''VolumeSize'', PInt 20),
                  (''State'', PStr ''completed''),
                  (''StartTime'', PDateTime ''2024-06-20T10:30:00+00:00''
                                    ''2024-06-20 10:30:00+00:00''
                                    ''datetime.datetime(2024, 6, 20, 10, 30, tzinfo=tzutc())''),
                  (''Encrypted'', PBool True)]])])
      | DescribeImages ids \<Rightarrow>
          Inr (obj [(''Images'', PList [obj
                 [(''ImageId'', PStr ''ami-1''), (''State'', PStr ''available'')]])])
      | DescribeSecurityGroups ids \<Rightarrow>
          Inr (obj [(''SecurityGroups'', PList [obj
                 [(''GroupId'', PStr ''sg-1''),
                  (''GroupName'', PStr ''web''),
                  (''Description'', PStr ''web servers'')]])])
      | DescribeAddresses i \<Rightarrow>
          Inr (obj [(''Addresses'', PList [obj
                 [(''AllocationId'', PStr ''eipalloc-1''), (''PublicIp'', PStr ''54.0.0.1'')]])]))"

text \<open>Providers that fail: on every request, or on the requests of one kind.\<close>

definition denied_provider :: provider where
  "denied_provider h c = Inl (ClientError ''UnauthorizedOperation'')"

definition not_found_provider :: provider where
  "not_found_provider h c = Inl (ClientError ''InvalidInstanceID.NotFound'')"

definition throttled_provider :: provider where
  "throttled_provider h c =
     (case c of
        LoadInstance i \<Rightarrow> Inr demo_instance
      | _ \<Rightarrow> Inl (ClientError ''RequestLimitExceeded''))"

definition snapshots_denied_provider :: provider where
  "snapshots_denied_provider h c =
     (case c of
        DescribeSnapshots ids \<Rightarrow> Inl (ClientError ''UnauthorizedOperation'')
      | _ \<Rightarrow> demo_provider h c)"

definition no_volumes_provider :: provider where
  "no_volumes_provider h c =
     (case c of
        DescribeVolumes i \<Rightarrow> Inr (obj [(''Volumes'', PList [])])
      | _ \<Rightarrow> demo_provider h c)"

definition unreachable_provider :: provider where
  "unreachable_provider h c =
     (case c of
        DescribeVolumes i \<Rightarrow> Inl (OtherException ''EndpointConnectionError'')
      | _ \<Rightarrow> demo_provider h c)"

text \<open>
  A provider that answers the first request it ever gets as the sample provider does and
  throttles every later one.
\<close>

definition lookup_only_provider :: provider where
  "lookup_only_provider h c =
     (if h = [] then demo_provider h c else Inl (ClientError ''RequestLimitExceeded''))"

definition bad_id :: string where
  "bad_id = ''i-zzzzzzzzzzzzzzzzz''"

definition empty_world :: world where
  "empty_world = \<lparr>calls = [], out = [], files = []\<rparr>"

definition demo_lib :: library where
  "demo_lib =
     \<lparr>tabulate = (\<lambda>rows fmt. Inr ''(table)''),
      title = (\<lambda>s. s),
      to_csv = (\<lambda>cols rows filename. Inr (join '','' cols)),
      json_dump = (\<lambda>d filename. Inr ''{}'')\<rparr>"

definition demo_env :: "provider \<Rightarrow> env" where
  "demo_env prov = \<lparr>connect = (\<lambda>region profile. Inr prov), now = ''2024-06-20 10:30:00'',
                     lib = demo_lib\<rparr>"

definition demo_args :: "string \<Rightarrow> args" where
  "demo_args i =
     \<lparr>arg_instance_id = i, arg_region = None, arg_profile = None, arg_format = ''grid'',
      arg_detailed = False, arg_export_csv = None, arg_export_json = None,
      arg_summary_only = False\<rparr>"

text \<open>What the discovery gives for the sample provider, and the world it leaves.\<close>

definition demo_result :: discovery_result where
  "demo_result =
     \<lparr>instance_details =
        [(''instance_id'', PStr ''i-1234567890abcdef0''),
         (''instance_type'', PStr ''t3.medium''),
         (''state'', PStr ''running''),
         (''launch_time'', PStr ''2024-06-15T09:30:00+00:00''),
         (''availability_zone'', PStr ''us-east-1a''),
         (''vpc_id'', PStr ''vpc-1''), (''subnet_id'', PNone),
         (''private_ip'', PNone), (''public_ip'', PNone),
         (''image_id'', PStr ''ami-1''), (''key_name'', PNone),
         (''tags'', PDict [(PStr ''Name'', PStr ''WebServer'')])],
      resources =
        [[(''resource_type'', PStr ''EC2 Instance''),
          (''resource_id'', PStr ''i-1234567890abcdef0''),
          (''instance_type'', PStr ''t3.medium''),
          (''state'', PStr ''running''),
          (''availability_zone'', PStr ''us-east-1a''),
          (''vpc_id'', PStr ''vpc-1''), (''private_ip'', PNone),
          (''public_ip'', PNone),
          (''tags'', PDict [(PStr ''Name'', PStr ''WebServer'')])],
         [(''resource_type'', PStr ''EBS Volume''),
          (''resource_id'', PStr ''vol-1''), (''size_gb'', PInt 20),
          (''volume_type'', PStr ''gp3''), (''state'', PStr ''in-use''),
          (''encrypted'', PBool True), (''iops'', PStr ''N/A''),
          (''throughput'', PStr ''N/A''), (''device'', PStr ''/dev/sda1''),
          (''delete_on_termination'', PBool True), (''tags'', PDict [])],
         [(''resource_type'', PStr ''EBS Volume''),
          (''resource_id'', PStr ''vol-2''), (''size_gb'', PInt 20),
          (''volume_type'', PStr ''gp3''), (''state'', PStr ''in-use''),
          (''encrypted'', PBool True), (''iops'', PStr ''N/A''),
          (''throughput'', PStr ''N/A''), (''device'', PStr ''/dev/sdf''),
          (''delete_on_termination'', PBool True), (''tags'', PDict [])],
         [(''resource_type'', PStr ''Network Interface''),
          (''resource_id'', PStr ''eni-1''),
          (''interface_type'', PStr ''interface''),
          (''status'', PStr ''in-use''), (''subnet_id'', PStr ''subnet-1''),
          (''vpc_id'', PStr ''vpc-1''), (''private_ip'', PNone),
          (''public_ip'', PNone),
          (''security_groups'', PList [PStr ''sg-1'']),
          (''source_dest_check'', PNone), (''tags'', PDict [])],
         [(''resource_type'', PStr ''EBS Snapshot''),
          (''resource_id'', PStr ''snap-1''),
          (''volume_id'', PStr ''vol-1''), (''volume_size_gb'', PInt 20),
          (''state'', PStr ''completed''), (''progress'', PStr ''N/A''),
          (''start_time'', PStr ''2024-06-20T10:30:00+00:00''),
          (''description'', PStr []), (''encrypted'', PBool True),
          (''tags'', PDict [])],
         [(''resource_type'', PStr ''AMI''),
          (''resource_id'', PStr ''ami-1''), (''name'', PStr []),
          (''description'', PStr []), (''state'', PStr ''available''),
          (''architecture'', PNone), (''platform'', PStr ''Linux''),
          (''virtualization_type'', PNone), (''root_device_type'', PNone),
          (''creation_date'', PStr []), (''public'', PBool False),
          (''tags'', PDict [])],
         [(''resource_type'', PStr ''Security Group''),
          (''resource_id'', PStr ''sg-1''), (''name'', PStr ''web''),
          (''description'', PStr ''web servers''), (''vpc_id'', PNone),
          (''inbound_rules'', PInt 0), (''outbound_rules'', PInt 0),
          (''tags'', PDict [])],
         [(''resource_type'', PStr ''Elastic IP''),
          (''resource_id'', PStr ''eipalloc-1''),
          (''public_ip'', PStr ''54.0.0.1''), (''private_ip'', PNone),
          (''domain'', PStr ''vpc''), (''network_interface_id'', PNone),
          (''association_id'', PNone), (''tags'', PDict [])]],
      summary =
        [(''total_resources'', PInt 8), (''volumes'', PInt 2),
         (''network_interfaces'', PInt 1), (''snapshots'', PInt 1),
         (''amis'', PInt 1), (''security_groups'', PInt 1),
         (''elastic_ips'', PInt 1)]\<rparr>"

definition demo_world :: world where
  "demo_world =
     \<lparr>calls =
        [LoadInstance ''i-1234567890abcdef0'',
         DescribeVolumes ''i-1234567890abcdef0'',
         DescribeNetworkInterfaces ''i-1234567890abcdef0'',
         DescribeVolumes ''i-1234567890abcdef0'',
         DescribeSnapshots [PStr ''vol-1'', PStr ''vol-2''],
         LoadInstance ''i-1234567890abcdef0'', DescribeImages [PStr ''ami-1''],
         LoadInstance ''i-1234567890abcdef0'',
         DescribeSecurityGroups [PStr ''sg-1''],
         DescribeAddresses ''i-1234567890abcdef0''],
      out = [Print ''Discovering resources for EC2 instance: i-1234567890abcdef0''],
      files = []\<rparr>"

section \<open>Notions used in the statements\<close>

fun is_client_error :: "exn \<Rightarrow> bool" where
  "is_client_error (ClientError c) = True"
| "is_client_error e = False"

text \<open>An outcome that is not a raised \<open>ClientError\<close>.\<close>

definition safe :: "exn + 'a \<Rightarrow> bool" where
  "safe m = (case m of Inl e \<Rightarrow> \<not> is_client_error e | Inr x \<Rightarrow> True)"

text \<open>An outcome that is a raised \<open>ClientError\<close>.\<close>

fun raises_client_error :: "exn + 'a \<Rightarrow> bool" where
  "raises_client_error (Inl e) = is_client_error e"
| "raises_client_error (Inr x) = False"

text \<open>
  \<open>request_failed prov h cs\<close>: of the requests \<open>cs\<close>, sent one after the other after the
  requests \<open>h\<close>, one was answered by a raised \<open>ClientError\<close>.
\<close>

fun request_failed :: "provider \<Rightarrow> api_call list \<Rightarrow> api_call list \<Rightarrow> bool" where
  "request_failed prov h [] = False"
| "request_failed prov h (c # cs) =
     (raises_client_error (prov h c) \<or> request_failed prov (h @ [c]) cs)"

text \<open>One of the requests sent between the worlds \<open>a\<close> and \<open>a'\<close> failed so.\<close>

definition client_error_between :: "provider \<Rightarrow> world \<Rightarrow> world \<Rightarrow> bool" where
  "client_error_between prov a a' =
     request_failed prov (calls a) (drop (length (calls a)) (calls a'))"

text \<open>The records of a list that carry a given \<open>resource_type\<close>.\<close>

definition has_type :: "string \<Rightarrow> resource \<Rightarrow> bool" where
  "has_type t r = (rsub r ''resource_type'' = Inr (PStr t))"

definition count_type :: "string \<Rightarrow> resource list \<Rightarrow> nat" where
  "count_type t rs = length (filter (has_type t) rs)"

text \<open>
  \<open>from_response prov h c member info rs\<close>: asked \<open>c\<close> after the requests \<open>h\<close>, the
  provider answers with a response whose \<open>member\<close> lists as many items as \<open>rs\<close> has
  records, and the k-th record is what \<open>info\<close> makes of the k-th item.
\<close>

definition from_response ::
  "provider \<Rightarrow> api_call list \<Rightarrow> api_call \<Rightarrow> string \<Rightarrow> (pyval \<Rightarrow> exn + resource) \<Rightarrow>
   resource list \<Rightarrow> bool" where
  "from_response prov h c member info rs =
     (case prov h c of
        Inl e \<Rightarrow> False
      | Inr response \<Rightarrow>
          (case bind_exn (subscr response member) py_iter of
             Inl e \<Rightarrow> False
           | Inr items \<Rightarrow> list_all2 (\<lambda>item r. info item = Inr r) items rs))"

text \<open>
  The assignments that flattening a record makes, in the order in which it makes them, and
  the column names they go to.
\<close>

definition flat_entries :: "resource \<Rightarrow> resource" where
  "flat_entries r =
     concat (map (\<lambda>(key, v).
       case v of
         PDict kv \<Rightarrow> map (\<lambda>(sub_key, sub_value). (key @ ''_'' @ py_str sub_key, sub_value)) kv
       | PList xs \<Rightarrow> [(key, PStr (join '', '' (map py_str xs)))]
       | _ \<Rightarrow> [(key, v)]) r)"

definition flat_names :: "resource \<Rightarrow> string list" where
  "flat_names r = map fst (flat_entries r)"

text \<open>A value that is neither a dict nor a list.\<close>

fun scalar :: "pyval \<Rightarrow> bool" where
  "scalar (PDict kv) = False"
| "scalar (PList xs) = False"
| "scalar v = True"

text \<open>A network interface record with two security groups and one tag.\<close>

definition demo_eni :: resource where
  "demo_eni =
     [(''resource_type'', PStr ''Network Interface''),
      (''resource_id'', PStr ''eni-1''),
      (''security_groups'', PList [PStr ''sg-1'', PStr ''sg-2'']),
      (''source_dest_check'', PBool True),
      (''tags'', PDict [(PStr ''Name'', PStr ''Primary-ENI'')])]"

text \<open>A record with a field named like the column of one of its tags.\<close>

definition collision_record :: resource where
  "collision_record =
     [(''resource_type'', PStr ''EBS Volume''),
      (''resource_id'', PStr ''vol-1''),
      (''tags'', PDict [(PStr ''x'', PStr ''a'')]),
      (''tags_x'', PStr ''b'')]"

section \<open>Sequencing, loops and the exceptions that are not \<open>ClientError\<close>\<close>

lemma bind_io_Inr:
  assumes "bind_io m f w = (Inr y, w')"
  obtains x w1 where "m w = (Inr x, w1)" and "f x w1 = (Inr y, w')"
  using assms by (auto simp: bind_io_def split: prod.splits sum.splits)

lemma discover_Some:
  assumes "discover_all_resources prov i w = (Some r, w')"
  shows "discover_body prov i
           (emit (Print (''Discovering resources for EC2 instance: '' @ i)) w) = (Inr r, w')"
  using assms by (auto simp: discover_all_resources_def split: prod.splits sum.splits exn.splits)

lemma discover_body_Inr:
  assumes "discover_body prov i w = (Inr r, w')"
  obtains details inst vols enis snaps amis sgs eips w1 w2 w3 w4 w5 w6 where
    "get_instance_details prov i w = (Inr details, w1)"
    "instance_resource i details = Inr inst"
    "get_associated_volumes prov i w1 = (Inr vols, w2)"
    "get_associated_network_interfaces prov i w2 = (Inr enis, w3)"
    "get_associated_snapshots prov i w3 = (Inr snaps, w4)"
    "get_associated_ami prov i w4 = (Inr amis, w5)"
    "get_associated_security_groups prov i w5 = (Inr sgs, w6)"
    "get_associated_elastic_ips prov i w6 = (Inr eips, w')"
    "r = make_result details inst vols enis snaps amis sgs eips"
  using assms unfolding discover_body_def bind_io_def
  by (auto split: prod.splits sum.splits)

lemma comprehension_Inr_all2:
  "comprehension f xs = Inr ys \<Longrightarrow> list_all2 (\<lambda>x y. f x = Inr y) xs ys"
  by (induction xs arbitrary: ys) (auto split: sum.splits)

lemma all2_comprehension_Inr:
  "list_all2 (\<lambda>x y. f x = Inr y) xs ys \<Longrightarrow> comprehension f xs = Inr ys"
  by (induction xs ys rule: list_all2_induct) auto

lemma for_append_None:
  "for_append f xs acc = (None, rs) \<Longrightarrow> \<exists>ys. rs = acc @ ys \<and> comprehension f xs = Inr ys"
proof (induction xs arbitrary: acc)
  case Nil
  then show ?case by simp
next
  case (Cons x xs)
  from Cons.prems obtain y where y: "f x = Inr y"
    and rest: "for_append f xs (acc @ [y]) = (None, rs)"
    by (auto split: sum.splits)
  from Cons.IH [OF rest] obtain ys where "rs = (acc @ [y]) @ ys" "comprehension f xs = Inr ys"
    by blast
  with y show ?case by simp
qed

lemma for_append_Some:
  "for_append f xs acc = (Some e, rs) \<Longrightarrow> \<exists>x\<in>set xs. f x = Inl e"
  by (induction xs arbitrary: acc) (auto split: sum.splits)

lemma for_append_set:
  "for_append f xs acc = (x, rs) \<Longrightarrow> y \<in> set rs \<Longrightarrow> y \<in> set acc \<or> (\<exists>x\<in>set xs. f x = Inr y)"
proof (induction xs arbitrary: acc)
  case Nil
  then show ?case by simp
next
  case (Cons a xs)
  then show ?case by (fastforce split: sum.splits)
qed

lemma safe_simps [simp]:
  "safe (Inr x)" "safe (Inl e) = (\<not> is_client_error e)"
  by (simp_all add: safe_def)

lemma safe_subscr [simp]: "safe (subscr d k)"
  by (simp add: subscr_def split: pyval.splits option.splits)

lemma safe_dict_get [simp]: "safe (dict_get d k v)"
  by (simp add: dict_get_def split: pyval.splits option.splits)

lemma safe_rsub [simp]: "safe (rsub r k)"
  by (simp add: rsub_def split: option.splits)

lemma safe_py_iter [simp]: "safe (py_iter v)"
  by (cases v) simp_all

lemma safe_py_len [simp]: "safe (py_len v)"
  by (cases v) simp_all

lemma safe_isoformat [simp]: "safe (isoformat v)"
  by (cases v) simp_all

lemma safe_bind [intro!]: "safe m \<Longrightarrow> (\<And>x. safe (f x)) \<Longrightarrow> safe (bind_exn m f)"
  by (cases m) (simp_all add: bind_exn_def)

lemma safe_comprehension [intro!]: "(\<And>x. safe (f x)) \<Longrightarrow> safe (comprehension f xs)"
proof (induction xs)
  case Nil
  then show ?case by simp
next
  case (Cons a xs)
  from Cons.prems have "safe (f a)" by blast
  moreover from Cons have "safe (comprehension f xs)" by blast
  ultimately show ?case by (auto simp: safe_def split: sum.splits)
qed

lemma safe_tags_loop [simp]: "safe (tags_loop ts acc)"
proof (induction ts arbitrary: acc)
  case Nil
  then show ?case by simp
next
  case (Cons t ts)
  show ?case by (auto simp: Cons.IH)
qed

lemma safe_tags_dict [intro!]: "safe m \<Longrightarrow> safe (tags_dict m)"
  unfolding tags_dict_def by auto

lemma safe_build_dict: "(\<And>k m. (k, m) \<in> set xs \<Longrightarrow> safe m) \<Longrightarrow> safe (build_dict xs)"
proof (induction xs)
  case Nil
  then show ?case by simp
next
  case (Cons a xs)
  obtain k m where a: "a = (k, m)" by (cases a)
  from Cons.prems a have "safe m" by auto
  moreover from Cons have "safe (build_dict xs)" by auto
  ultimately show ?case using a by (auto simp: safe_def split: sum.splits)
qed

lemma safe_attachment_loop [simp]: "safe (attachment_loop i as info)"
proof (induction as)
  case Nil
  then show ?case by simp
next
  case (Cons a as)
  show ?case by (auto simp: Cons.IH)
qed

lemma safe_volume_info [simp]: "safe (volume_info i v)"
  unfolding volume_info_def by (intro safe_bind safe_build_dict) auto

lemma safe_eni_info [simp]: "safe (eni_info v)"
  unfolding eni_info_def by (intro safe_build_dict) auto

lemma safe_snapshot_info [simp]: "safe (snapshot_info v)"
  unfolding snapshot_info_def by (intro safe_build_dict) auto

lemma safe_ami_info [simp]: "safe (ami_info v)"
  unfolding ami_info_def by (intro safe_build_dict) auto

lemma safe_sg_info [simp]: "safe (sg_info v)"
  unfolding sg_info_def by (intro safe_build_dict) auto

lemma safe_eip_info [simp]: "safe (eip_info v)"
  unfolding eip_info_def by (intro safe_build_dict) auto

section \<open>What a collector returns\<close>

lemma except_client_error_Inr:
  assumes "except_client_error msg body w = (Inr rs, w')"
  shows "rs = snd body" and "fst body = None \<or> (\<exists>c. fst body = Some (ClientError c))"
  using assms by (auto simp: except_client_error_def split: option.splits exn.splits)

lemma except_client_error_Inl:
  "except_client_error msg body w = (Inl e, w') \<Longrightarrow> \<not> is_client_error e"
  by (auto simp: except_client_error_def split: option.splits exn.splits)

lemma collect_loop_None:
  assumes "collect_loop info m resp = (None, rs)"
  shows "\<exists>items. bind_exn (subscr resp m) py_iter = Inr items
           \<and> list_all2 (\<lambda>x y. info x = Inr y) items rs"
  using assms
  by (auto simp: collect_loop_def split: sum.splits
           dest!: for_append_None comprehension_Inr_all2)

lemma collect_loop_Some:
  assumes "\<And>x. safe (info x)" and "collect_loop info m resp = (Some e, rs)"
  shows "\<not> is_client_error e"
proof (cases "bind_exn (subscr resp m) py_iter")
  case (Inl a)
  have "safe (bind_exn (subscr resp m) py_iter)" by auto
  with Inl assms(2) show ?thesis by (simp add: collect_loop_def)
next
  case (Inr items)
  with assms(2) have "for_append info items [] = (Some e, rs)" by (simp add: collect_loop_def)
  then obtain x where "info x = Inl e" by (blast dest: for_append_Some)
  with assms(1) [of x] show ?thesis by simp
qed

lemma collect_loop_set:
  assumes "y \<in> set (snd (collect_loop info m resp))"
  shows "\<exists>x. info x = Inr y"
proof (cases "bind_exn (subscr resp m) py_iter")
  case (Inl a)
  with assms show ?thesis by (simp add: collect_loop_def)
next
  case (Inr items)
  obtain e rs where b: "for_append info items [] = (e, rs)" by (cases "for_append info items []")
  with Inr assms have "y \<in> set rs" by (simp add: collect_loop_def)
  from for_append_set [OF b this] show ?thesis by auto
qed

text \<open>What a collector returns after its query was answered by \<open>answer\<close>.\<close>

lemma answered:
  assumes safe: "\<And>x. safe (info x)"
    and run: "except_client_error msg
                (case answer of Inl e \<Rightarrow> (Some e, [])
                 | Inr response \<Rightarrow> collect_loop info member response) w = (Inr rs, w')"
  shows "rs = [] \<or> (\<exists>response items. answer = Inr response
            \<and> bind_exn (subscr response member) py_iter = Inr items
            \<and> list_all2 (\<lambda>x y. info x = Inr y) items rs)"
    and "\<forall>y\<in>set rs. \<exists>x. info x = Inr y"
proof -
  let ?body = "case answer of Inl e \<Rightarrow> (Some e, [])
               | Inr response \<Rightarrow> collect_loop info member response"
  from except_client_error_Inr [OF run]
  have rs: "rs = snd ?body" and e: "fst ?body = None \<or> (\<exists>c. fst ?body = Some (ClientError c))"
    by auto
  show "rs = [] \<or> (\<exists>response items. answer = Inr response
            \<and> bind_exn (subscr response member) py_iter = Inr items
            \<and> list_all2 (\<lambda>x y. info x = Inr y) items rs)"
  proof (cases answer)
    case (Inl a)
    with rs show ?thesis by simp
  next
    case (Inr response)
    from e show ?thesis
    proof
      assume "fst ?body = None"
      with Inr rs have "collect_loop info member response = (None, rs)"
        by (simp add: prod_eq_iff)
      from collect_loop_None [OF this] Inr show ?thesis by blast
    next
      assume "\<exists>c. fst ?body = Some (ClientError c)"
      then obtain c where "fst ?body = Some (ClientError c)" ..
      with Inr rs have "collect_loop info member response = (Some (ClientError c), rs)"
        by (simp add: prod_eq_iff)
      from collect_loop_Some [OF safe this] show ?thesis by simp
    qed
  qed
  show "\<forall>y\<in>set rs. \<exists>x. info x = Inr y"
  proof (cases answer)
    case (Inl a)
    with rs show ?thesis by simp
  next
    case (Inr response)
    with rs show ?thesis by (auto dest: collect_loop_set)
  qed
qed

lemma from_responseI:
  assumes "prov h c = Inr response" "bind_exn (subscr response member) py_iter = Inr items"
    "list_all2 (\<lambda>x y. info x = Inr y) items rs"
  shows "from_response prov h c member info rs"
  using assms by (simp add: from_response_def)

lemma build_dict_Cons_Inr:
  "build_dict ((k, Inr v) # rest) = Inr r \<Longrightarrow> rsub r k = Inr v"
  by (auto simp: rsub_def split: sum.splits)

lemma map_of_rset: "map_of (rset r k v) k' = (if k' = k then Some v else map_of r k')"
  by (induction r) auto

lemma attachment_loop_keeps:
  assumes "attachment_loop i as info = Inr r" "k \<noteq> ''device''" "k \<noteq> ''delete_on_termination''"
  shows "map_of r k = map_of info k"
  using assms
proof (induction as)
  case Nil
  then show ?case by simp
next
  case (Cons a as)
  then show ?case
    by (auto simp: bind_exn_def map_of_rset split: sum.splits if_splits)
qed

lemma volume_info_type: "volume_info i v = Inr r \<Longrightarrow> has_type ''EBS Volume'' r"
proof -
  assume a: "volume_info i v = Inr r"
  then obtain info atts where b: "build_dict
       [(''resource_type'', Inr (PStr ''EBS Volume'')),
        (''resource_id'', subscr v ''VolumeId''),
        (''size_gb'', subscr v ''Size''),
        (''volume_type'', subscr v ''VolumeType''),
        (''state'', subscr v ''State''),
        (''encrypted'', subscr v ''Encrypted''),
        (''iops'', dict_get v ''Iops'' (PStr ''N/A'')),
        (''throughput'', dict_get v ''Throughput'' (PStr ''N/A'')),
        (''device'', Inr PNone),
        (''delete_on_termination'', Inr (PBool False)),
        (''tags'', tags_dict (dict_get v ''Tags'' (PList [])))] = Inr info"
    and c: "attachment_loop i atts info = Inr r"
    unfolding volume_info_def bind_exn_def by (auto split: sum.splits)
  from build_dict_Cons_Inr [OF b] have "map_of info ''resource_type'' = Some (PStr ''EBS Volume'')"
    by (simp add: rsub_def split: option.splits)
  moreover from attachment_loop_keeps [OF c, of "''resource_type''"]
  have "map_of r ''resource_type'' = map_of info ''resource_type''" by simp
  ultimately show ?thesis by (simp add: has_type_def rsub_def)
qed

lemma eni_info_type: "eni_info v = Inr r \<Longrightarrow> has_type ''Network Interface'' r"
  unfolding eni_info_def has_type_def by (rule build_dict_Cons_Inr)

lemma snapshot_info_type: "snapshot_info v = Inr r \<Longrightarrow> has_type ''EBS Snapshot'' r"
  unfolding snapshot_info_def has_type_def by (rule build_dict_Cons_Inr)

lemma ami_info_type: "ami_info v = Inr r \<Longrightarrow> has_type ''AMI'' r"
  unfolding ami_info_def has_type_def by (rule build_dict_Cons_Inr)

lemma sg_info_type: "sg_info v = Inr r \<Longrightarrow> has_type ''Security Group'' r"
  unfolding sg_info_def has_type_def by (rule build_dict_Cons_Inr)

lemma eip_info_type: "eip_info v = Inr r \<Longrightarrow> has_type ''Elastic IP'' r"
  unfolding eip_info_def has_type_def by (rule build_dict_Cons_Inr)

lemma instance_resource_type:
  "instance_resource i d = Inr r \<Longrightarrow> has_type ''EC2 Instance'' r"
  unfolding instance_resource_def has_type_def by (rule build_dict_Cons_Inr)

lemma volumes_facts:
  assumes "get_associated_volumes prov i w = (Inr rs, w')"
  shows "list_all (has_type ''EBS Volume'') rs"
    and "rs = [] \<or> from_response prov (calls w) (DescribeVolumes i) ''Volumes'' (volume_info i) rs"
proof -
  from assms have run: "except_client_error ''Error retrieving volumes: ''
      (case prov (calls w) (DescribeVolumes i) of Inl e \<Rightarrow> (Some e, [])
       | Inr response \<Rightarrow> collect_loop (volume_info i) ''Volumes'' response)
      (w\<lparr>calls := calls w @ [DescribeVolumes i]\<rparr>) = (Inr rs, w')"
    by (simp add: get_associated_volumes_def call_def)
  from answered(2) [OF safe_volume_info run] show "list_all (has_type ''EBS Volume'') rs"
    by (auto simp: list_all_iff dest: volume_info_type)
  from answered(1) [OF safe_volume_info run]
  show "rs = [] \<or> from_response prov (calls w) (DescribeVolumes i) ''Volumes'' (volume_info i) rs"
    by (auto intro: from_responseI)
qed

lemma network_interfaces_facts:
  assumes "get_associated_network_interfaces prov i w = (Inr rs, w')"
  shows "list_all (has_type ''Network Interface'') rs"
    and "rs = [] \<or> from_response prov (calls w) (DescribeNetworkInterfaces i)
                      ''NetworkInterfaces'' eni_info rs"
proof -
  from assms have run: "except_client_error ''Error retrieving network interfaces: ''
      (case prov (calls w) (DescribeNetworkInterfaces i) of Inl e \<Rightarrow> (Some e, [])
       | Inr response \<Rightarrow> collect_loop eni_info ''NetworkInterfaces'' response)
      (w\<lparr>calls := calls w @ [DescribeNetworkInterfaces i]\<rparr>) = (Inr rs, w')"
    by (simp add: get_associated_network_interfaces_def call_def)
  from answered(2) [OF safe_eni_info run] show "list_all (has_type ''Network Interface'') rs"
    by (auto simp: list_all_iff dest: eni_info_type)
  from answered(1) [OF safe_eni_info run]
  show "rs = [] \<or> from_response prov (calls w) (DescribeNetworkInterfaces i)
                      ''NetworkInterfaces'' eni_info rs"
    by (auto intro: from_responseI)
qed

lemma elastic_ips_facts:
  assumes "get_associated_elastic_ips prov i w = (Inr rs, w')"
  shows "list_all (has_type ''Elastic IP'') rs"
    and "rs = [] \<or> from_response prov (calls w) (DescribeAddresses i) ''Addresses'' eip_info rs"
proof -
  from assms have run: "except_client_error ''Error retrieving Elastic IPs: ''
      (case prov (calls w) (DescribeAddresses i) of Inl e \<Rightarrow> (Some e, [])
       | Inr response \<Rightarrow> collect_loop eip_info ''Addresses'' response)
      (w\<lparr>calls := calls w @ [DescribeAddresses i]\<rparr>) = (Inr rs, w')"
    by (simp add: get_associated_elastic_ips_def call_def)
  from answered(2) [OF safe_eip_info run] show "list_all (has_type ''Elastic IP'') rs"
    by (auto simp: list_all_iff dest: eip_info_type)
  from answered(1) [OF safe_eip_info run]
  show "rs = [] \<or> from_response prov (calls w) (DescribeAddresses i) ''Addresses'' eip_info rs"
    by (auto intro: from_responseI)
qed

lemma volumes_calls:
  "calls (snd (get_associated_volumes prov i w)) = calls w @ [DescribeVolumes i]"
  by (auto simp: get_associated_volumes_def call_def except_client_error_def emit_def Let_def
           split: option.splits exn.splits sum.splits)

lemma snapshots_run:
  assumes "get_associated_snapshots prov i w = (Inr rs, w')" and "rs \<noteq> []"
  obtains volumes w1 ids where
    "get_associated_volumes prov i w = (Inr volumes, w1)"
    "comprehension (\<lambda>vol. rsub vol ''resource_id'') volumes = Inr ids"
    "ids \<noteq> []"
    "except_client_error ''Error retrieving snapshots: ''
      (case prov (calls w1) (DescribeSnapshots ids) of Inl e \<Rightarrow> (Some e, [])
       | Inr response \<Rightarrow> collect_loop snapshot_info ''Snapshots'' response)
      (w1\<lparr>calls := calls w1 @ [DescribeSnapshots ids]\<rparr>) = (Inr rs, w')"
  using assms
  by (auto simp: get_associated_snapshots_def call_def Let_def
           split: sum.splits if_splits prod.splits)

lemma snapshots_facts:
  assumes "get_associated_snapshots prov i w = (Inr rs, w')"
  shows "list_all (has_type ''EBS Snapshot'') rs"
    and "rs = [] \<or> (\<exists>ids. from_response prov (calls w @ [DescribeVolumes i])
                       (DescribeSnapshots ids) ''Snapshots'' snapshot_info rs)"
proof -
  have "list_all (has_type ''EBS Snapshot'') rs \<and>
     (rs = [] \<or> (\<exists>ids. from_response prov (calls w @ [DescribeVolumes i])
                       (DescribeSnapshots ids) ''Snapshots'' snapshot_info rs))"
  proof (cases "rs = []")
    case True
    then show ?thesis by simp
  next
    case False
    from snapshots_run [OF assms False] obtain volumes w1 ids where
      v: "get_associated_volumes prov i w = (Inr volumes, w1)"
      and run: "except_client_error ''Error retrieving snapshots: ''
        (case prov (calls w1) (DescribeSnapshots ids) of Inl e \<Rightarrow> (Some e, [])
         | Inr response \<Rightarrow> collect_loop snapshot_info ''Snapshots'' response)
        (w1\<lparr>calls := calls w1 @ [DescribeSnapshots ids]\<rparr>) = (Inr rs, w')"
      by blast
    from volumes_calls [of prov i w] v have c1: "calls w1 = calls w @ [DescribeVolumes i]"
      by simp
    from answered(2) [OF safe_snapshot_info run] have "list_all (has_type ''EBS Snapshot'') rs"
      by (auto simp: list_all_iff dest: snapshot_info_type)
    moreover from answered(1) [OF safe_snapshot_info run] c1
    have "rs = [] \<or> (\<exists>ids. from_response prov (calls w @ [DescribeVolumes i])
                       (DescribeSnapshots ids) ''Snapshots'' snapshot_info rs)"
      by (auto intro: from_responseI)
    ultimately show ?thesis by simp
  qed
  then show "list_all (has_type ''EBS Snapshot'') rs"
    and "rs = [] \<or> (\<exists>ids. from_response prov (calls w @ [DescribeVolumes i])
                       (DescribeSnapshots ids) ''Snapshots'' snapshot_info rs)"
    by simp_all
qed

lemma ami_run:
  assumes "get_associated_ami prov i w = (Inr rs, w')" and "rs \<noteq> []"
  obtains ids where
    "except_client_error ''Error retrieving AMI: ''
      (case prov (calls w @ [LoadInstance i]) (DescribeImages ids) of Inl e \<Rightarrow> (Some e, [])
       | Inr response \<Rightarrow> collect_loop ami_info ''Images'' response)
      (w\<lparr>calls := calls w @ [LoadInstance i, DescribeImages ids]\<rparr>) = (Inr rs, w')"
  using assms
  by (auto simp: get_associated_ami_def call_def Let_def except_client_error_def
           split: sum.splits if_splits prod.splits exn.splits)

lemma ami_facts:
  assumes "get_associated_ami prov i w = (Inr rs, w')"
  shows "list_all (has_type ''AMI'') rs"
    and "rs = [] \<or> (\<exists>ids. from_response prov (calls w @ [LoadInstance i])
                       (DescribeImages ids) ''Images'' ami_info rs)"
proof -
  have "list_all (has_type ''AMI'') rs \<and>
     (rs = [] \<or> (\<exists>ids. from_response prov (calls w @ [LoadInstance i])
                       (DescribeImages ids) ''Images'' ami_info rs))"
  proof (cases "rs = []")
    case True
    then show ?thesis by simp
  next
    case False
    from ami_run [OF assms False] obtain ids where
      run: "except_client_error ''Error retrieving AMI: ''
        (case prov (calls w @ [LoadInstance i]) (DescribeImages ids) of Inl e \<Rightarrow> (Some e, [])
         | Inr response \<Rightarrow> collect_loop ami_info ''Images'' response)
        (w\<lparr>calls := calls w @ [LoadInstance i, DescribeImages ids]\<rparr>) = (Inr rs, w')"
      by blast
    from answered(2) [OF safe_ami_info run] have "list_all (has_type ''AMI'') rs"
      by (auto simp: list_all_iff dest: ami_info_type)
    moreover from answered(1) [OF safe_ami_info run]
    have "rs = [] \<or> (\<exists>ids. from_response prov (calls w @ [LoadInstance i])
                       (DescribeImages ids) ''Images'' ami_info rs)"
      by (auto intro: from_responseI)
    ultimately show ?thesis by simp
  qed
  then show "list_all (has_type ''AMI'') rs"
    and "rs = [] \<or> (\<exists>ids. from_response prov (calls w @ [LoadInstance i])
                       (DescribeImages ids) ''Images'' ami_info rs)"
    by simp_all
qed

lemma security_groups_run:
  assumes "get_associated_security_groups prov i w = (Inr rs, w')" and "rs \<noteq> []"
  obtains ids where
    "except_client_error ''Error retrieving security groups: ''
      (case prov (calls w @ [LoadInstance i]) (DescribeSecurityGroups ids) of
         Inl e \<Rightarrow> (Some e, [])
       | Inr response \<Rightarrow> collect_loop sg_info ''SecurityGroups'' response)
      (w\<lparr>calls := calls w @ [LoadInstance i, DescribeSecurityGroups ids]\<rparr>) = (Inr rs, w')"
  using assms
  by (auto simp: get_associated_security_groups_def call_def Let_def except_client_error_def
           split: sum.splits if_splits prod.splits exn.splits)

lemma security_groups_facts:
  assumes "get_associated_security_groups prov i w = (Inr rs, w')"
  shows "list_all (has_type ''Security Group'') rs"
    and "rs = [] \<or> (\<exists>ids. from_response prov (calls w @ [LoadInstance i])
                       (DescribeSecurityGroups ids) ''SecurityGroups'' sg_info rs)"
proof -
  have "list_all (has_type ''Security Group'') rs \<and>
     (rs = [] \<or> (\<exists>ids. from_response prov (calls w @ [LoadInstance i])
                       (DescribeSecurityGroups ids) ''SecurityGroups'' sg_info rs))"
  proof (cases "rs = []")
    case True
    then show ?thesis by simp
  next
    case False
    from security_groups_run [OF assms False] obtain ids where
      run: "except_client_error ''Error retrieving security groups: ''
        (case prov (calls w @ [LoadInstance i]) (DescribeSecurityGroups ids) of
           Inl e \<Rightarrow> (Some e, [])
         | Inr response \<Rightarrow> collect_loop sg_info ''SecurityGroups'' response)
        (w\<lparr>calls := calls w @ [LoadInstance i, DescribeSecurityGroups ids]\<rparr>) = (Inr rs, w')"
      by blast
    from answered(2) [OF safe_sg_info run] have "list_all (has_type ''Security Group'') rs"
      by (auto simp: list_all_iff dest: sg_info_type)
    moreover from answered(1) [OF safe_sg_info run]
    have "rs = [] \<or> (\<exists>ids. from_response prov (calls w @ [LoadInstance i])
                       (DescribeSecurityGroups ids) ''SecurityGroups'' sg_info rs)"
      by (auto intro: from_responseI)
    ultimately show ?thesis by simp
  qed
  then show "list_all (has_type ''Security Group'') rs"
    and "rs = [] \<or> (\<exists>ids. from_response prov (calls w @ [LoadInstance i])
                       (DescribeSecurityGroups ids) ''SecurityGroups'' sg_info rs)"
    by simp_all
qed

section \<open>The discovery on the sample provider\<close>

lemma demo_run:
  "discover_all_resources demo_provider demo_id empty_world = (Some demo_result, demo_world)"
  by code_simp

section \<open>The result of \<open>discover_all_resources\<close>\<close>

lemma has_type_unique: "has_type t r \<Longrightarrow> has_type t' r \<Longrightarrow> t = t'"
  by (simp add: has_type_def)

lemma count_type_append: "count_type t (xs @ ys) = count_type t xs + count_type t ys"
  by (simp add: count_type_def)

lemma count_type_same: "list_all (has_type t) xs \<Longrightarrow> count_type t xs = length xs"
  by (induction xs) (auto simp: count_type_def)

lemma count_type_other: "list_all (has_type t') xs \<Longrightarrow> t \<noteq> t' \<Longrightarrow> count_type t xs = 0"
  by (induction xs) (auto simp: count_type_def dest: has_type_unique)

lemma count_type_single: "has_type t' x \<Longrightarrow> count_type t [x] = (if t = t' then 1 else 0)"
  by (auto simp: count_type_def dest: has_type_unique)

lemma resources_make_result:
  "resources (make_result d inst vols enis snaps amis sgs eips)
     = [inst] @ vols @ enis @ snaps @ amis @ sgs @ eips"
  by (simp add: make_result_def)

lemma summary_make_result:
  "summary (make_result d inst vols enis snaps amis sgs eips) =
     [(''total_resources'',
         PInt (int (length ([inst] @ vols @ enis @ snaps @ amis @ sgs @ eips)))),
      (''volumes'', PInt (int (length vols))),
      (''network_interfaces'', PInt (int (length enis))),
      (''snapshots'', PInt (int (length snaps))),
      (''amis'', PInt (int (length amis))),
      (''security_groups'', PInt (int (length sgs))),
      (''elastic_ips'', PInt (int (length eips)))]"
  by (simp add: make_result_def)

text \<open>
  C2. Whenever \<open>discover_all_resources\<close> returns a result, the entry
  \<open>total_resources\<close> of its summary is the length of its list of resources.
\<close>

theorem total_resources_is_length:
  assumes "discover_all_resources prov i w = (Some r, w')"
  shows "rsub (summary r) ''total_resources'' = Inr (PInt (int (length (resources r))))"
proof -
  from discover_Some [OF assms] obtain d inst vols enis snaps amis sgs eips
    where "r = make_result d inst vols enis snaps amis sgs eips"
    by (rule discover_body_Inr)
  then show ?thesis
    by (simp only: summary_make_result resources_make_result) (simp add: rsub_def)
qed

theorem total_resources_is_length_witness:
  "discover_all_resources demo_provider demo_id empty_world = (Some demo_result, demo_world)
   \<and> rsub (summary demo_result) ''total_resources''
       = Inr (PInt (int (length (resources demo_result))))"
  using total_resources_is_length [OF demo_run] demo_run by simp

lemma instance_details_world:
  "snd (get_instance_details prov i w) = w\<lparr>calls := calls w @ [LoadInstance i]\<rparr>"
  by (auto simp: get_instance_details_def call_def Let_def split: sum.splits exn.splits)

lemma instance_resource_id:
  "instance_resource i d = Inr r \<Longrightarrow> rsub r ''resource_id'' = Inr (PStr i)"
  by (auto simp: instance_resource_def rsub_def split: sum.splits)

text \<open>
  C3. Whenever \<open>discover_all_resources\<close> returns a result, each of the six counts of the
  summary (\<open>volumes\<close>, \<open>network_interfaces\<close>, \<open>snapshots\<close>, \<open>amis\<close>,
  \<open>security_groups\<close>, \<open>elastic_ips\<close>) is the number of records of the resource list
  whose \<open>resource_type\<close> is the type name of that kind. The record of the instance, the
  first of the list, is the only one of type \<open>EC2 Instance\<close>, so it is counted under none
  of the six kinds.
\<close>

theorem summary_counts:
  assumes "discover_all_resources prov i w = (Some r, w')"
  shows "rsub (summary r) ''volumes'' = Inr (PInt (int (count_type ''EBS Volume'' (resources r))))
    \<and> rsub (summary r) ''network_interfaces''
        = Inr (PInt (int (count_type ''Network Interface'' (resources r))))
    \<and> rsub (summary r) ''snapshots''
        = Inr (PInt (int (count_type ''EBS Snapshot'' (resources r))))
    \<and> rsub (summary r) ''amis'' = Inr (PInt (int (count_type ''AMI'' (resources r))))
    \<and> rsub (summary r) ''security_groups''
        = Inr (PInt (int (count_type ''Security Group'' (resources r))))
    \<and> rsub (summary r) ''elastic_ips''
        = Inr (PInt (int (count_type ''Elastic IP'' (resources r))))
    \<and> has_type ''EC2 Instance'' (hd (resources r))
    \<and> count_type ''EC2 Instance'' (resources r) = 1"
proof -
  from discover_Some [OF assms] obtain d inst vols enis snaps amis sgs eips w1 w2 w3 w4 w5 w6
    where inst: "instance_resource i d = Inr inst"
      and vols: "get_associated_volumes prov i w1 = (Inr vols, w2)"
      and enis: "get_associated_network_interfaces prov i w2 = (Inr enis, w3)"
      and snaps: "get_associated_snapshots prov i w3 = (Inr snaps, w4)"
      and amis: "get_associated_ami prov i w4 = (Inr amis, w5)"
      and sgs: "get_associated_security_groups prov i w5 = (Inr sgs, w6)"
      and eips: "get_associated_elastic_ips prov i w6 = (Inr eips, w')"
      and r: "r = make_result d inst vols enis snaps amis sgs eips"
    by (rule discover_body_Inr)
  note ty = instance_resource_type [OF inst] volumes_facts(1) [OF vols]
    network_interfaces_facts(1) [OF enis] snapshots_facts(1) [OF snaps] ami_facts(1) [OF amis]
    security_groups_facts(1) [OF sgs] elastic_ips_facts(1) [OF eips]
  have res: "resources r = [inst] @ vols @ enis @ snaps @ amis @ sgs @ eips"
    by (simp only: r resources_make_result)
  have c1: "count_type ''EBS Volume'' (resources r) = length vols"
    unfolding res count_type_append using ty
    by (simp add: count_type_same count_type_other count_type_single)
  have c2: "count_type ''Network Interface'' (resources r) = length enis"
    unfolding res count_type_append using ty
    by (simp add: count_type_same count_type_other count_type_single)
  have c3: "count_type ''EBS Snapshot'' (resources r) = length snaps"
    unfolding res count_type_append using ty
    by (simp add: count_type_same count_type_other count_type_single)
  have c4: "count_type ''AMI'' (resources r) = length amis"
    unfolding res count_type_append using ty
    by (simp add: count_type_same count_type_other count_type_single)
  have c5: "count_type ''Security Group'' (resources r) = length sgs"
    unfolding res count_type_append using ty
    by (simp add: count_type_same count_type_other count_type_single)
  have c6: "count_type ''Elastic IP'' (resources r) = length eips"
    unfolding res count_type_append using ty
    by (simp add: count_type_same count_type_other count_type_single)
  have c7: "count_type ''EC2 Instance'' (resources r) = 1"
    unfolding res count_type_append using ty
    by (simp add: count_type_same count_type_other count_type_single)
  have s: "rsub (summary r) ''volumes'' = Inr (PInt (int (length vols)))"
    "rsub (summary r) ''network_interfaces'' = Inr (PInt (int (length enis)))"
    "rsub (summary r) ''snapshots'' = Inr (PInt (int (length snaps)))"
    "rsub (summary r) ''amis'' = Inr (PInt (int (length amis)))"
    "rsub (summary r) ''security_groups'' = Inr (PInt (int (length sgs)))"
    "rsub (summary r) ''elastic_ips'' = Inr (PInt (int (length eips)))"
    by (simp_all only: r summary_make_result) (simp_all add: rsub_def)
  have h: "has_type ''EC2 Instance'' (hd (resources r))"
    using ty(1) by (simp add: res)
  show ?thesis
    by (simp only: s c1 c2 c3 c4 c5 c6 c7 h simp_thms)
qed

theorem summary_counts_witness:
  "discover_all_resources demo_provider demo_id empty_world = (Some demo_result, demo_world)
   \<and> rsub (summary demo_result) ''volumes''
       = Inr (PInt (int (count_type ''EBS Volume'' (resources demo_result))))
   \<and> rsub (summary demo_result) ''volumes'' = Inr (PInt 2)
   \<and> count_type ''EC2 Instance'' (resources demo_result) = 1"
proof -
  have "rsub (summary demo_result) ''volumes'' = Inr (PInt 2)"
    by (simp add: demo_result_def rsub_def)
  with summary_counts [OF demo_run] demo_run show ?thesis by simp
qed

text \<open>
  C1. Whenever \<open>discover_all_resources\<close> returns a result, its list of resources is the
  record of the instance itself, then the records of the volume collector, of the network
  interface collector, of the snapshot collector, of the image collector, of the security
  group collector and of the elastic IP collector, in this order; every record carries the
  \<open>resource_type\<close> of its collector, and the records of one kind are either none or, item
  by item and in the same order, what the collector makes of the items of the provider's
  response to the collector's query.
\<close>

theorem resources_order:
  assumes "discover_all_resources prov i w = (Some r, w')"
  shows "\<exists>inst vols enis snaps amis sgs eips w1 w2 w3 w4 w5 w6 vids imids sgids.
     resources r = [inst] @ vols @ enis @ snaps @ amis @ sgs @ eips
   \<and> has_type ''EC2 Instance'' inst \<and> rsub inst ''resource_id'' = Inr (PStr i)
   \<and> list_all (has_type ''EBS Volume'') vols
   \<and> list_all (has_type ''Network Interface'') enis
   \<and> list_all (has_type ''EBS Snapshot'') snaps
   \<and> list_all (has_type ''AMI'') amis
   \<and> list_all (has_type ''Security Group'') sgs
   \<and> list_all (has_type ''Elastic IP'') eips
   \<and> calls w1 = calls w @ [LoadInstance i]
   \<and> get_associated_volumes prov i w1 = (Inr vols, w2)
   \<and> get_associated_network_interfaces prov i w2 = (Inr enis, w3)
   \<and> get_associated_snapshots prov i w3 = (Inr snaps, w4)
   \<and> get_associated_ami prov i w4 = (Inr amis, w5)
   \<and> get_associated_security_groups prov i w5 = (Inr sgs, w6)
   \<and> get_associated_elastic_ips prov i w6 = (Inr eips, w')
   \<and> (vols = [] \<or> from_response prov (calls w1) (DescribeVolumes i)
                      ''Volumes'' (volume_info i) vols)
   \<and> (enis = [] \<or> from_response prov (calls w2) (DescribeNetworkInterfaces i)
                      ''NetworkInterfaces'' eni_info enis)
   \<and> (snaps = [] \<or> from_response prov (calls w3 @ [DescribeVolumes i]) (DescribeSnapshots vids)
                      ''Snapshots'' snapshot_info snaps)
   \<and> (amis = [] \<or> from_response prov (calls w4 @ [LoadInstance i]) (DescribeImages imids)
                      ''Images'' ami_info amis)
   \<and> (sgs = [] \<or> from_response prov (calls w5 @ [LoadInstance i]) (DescribeSecurityGroups sgids)
                      ''SecurityGroups'' sg_info sgs)
   \<and> (eips = [] \<or> from_response prov (calls w6) (DescribeAddresses i)
                      ''Addresses'' eip_info eips)"
proof -
  let ?w0 = "emit (Print (''Discovering resources for EC2 instance: '' @ i)) w"
  from discover_Some [OF assms] obtain d inst vols enis snaps amis sgs eips w1 w2 w3 w4 w5 w6
    where det: "get_instance_details prov i ?w0 = (Inr d, w1)"
      and inst: "instance_resource i d = Inr inst"
      and vols: "get_associated_volumes prov i w1 = (Inr vols, w2)"
      and enis: "get_associated_network_interfaces prov i w2 = (Inr enis, w3)"
      and snaps: "get_associated_snapshots prov i w3 = (Inr snaps, w4)"
      and amis: "get_associated_ami prov i w4 = (Inr amis, w5)"
      and sgs: "get_associated_security_groups prov i w5 = (Inr sgs, w6)"
      and eips: "get_associated_elastic_ips prov i w6 = (Inr eips, w')"
      and r: "r = make_result d inst vols enis snaps amis sgs eips"
    by (rule discover_body_Inr)
  from instance_details_world [of prov i ?w0] det
  have c: "calls w1 = calls w @ [LoadInstance i]" by (simp add: emit_def)
  from snapshots_facts(2) [OF snaps] obtain vids where
    sn: "snaps = [] \<or> from_response prov (calls w3 @ [DescribeVolumes i]) (DescribeSnapshots vids)
                      ''Snapshots'' snapshot_info snaps" by blast
  from ami_facts(2) [OF amis] obtain imids where
    am: "amis = [] \<or> from_response prov (calls w4 @ [LoadInstance i]) (DescribeImages imids)
                      ''Images'' ami_info amis" by blast
  from security_groups_facts(2) [OF sgs] obtain sgids where
    sg: "sgs = [] \<or> from_response prov (calls w5 @ [LoadInstance i]) (DescribeSecurityGroups sgids)
                      ''SecurityGroups'' sg_info sgs" by blast
  have res: "resources r = [inst] @ vols @ enis @ snaps @ amis @ sgs @ eips"
    by (simp only: r resources_make_result)
  show ?thesis
    apply (rule exI [of _ inst], rule exI [of _ vols], rule exI [of _ enis])
    apply (rule exI [of _ snaps], rule exI [of _ amis], rule exI [of _ sgs])
    apply (rule exI [of _ eips], rule exI [of _ w1], rule exI [of _ w2], rule exI [of _ w3])
    apply (rule exI [of _ w4], rule exI [of _ w5], rule exI [of _ w6])
    apply (rule exI [of _ vids], rule exI [of _ imids], rule exI [of _ sgids])
    apply (intro conjI)
    apply (rule res)
    apply (rule instance_resource_type [OF inst])
    apply (rule instance_resource_id [OF inst])
    apply (rule volumes_facts(1) [OF vols])
    apply (rule network_interfaces_facts(1) [OF enis])
    apply (rule snapshots_facts(1) [OF snaps])
    apply (rule ami_facts(1) [OF amis])
    apply (rule security_groups_facts(1) [OF sgs])
    apply (rule elastic_ips_facts(1) [OF eips])
    apply (rule c)
    apply (rule vols)
    apply (rule enis)
    apply (rule snaps)
    apply (rule amis)
    apply (rule sgs)
    apply (rule eips)
    apply (rule volumes_facts(2) [OF vols])
    apply (rule network_interfaces_facts(2) [OF enis])
    apply (rule sn)
    apply (rule am)
    apply (rule sg)
    apply (rule elastic_ips_facts(2) [OF eips])
    done
qed

lemma volumes_Inl:
  "get_associated_volumes prov i w = (Inl e, w') \<Longrightarrow> \<not> is_client_error e"
  by (auto simp: get_associated_volumes_def call_def Let_def dest: except_client_error_Inl)

lemma network_interfaces_Inl:
  "get_associated_network_interfaces prov i w = (Inl e, w') \<Longrightarrow> \<not> is_client_error e"
  by (auto simp: get_associated_network_interfaces_def call_def Let_def
           dest: except_client_error_Inl)

lemma elastic_ips_Inl:
  "get_associated_elastic_ips prov i w = (Inl e, w') \<Longrightarrow> \<not> is_client_error e"
  by (auto simp: get_associated_elastic_ips_def call_def Let_def dest: except_client_error_Inl)

lemma ami_Inl:
  "get_associated_ami prov i w = (Inl e, w') \<Longrightarrow> \<not> is_client_error e"
  by (auto simp: get_associated_ami_def call_def Let_def
           split: sum.splits if_splits dest: except_client_error_Inl)

lemma security_groups_Inl:
  "get_associated_security_groups prov i w = (Inl e, w') \<Longrightarrow> \<not> is_client_error e"
  by (auto simp: get_associated_security_groups_def call_def Let_def
           split: sum.splits if_splits dest: except_client_error_Inl)

lemma snapshots_Inl:
  assumes "get_associated_snapshots prov i w = (Inl e, w')"
  shows "\<not> is_client_error e"
proof -
  obtain vr w1 where v: "get_associated_volumes prov i w = (vr, w1)"
    by (cases "get_associated_volumes prov i w")
  show ?thesis
  proof (cases vr)
    case (Inl a)
    with assms v have "a = e" by (simp add: get_associated_snapshots_def)
    with Inl v show ?thesis by (auto dest: volumes_Inl)
  next
    case (Inr volumes)
    have s: "safe (comprehension (\<lambda>vol. rsub vol ''resource_id'') volumes)" by auto
    show ?thesis
    proof (cases "comprehension (\<lambda>vol. rsub vol ''resource_id'') volumes")
      case (Inl a)
      with assms v Inr have "a = e" by (simp add: get_associated_snapshots_def)
      with s Inl show ?thesis by simp
    next
      case ids: (Inr ids)
      with assms v Inr show ?thesis
        by (auto simp: get_associated_snapshots_def call_def Let_def split: if_splits
                 dest: except_client_error_Inl)
    qed
  qed
qed

lemma safe_instance_resource: "safe (instance_resource i d)"
  unfolding instance_resource_def by (intro safe_build_dict) auto

lemma bind_io_Inl:
  assumes "bind_io m f w = (Inl e, w')"
  shows "m w = (Inl e, w') \<or> (\<exists>x w1. m w = (Inr x, w1) \<and> f x w1 = (Inl e, w'))"
  using assms by (auto simp: bind_io_def split: prod.splits sum.splits)

lemma discover_body_Inl:
  assumes "discover_body prov i w = (Inl e, w')"
  shows "get_instance_details prov i w = (Inl e, w') \<or> \<not> is_client_error e"
proof -
  have si: "\<And>d. instance_resource i d = Inl e \<Longrightarrow> \<not> is_client_error e"
    using safe_instance_resource by (metis safe_simps(2))
  from assms show ?thesis
    unfolding discover_body_def
    by (auto dest!: bind_io_Inl
             dest: si volumes_Inl network_interfaces_Inl snapshots_Inl ami_Inl
                   security_groups_Inl elastic_ips_Inl)
qed

lemma calls_emit [simp]: "calls (emit ev w) = calls w"
  by (simp add: emit_def)

lemma reraise_client_error:
  assumes "(case body of
              Inl (ClientError code) \<Rightarrow>
                if code = nf then (Inl (ValueError m), w1) else (Inl (ClientError code), w1)
            | Inl x \<Rightarrow> (Inl x, w1)
            | Inr d \<Rightarrow> (Inr d, w1)) = (Inl e, w')"
    and "is_client_error e"
  shows "body = Inl e"
  using assms by (auto split: sum.splits exn.splits if_splits)

lemma instance_details_Inl:
  assumes "get_instance_details prov i w = (Inl e, w')" "is_client_error e"
  shows "prov (calls w) (LoadInstance i) = Inl e"
proof -
  let ?F = "\<lambda>inst. build_dict
            [(''instance_id'', Inr (PStr i)),
             (''instance_type'', Inr (attr inst ''InstanceType'')),
             (''state'', subscr (attr inst ''State'') ''Name''),
             (''launch_time'',
                if truthy (attr inst ''LaunchTime'')
                then isoformat (attr inst ''LaunchTime'') else Inr PNone),
             (''availability_zone'', subscr (attr inst ''Placement'') ''AvailabilityZone''),
             (''vpc_id'', Inr (attr inst ''VpcId'')),
             (''subnet_id'', Inr (attr inst ''SubnetId'')),
             (''private_ip'', Inr (attr inst ''PrivateIpAddress'')),
             (''public_ip'', Inr (attr inst ''PublicIpAddress'')),
             (''image_id'', Inr (attr inst ''ImageId'')),
             (''key_name'', Inr (attr inst ''KeyName'')),
             (''tags'', tags_dict (Inr (if truthy (attr inst ''Tags'')
                                        then attr inst ''Tags'' else PList [])))]"
  have sf: "safe (?F inst)" for inst by (intro safe_build_dict) auto
  from assms(1) have "bind_exn (prov (calls w) (LoadInstance i)) ?F = Inl e"
    unfolding get_instance_details_def call_def Let_def prod.case
    by (rule reraise_client_error) (rule assms(2))
  then show ?thesis
  proof (cases "prov (calls w) (LoadInstance i)")
    case (Inl a)
    assume "bind_exn (prov (calls w) (LoadInstance i)) ?F = Inl e"
    with Inl show ?thesis by (simp add: bind_exn_def)
  next
    case (Inr inst)
    assume "bind_exn (prov (calls w) (LoadInstance i)) ?F = Inl e"
    with Inr have "?F inst = Inl e" by (simp only: bind_exn_def sum.case)
    with sf [of inst] assms(2) show ?thesis by (metis safe_simps(2))
  qed
qed

lemma instance_details_raises:
  assumes "prov (calls w) (LoadInstance i) = Inl e"
  shows "\<exists>x. get_instance_details prov i w = (Inl x, w\<lparr>calls := calls w @ [LoadInstance i]\<rparr>)"
  using assms
  by (cases e) (simp_all add: get_instance_details_def call_def bind_exn_def)

lemma instance_details_not_found:
  assumes "prov (calls w) (LoadInstance i) = Inl (ClientError ''InvalidInstanceID.NotFound'')"
  shows "get_instance_details prov i w
           = (Inl (ValueError (''Instance '' @ i @ '' not found'')),
              w\<lparr>calls := calls w @ [LoadInstance i]\<rparr>)"
  using assms by (simp add: get_instance_details_def call_def bind_exn_def)

lemma discover_body_details_Inl:
  "get_instance_details prov i w = (Inl e, w') \<Longrightarrow> discover_body prov i w = (Inl e, w')"
  by (simp add: discover_body_def bind_io_def)

lemma discover_from_body_Inl:
  assumes "discover_body prov i
             (emit (Print (''Discovering resources for EC2 instance: '' @ i)) w) = (Inl x, w1)"
  shows "discover_all_resources prov i w
       = (None, emit (PrintErr (case x of ValueError m \<Rightarrow> ''Error: ''
                                | _ \<Rightarrow> ''Unexpected error: '') x) w1)"
  using assms unfolding discover_all_resources_def by (cases x) simp_all

lemma discover_None:
  assumes "fst (discover_all_resources prov i w) = None"
  obtains e w1 where
    "discover_body prov i (emit (Print (''Discovering resources for EC2 instance: '' @ i)) w)
       = (Inl e, w1)"
    "discover_all_resources prov i w
       = (None, emit (PrintErr (case e of ValueError m \<Rightarrow> ''Error: ''
                                | _ \<Rightarrow> ''Unexpected error: '') e) w1)"
  using assms
  by (auto simp: discover_all_resources_def split: prod.splits sum.splits exn.splits)

text \<open>
  C7. When the volume lookup of the snapshot collector yields the empty list,
  \<open>get_associated_snapshots\<close> returns the empty list and leaves the world as the volume
  lookup left it: the only request sent is the volume query, no snapshot query.
\<close>

theorem snapshots_without_volumes:
  assumes "fst (get_associated_volumes prov i w) = Inr []"
  shows "get_associated_snapshots prov i w = (Inr [], snd (get_associated_volumes prov i w))
       \<and> calls (snd (get_associated_snapshots prov i w)) = calls w @ [DescribeVolumes i]"
proof -
  obtain w1 where v: "get_associated_volumes prov i w = (Inr [], w1)"
    using assms by (cases "get_associated_volumes prov i w") auto
  then have s: "get_associated_snapshots prov i w = (Inr [], w1)"
    by (simp add: get_associated_snapshots_def)
  from volumes_calls [of prov i w] v have "calls w1 = calls w @ [DescribeVolumes i]" by simp
  with s v show ?thesis by simp
qed

lemma no_volumes_run:
  "get_associated_volumes no_volumes_provider demo_id empty_world
     = (Inr [], \<lparr>calls = [DescribeVolumes demo_id], out = [], files = []\<rparr>)"
  by code_simp

theorem snapshots_without_volumes_witness:
  "fst (get_associated_volumes no_volumes_provider demo_id empty_world) = Inr []
   \<and> get_associated_snapshots no_volumes_provider demo_id empty_world
       = (Inr [], \<lparr>calls = [DescribeVolumes demo_id], out = [], files = []\<rparr>)"
proof -
  have h: "fst (get_associated_volumes no_volumes_provider demo_id empty_world) = Inr []"
    by (simp add: no_volumes_run)
  from snapshots_without_volumes [OF h] h show ?thesis by (simp add: no_volumes_run)
qed

lemma volumes_absorb:
  "prov (calls w) (DescribeVolumes i) = Inl (ClientError c) \<Longrightarrow>
     get_associated_volumes prov i w
       = (Inr [], emit (PrintErr ''Error retrieving volumes: '' (ClientError c))
                    (w\<lparr>calls := calls w @ [DescribeVolumes i]\<rparr>))"
  by (simp add: get_associated_volumes_def call_def except_client_error_def)

lemma network_interfaces_absorb:
  "prov (calls w) (DescribeNetworkInterfaces i) = Inl (ClientError c) \<Longrightarrow>
     get_associated_network_interfaces prov i w
       = (Inr [], emit (PrintErr ''Error retrieving network interfaces: '' (ClientError c))
                    (w\<lparr>calls := calls w @ [DescribeNetworkInterfaces i]\<rparr>))"
  by (simp add: get_associated_network_interfaces_def call_def except_client_error_def)

lemma elastic_ips_absorb:
  "prov (calls w) (DescribeAddresses i) = Inl (ClientError c) \<Longrightarrow>
     get_associated_elastic_ips prov i w
       = (Inr [], emit (PrintErr ''Error retrieving Elastic IPs: '' (ClientError c))
                    (w\<lparr>calls := calls w @ [DescribeAddresses i]\<rparr>))"
  by (simp add: get_associated_elastic_ips_def call_def except_client_error_def)

lemma snapshots_absorb:
  "get_associated_volumes prov i w = (Inr vols, w1) \<Longrightarrow>
   comprehension (\<lambda>vol. rsub vol ''resource_id'') vols = Inr ids \<Longrightarrow> ids \<noteq> [] \<Longrightarrow>
   prov (calls w1) (DescribeSnapshots ids) = Inl (ClientError c) \<Longrightarrow>
     get_associated_snapshots prov i w
       = (Inr [], emit (PrintErr ''Error retrieving snapshots: '' (ClientError c))
                    (w1\<lparr>calls := calls w1 @ [DescribeSnapshots ids]\<rparr>))"
  by (simp add: get_associated_snapshots_def call_def except_client_error_def)

lemma ami_absorb_load:
  "prov (calls w) (LoadInstance i) = Inl (ClientError c) \<Longrightarrow>
     get_associated_ami prov i w
       = (Inr [], emit (PrintErr ''Error retrieving AMI: '' (ClientError c))
                    (w\<lparr>calls := calls w @ [LoadInstance i]\<rparr>))"
  by (simp add: get_associated_ami_def call_def except_client_error_def)

lemma ami_absorb:
  "prov (calls w) (LoadInstance i) = Inr inst \<Longrightarrow> truthy (attr inst ''ImageId'') \<Longrightarrow>
   prov (calls w @ [LoadInstance i]) (DescribeImages [attr inst ''ImageId''])
     = Inl (ClientError c) \<Longrightarrow>
     get_associated_ami prov i w
       = (Inr [], emit (PrintErr ''Error retrieving AMI: '' (ClientError c))
                    (w\<lparr>calls := calls w @ [LoadInstance i, DescribeImages [attr inst ''ImageId'']]\<rparr>))"
  by (simp add: get_associated_ami_def call_def except_client_error_def)

lemma security_groups_absorb_load:
  "prov (calls w) (LoadInstance i) = Inl (ClientError c) \<Longrightarrow>
     get_associated_security_groups prov i w
       = (Inr [], emit (PrintErr ''Error retrieving security groups: '' (ClientError c))
                    (w\<lparr>calls := calls w @ [LoadInstance i]\<rparr>))"
  by (simp add: get_associated_security_groups_def call_def except_client_error_def)

lemma security_groups_absorb:
  "prov (calls w) (LoadInstance i) = Inr inst \<Longrightarrow>
   bind_exn (py_iter (attr inst ''SecurityGroups''))
     (comprehension (\<lambda>sg. subscr sg ''GroupId'')) = Inr sgids \<Longrightarrow> sgids \<noteq> [] \<Longrightarrow>
   prov (calls w @ [LoadInstance i]) (DescribeSecurityGroups sgids) = Inl (ClientError c) \<Longrightarrow>
     get_associated_security_groups prov i w
       = (Inr [], emit (PrintErr ''Error retrieving security groups: '' (ClientError c))
                    (w\<lparr>calls := calls w @ [LoadInstance i, DescribeSecurityGroups sgids]\<rparr>))"
  by (simp add: get_associated_security_groups_def call_def except_client_error_def)

text \<open>
  C6. For each of the six collectors, when a request of the collector (its \<open>describe\<close>
  query, or its load of the instance for the image and the security group collectors) raises
  a \<open>ClientError\<close>, the collector does not raise: it prints the error after its own
  \<open>Error retrieving ...\<close> text and returns the empty list.
\<close>

theorem collectors_absorb_client_errors:
  "(prov (calls w) (DescribeVolumes i) = Inl (ClientError c) \<longrightarrow>
      get_associated_volumes prov i w
        = (Inr [], emit (PrintErr ''Error retrieving volumes: '' (ClientError c))
                     (w\<lparr>calls := calls w @ [DescribeVolumes i]\<rparr>)))
   \<and> (prov (calls w) (DescribeNetworkInterfaces i) = Inl (ClientError c) \<longrightarrow>
      get_associated_network_interfaces prov i w
        = (Inr [], emit (PrintErr ''Error retrieving network interfaces: '' (ClientError c))
                     (w\<lparr>calls := calls w @ [DescribeNetworkInterfaces i]\<rparr>)))
   \<and> (get_associated_volumes prov i w = (Inr vols, w1)
       \<and> comprehension (\<lambda>vol. rsub vol ''resource_id'') vols = Inr ids \<and> ids \<noteq> []
       \<and> prov (calls w1) (DescribeSnapshots ids) = Inl (ClientError c) \<longrightarrow>
      get_associated_snapshots prov i w
        = (Inr [], emit (PrintErr ''Error retrieving snapshots: '' (ClientError c))
                     (w1\<lparr>calls := calls w1 @ [DescribeSnapshots ids]\<rparr>)))
   \<and> (prov (calls w) (LoadInstance i) = Inl (ClientError c) \<longrightarrow>
      get_associated_ami prov i w
        = (Inr [], emit (PrintErr ''Error retrieving AMI: '' (ClientError c))
                     (w\<lparr>calls := calls w @ [LoadInstance i]\<rparr>)))
   \<and> (prov (calls w) (LoadInstance i) = Inr inst \<and> truthy (attr inst ''ImageId'')
       \<and> prov (calls w @ [LoadInstance i]) (DescribeImages [attr inst ''ImageId''])
           = Inl (ClientError c) \<longrightarrow>
      get_associated_ami prov i w
        = (Inr [], emit (PrintErr ''Error retrieving AMI: '' (ClientError c))
             (w\<lparr>calls := calls w @ [LoadInstance i, DescribeImages [attr inst ''ImageId'']]\<rparr>)))
   \<and> (prov (calls w) (LoadInstance i) = Inl (ClientError c) \<longrightarrow>
      get_associated_security_groups prov i w
        = (Inr [], emit (PrintErr ''Error retrieving security groups: '' (ClientError c))
                     (w\<lparr>calls := calls w @ [LoadInstance i]\<rparr>)))
   \<and> (prov (calls w) (LoadInstance i) = Inr inst
       \<and> bind_exn (py_iter (attr inst ''SecurityGroups''))
            (comprehension (\<lambda>sg. subscr sg ''GroupId'')) = Inr sgids \<and> sgids \<noteq> []
       \<and> prov (calls w @ [LoadInstance i]) (DescribeSecurityGroups sgids)
           = Inl (ClientError c) \<longrightarrow>
      get_associated_security_groups prov i w
        = (Inr [], emit (PrintErr ''Error retrieving security groups: '' (ClientError c))
             (w\<lparr>calls := calls w @ [LoadInstance i, DescribeSecurityGroups sgids]\<rparr>)))
   \<and> (prov (calls w) (DescribeAddresses i) = Inl (ClientError c) \<longrightarrow>
      get_associated_elastic_ips prov i w
        = (Inr [], emit (PrintErr ''Error retrieving Elastic IPs: '' (ClientError c))
                     (w\<lparr>calls := calls w @ [DescribeAddresses i]\<rparr>)))"
  using volumes_absorb [of prov w i c] network_interfaces_absorb [of prov w i c]
    snapshots_absorb [of prov i w vols w1 ids c] ami_absorb_load [of prov w i c]
    ami_absorb [of prov w i inst c] security_groups_absorb_load [of prov w i c]
    security_groups_absorb [of prov w i inst sgids c] elastic_ips_absorb [of prov w i c]
  by blast

theorem resources_order_witness:
  "discover_all_resources demo_provider demo_id empty_world = (Some demo_result, demo_world)
   \<and> (\<exists>inst vols enis snaps amis sgs eips w1 w2 w3 w4 w5 w6 vids imids sgids.
     resources demo_result = [inst] @ vols @ enis @ snaps @ amis @ sgs @ eips
   \<and> has_type ''EC2 Instance'' inst \<and> rsub inst ''resource_id'' = Inr (PStr demo_id)
   \<and> list_all (has_type ''EBS Volume'') vols
   \<and> list_all (has_type ''Network Interface'') enis
   \<and> list_all (has_type ''EBS Snapshot'') snaps
   \<and> list_all (has_type ''AMI'') amis
   \<and> list_all (has_type ''Security Group'') sgs
   \<and> list_all (has_type ''Elastic IP'') eips
   \<and> calls w1 = calls empty_world @ [LoadInstance demo_id]
   \<and> get_associated_volumes demo_provider demo_id w1 = (Inr vols, w2)
   \<and> get_associated_network_interfaces demo_provider demo_id w2 = (Inr enis, w3)
   \<and> get_associated_snapshots demo_provider demo_id w3 = (Inr snaps, w4)
   \<and> get_associated_ami demo_provider demo_id w4 = (Inr amis, w5)
   \<and> get_associated_security_groups demo_provider demo_id w5 = (Inr sgs, w6)
   \<and> get_associated_elastic_ips demo_provider demo_id w6 = (Inr eips, demo_world)
   \<and> (vols = [] \<or> from_response demo_provider (calls w1) (DescribeVolumes demo_id)
                      ''Volumes'' (volume_info demo_id) vols)
   \<and> (enis = [] \<or> from_response demo_provider (calls w2) (DescribeNetworkInterfaces demo_id)
                      ''NetworkInterfaces'' eni_info enis)
   \<and> (snaps = [] \<or> from_response demo_provider (calls w3 @ [DescribeVolumes demo_id])
                      (DescribeSnapshots vids) ''Snapshots'' snapshot_info snaps)
   \<and> (amis = [] \<or> from_response demo_provider (calls w4 @ [LoadInstance demo_id])
                      (DescribeImages imids) ''Images'' ami_info amis)
   \<and> (sgs = [] \<or> from_response demo_provider (calls w5 @ [LoadInstance demo_id])
                      (DescribeSecurityGroups sgids) ''SecurityGroups'' sg_info sgs)
   \<and> (eips = [] \<or> from_response demo_provider (calls w6) (DescribeAddresses demo_id)
                      ''Addresses'' eip_info eips))"
  by (rule conjI [OF demo_run resources_order [OF demo_run]])

lemma unreachable_run:
  "fst (discover_all_resources unreachable_provider demo_id empty_world) = None"
  by code_simp

lemma denied_volumes_run:
  "get_associated_volumes snapshots_denied_provider demo_id empty_world
     = (Inr [resources demo_result ! 1, resources demo_result ! 2],
        \<lparr>calls = [DescribeVolumes demo_id], out = [], files = []\<rparr>)"
  by code_simp

lemma demo_volume_ids:
  "comprehension (\<lambda>vol. rsub vol ''resource_id'')
     [resources demo_result ! 1, resources demo_result ! 2] = Inr [PStr ''vol-1'', PStr ''vol-2'']"
  by code_simp

lemma demo_sg_ids:
  "bind_exn (py_iter (attr demo_instance ''SecurityGroups''))
     (comprehension (\<lambda>sg. subscr sg ''GroupId'')) = Inr [PStr ''sg-1'']"
  by code_simp

lemma demo_image_id: "attr demo_instance ''ImageId'' = PStr ''ami-1''"
  by code_simp

theorem collectors_absorb_client_errors_witness:
  "fst (get_associated_volumes throttled_provider demo_id empty_world) = Inr []
   \<and> fst (get_associated_network_interfaces throttled_provider demo_id empty_world) = Inr []
   \<and> get_associated_snapshots snapshots_denied_provider demo_id empty_world
       = (Inr [], \<lparr>calls = [DescribeVolumes demo_id,
                             DescribeSnapshots [PStr ''vol-1'', PStr ''vol-2'']],
                   out = [PrintErr ''Error retrieving snapshots: ''
                            (ClientError ''UnauthorizedOperation'')],
                   files = []\<rparr>)
   \<and> fst (get_associated_ami denied_provider demo_id empty_world) = Inr []
   \<and> fst (get_associated_ami throttled_provider demo_id empty_world) = Inr []
   \<and> fst (get_associated_security_groups denied_provider demo_id empty_world) = Inr []
   \<and> fst (get_associated_security_groups throttled_provider demo_id empty_world) = Inr []
   \<and> fst (get_associated_elastic_ips throttled_provider demo_id empty_world) = Inr []"
proof -
  note t = collectors_absorb_client_errors [of throttled_provider empty_world demo_id
      "''RequestLimitExceeded''" "[]" empty_world "[]" demo_instance "[PStr ''sg-1'']"]
  note d = collectors_absorb_client_errors [of denied_provider empty_world demo_id
      "''UnauthorizedOperation''" "[]" empty_world "[]" demo_instance "[]"]
  note s = collectors_absorb_client_errors [of snapshots_denied_provider empty_world demo_id
      "''UnauthorizedOperation''" "[resources demo_result ! 1, resources demo_result ! 2]"
      "\<lparr>calls = [DescribeVolumes demo_id], out = [], files = []\<rparr>"
      "[PStr ''vol-1'', PStr ''vol-2'']" demo_instance "[]"]
  have 1: "fst (get_associated_volumes throttled_provider demo_id empty_world) = Inr []"
    and 2: "fst (get_associated_network_interfaces throttled_provider demo_id empty_world) = Inr []"
    and 5: "fst (get_associated_ami throttled_provider demo_id empty_world) = Inr []"
    and 7: "fst (get_associated_security_groups throttled_provider demo_id empty_world) = Inr []"
    and 8: "fst (get_associated_elastic_ips throttled_provider demo_id empty_world) = Inr []"
    using t demo_sg_ids by (simp_all add: throttled_provider_def demo_image_id)
  have 4: "fst (get_associated_ami denied_provider demo_id empty_world) = Inr []"
    and 6: "fst (get_associated_security_groups denied_provider demo_id empty_world) = Inr []"
    using d by (simp_all add: denied_provider_def)
  have 3: "get_associated_snapshots snapshots_denied_provider demo_id empty_world
       = (Inr [], \<lparr>calls = [DescribeVolumes demo_id,
                             DescribeSnapshots [PStr ''vol-1'', PStr ''vol-2'']],
                   out = [PrintErr ''Error retrieving snapshots: ''
                            (ClientError ''UnauthorizedOperation'')],
                   files = []\<rparr>)"
    using s denied_volumes_run demo_volume_ids
    by (simp add: snapshots_denied_provider_def emit_def)
  from 1 2 3 4 5 6 7 8 show ?thesis by blast
qed

section \<open>A \<open>ClientError\<close> after the instance lookup\<close>

text \<open>
  A collector that raises has just sent a request, and the answer to that request was not a
  raised \<open>ClientError\<close>.
\<close>

lemma answered_abort:
  assumes "except_client_error msg
             (case answer of Inl e \<Rightarrow> (Some e, [])
              | Inr response \<Rightarrow> collect_loop info member response) w1 = (Inl e, w')"
  shows "w' = w1" and "safe answer"
  using assms
  by (auto simp: except_client_error_def split: sum.splits option.splits exn.splits)

lemma volumes_abort:
  assumes "get_associated_volumes prov i w = (Inl e, w')"
  shows "calls w' = calls w @ [DescribeVolumes i] \<and> safe (prov (calls w) (DescribeVolumes i))"
proof -
  from assms have run: "except_client_error ''Error retrieving volumes: ''
      (case prov (calls w) (DescribeVolumes i) of Inl e \<Rightarrow> (Some e, [])
       | Inr response \<Rightarrow> collect_loop (volume_info i) ''Volumes'' response)
      (w\<lparr>calls := calls w @ [DescribeVolumes i]\<rparr>) = (Inl e, w')"
    by (simp add: get_associated_volumes_def call_def)
  from answered_abort [OF run] show ?thesis by simp
qed

lemma network_interfaces_abort:
  assumes "get_associated_network_interfaces prov i w = (Inl e, w')"
  shows "calls w' = calls w @ [DescribeNetworkInterfaces i]
         \<and> safe (prov (calls w) (DescribeNetworkInterfaces i))"
proof -
  from assms have run: "except_client_error ''Error retrieving network interfaces: ''
      (case prov (calls w) (DescribeNetworkInterfaces i) of Inl e \<Rightarrow> (Some e, [])
       | Inr response \<Rightarrow> collect_loop eni_info ''NetworkInterfaces'' response)
      (w\<lparr>calls := calls w @ [DescribeNetworkInterfaces i]\<rparr>) = (Inl e, w')"
    by (simp add: get_associated_network_interfaces_def call_def)
  from answered_abort [OF run] show ?thesis by simp
qed

lemma elastic_ips_abort:
  assumes "get_associated_elastic_ips prov i w = (Inl e, w')"
  shows "calls w' = calls w @ [DescribeAddresses i]
         \<and> safe (prov (calls w) (DescribeAddresses i))"
proof -
  from assms have run: "except_client_error ''Error retrieving Elastic IPs: ''
      (case prov (calls w) (DescribeAddresses i) of Inl e \<Rightarrow> (Some e, [])
       | Inr response \<Rightarrow> collect_loop eip_info ''Addresses'' response)
      (w\<lparr>calls := calls w @ [DescribeAddresses i]\<rparr>) = (Inl e, w')"
    by (simp add: get_associated_elastic_ips_def call_def)
  from answered_abort [OF run] show ?thesis by simp
qed

lemma from_response_safe: "from_response prov h c member info rs \<Longrightarrow> safe (prov h c)"
  by (cases "prov h c") (simp_all add: from_response_def)

lemma snapshots_abort:
  assumes "get_associated_snapshots prov i w = (Inl e, w')"
  shows "\<exists>cs c. calls w' = calls w @ cs @ [c] \<and> safe (prov (calls w @ cs) c)"
proof -
  obtain vr w1 where v: "get_associated_volumes prov i w = (vr, w1)"
    by (cases "get_associated_volumes prov i w")
  from volumes_calls [of prov i w] v have c1: "calls w1 = calls w @ [DescribeVolumes i]" by simp
  show ?thesis
  proof (cases vr)
    case (Inl a)
    with assms v have "a = e" "w' = w1" by (simp_all add: get_associated_snapshots_def)
    with Inl v volumes_abort [of prov i w e w']
    have "calls w' = calls w @ [] @ [DescribeVolumes i]
          \<and> safe (prov (calls w @ []) (DescribeVolumes i))" by simp
    then show ?thesis by blast
  next
    case (Inr volumes)
    show ?thesis
    proof (cases "comprehension (\<lambda>vol. rsub vol ''resource_id'') volumes")
      case (Inl a)
      with assms v Inr have w': "w' = w1" by (simp add: get_associated_snapshots_def)
      from Inl have "volumes \<noteq> []" by auto
      with volumes_facts(2) [of prov i w volumes w1] v Inr
      have "from_response prov (calls w) (DescribeVolumes i) ''Volumes'' (volume_info i) volumes"
        by simp
      then have "safe (prov (calls w) (DescribeVolumes i))" by (rule from_response_safe)
      with w' c1 have "calls w' = calls w @ [] @ [DescribeVolumes i]
          \<and> safe (prov (calls w @ []) (DescribeVolumes i))" by simp
      then show ?thesis by blast
    next
      case ids: (Inr ids)
      with assms v Inr have run: "except_client_error ''Error retrieving snapshots: ''
        (case prov (calls w1) (DescribeSnapshots ids) of Inl e \<Rightarrow> (Some e, [])
         | Inr response \<Rightarrow> collect_loop snapshot_info ''Snapshots'' response)
        (w1\<lparr>calls := calls w1 @ [DescribeSnapshots ids]\<rparr>) = (Inl e, w')"
        by (auto simp: get_associated_snapshots_def call_def Let_def split: if_splits)
      from answered_abort [OF run] c1
      have "calls w' = calls w @ [DescribeVolumes i] @ [DescribeSnapshots ids]
          \<and> safe (prov (calls w @ [DescribeVolumes i]) (DescribeSnapshots ids))" by simp
      then show ?thesis by blast
    qed
  qed
qed

lemma ami_abort:
  assumes "get_associated_ami prov i w = (Inl e, w')"
  shows "\<exists>cs c. calls w' = calls w @ cs @ [c] \<and> safe (prov (calls w @ cs) c)"
proof (cases "prov (calls w) (LoadInstance i)")
  case (Inl a)
  with assms have "calls w' = calls w @ [] @ [LoadInstance i]
      \<and> safe (prov (calls w @ []) (LoadInstance i))"
    by (cases a) (auto simp: get_associated_ami_def call_def except_client_error_def)
  then show ?thesis by blast
next
  case (Inr inst)
  with assms have t: "truthy (attr inst ''ImageId'')"
    by (auto simp: get_associated_ami_def call_def except_client_error_def split: if_splits)
  let ?w1 = "w\<lparr>calls := calls w @ [LoadInstance i]\<rparr>"
  let ?c = "DescribeImages [attr inst ''ImageId'']"
  from assms Inr t have run: "except_client_error ''Error retrieving AMI: ''
      (case prov (calls ?w1) ?c of Inl e \<Rightarrow> (Some e, [])
       | Inr response \<Rightarrow> collect_loop ami_info ''Images'' response)
      (?w1\<lparr>calls := calls ?w1 @ [?c]\<rparr>) = (Inl e, w')"
    by (simp add: get_associated_ami_def call_def)
  from answered_abort [OF run]
  have "calls w' = calls w @ [LoadInstance i] @ [?c]
      \<and> safe (prov (calls w @ [LoadInstance i]) ?c)" by simp
  then show ?thesis by blast
qed

lemma security_groups_abort:
  assumes "get_associated_security_groups prov i w = (Inl e, w')"
  shows "\<exists>cs c. calls w' = calls w @ cs @ [c] \<and> safe (prov (calls w @ cs) c)"
proof (cases "prov (calls w) (LoadInstance i)")
  case (Inl a)
  with assms have "calls w' = calls w @ [] @ [LoadInstance i]
      \<and> safe (prov (calls w @ []) (LoadInstance i))"
    by (cases a) (auto simp: get_associated_security_groups_def call_def except_client_error_def)
  then show ?thesis by blast
next
  case (Inr inst)
  let ?w1 = "w\<lparr>calls := calls w @ [LoadInstance i]\<rparr>"
  show ?thesis
  proof (cases "bind_exn (py_iter (attr inst ''SecurityGroups''))
                  (comprehension (\<lambda>sg. subscr sg ''GroupId''))")
    case (Inl a)
    with assms Inr have "calls w' = calls w @ [] @ [LoadInstance i]
      \<and> safe (prov (calls w @ []) (LoadInstance i))"
      by (cases a)
         (auto simp: get_associated_security_groups_def call_def except_client_error_def)
    then show ?thesis by blast
  next
    case ids: (Inr sg_ids)
    with assms Inr have ne: "sg_ids \<noteq> []"
      by (auto simp: get_associated_security_groups_def call_def except_client_error_def
               split: if_splits)
    let ?c = "DescribeSecurityGroups sg_ids"
    from assms Inr ids ne have run: "except_client_error ''Error retrieving security groups: ''
      (case prov (calls ?w1) ?c of Inl e \<Rightarrow> (Some e, [])
       | Inr response \<Rightarrow> collect_loop sg_info ''SecurityGroups'' response)
      (?w1\<lparr>calls := calls ?w1 @ [?c]\<rparr>) = (Inl e, w')"
      by (simp add: get_associated_security_groups_def call_def)
    from answered_abort [OF run]
    have "calls w' = calls w @ [LoadInstance i] @ [?c]
      \<and> safe (prov (calls w @ [LoadInstance i]) ?c)" by simp
    then show ?thesis by blast
  qed
qed

lemma network_interfaces_calls:
  "calls (snd (get_associated_network_interfaces prov i w))
     = calls w @ [DescribeNetworkInterfaces i]"
  by (auto simp: get_associated_network_interfaces_def call_def except_client_error_def
                 emit_def Let_def
           split: option.splits exn.splits sum.splits)

lemma snapshots_calls:
  "\<exists>cs. calls (snd (get_associated_snapshots prov i w)) = calls w @ cs"
proof -
  obtain vr w1 where v: "get_associated_volumes prov i w = (vr, w1)"
    by (cases "get_associated_volumes prov i w")
  from volumes_calls [of prov i w] v have c1: "calls w1 = calls w @ [DescribeVolumes i]" by simp
  show ?thesis
  proof (cases vr)
    case (Inl a)
    with v c1 show ?thesis by (simp add: get_associated_snapshots_def)
  next
    case (Inr volumes)
    show ?thesis
    proof (cases "comprehension (\<lambda>vol. rsub vol ''resource_id'') volumes")
      case (Inl a)
      with v Inr c1 show ?thesis by (simp add: get_associated_snapshots_def)
    next
      case ids: (Inr ids)
      with v Inr c1 show ?thesis
        by (auto simp: get_associated_snapshots_def call_def Let_def except_client_error_def
                       emit_def
                 split: option.splits exn.splits sum.splits)
    qed
  qed
qed

lemma ami_calls:
  "\<exists>cs. calls (snd (get_associated_ami prov i w)) = calls w @ cs"
  by (auto simp: get_associated_ami_def call_def except_client_error_def emit_def Let_def
           split: option.splits exn.splits sum.splits)

lemma security_groups_calls:
  "\<exists>cs. calls (snd (get_associated_security_groups prov i w)) = calls w @ cs"
  by (auto simp: get_associated_security_groups_def call_def except_client_error_def emit_def
                 Let_def
           split: option.splits exn.splits sum.splits)

lemma discover_body_Inl_cases:
  assumes "discover_body prov i w = (Inl e, w')"
  obtains
    (details) "get_instance_details prov i w = (Inl e, w')"
  | (inst) d where "get_instance_details prov i w = (Inr d, w')"
  | (volumes) d w1 where "get_instance_details prov i w = (Inr d, w1)"
      "get_associated_volumes prov i w1 = (Inl e, w')"
  | (enis) d w1 vols w2 where "get_instance_details prov i w = (Inr d, w1)"
      "get_associated_volumes prov i w1 = (Inr vols, w2)"
      "get_associated_network_interfaces prov i w2 = (Inl e, w')"
  | (snaps) d w1 vols w2 enis w3 where "get_instance_details prov i w = (Inr d, w1)"
      "get_associated_volumes prov i w1 = (Inr vols, w2)"
      "get_associated_network_interfaces prov i w2 = (Inr enis, w3)"
      "get_associated_snapshots prov i w3 = (Inl e, w')"
  | (amis) d w1 vols w2 enis w3 snaps w4 where "get_instance_details prov i w = (Inr d, w1)"
      "get_associated_volumes prov i w1 = (Inr vols, w2)"
      "get_associated_network_interfaces prov i w2 = (Inr enis, w3)"
      "get_associated_snapshots prov i w3 = (Inr snaps, w4)"
      "get_associated_ami prov i w4 = (Inl e, w')"
  | (sgs) d w1 vols w2 enis w3 snaps w4 amis w5 where
      "get_instance_details prov i w = (Inr d, w1)"
      "get_associated_volumes prov i w1 = (Inr vols, w2)"
      "get_associated_network_interfaces prov i w2 = (Inr enis, w3)"
      "get_associated_snapshots prov i w3 = (Inr snaps, w4)"
      "get_associated_ami prov i w4 = (Inr amis, w5)"
      "get_associated_security_groups prov i w5 = (Inl e, w')"
  | (eips) d w1 vols w2 enis w3 snaps w4 amis w5 sgs w6 where
      "get_instance_details prov i w = (Inr d, w1)"
      "get_associated_volumes prov i w1 = (Inr vols, w2)"
      "get_associated_network_interfaces prov i w2 = (Inr enis, w3)"
      "get_associated_snapshots prov i w3 = (Inr snaps, w4)"
      "get_associated_ami prov i w4 = (Inr amis, w5)"
      "get_associated_security_groups prov i w5 = (Inr sgs, w6)"
      "get_associated_elastic_ips prov i w6 = (Inl e, w')"
  using assms unfolding discover_body_def bind_io_def
  by (auto split: prod.splits sum.splits)

text \<open>A request made after the lookup, whose answer was not a raised ClientError.\<close>

lemma after_lookup:
  assumes "calls a = calls w @ LoadInstance i # cs0"
    and "\<exists>cs c. calls w' = calls a @ cs @ [c] \<and> safe (prov (calls a @ cs) c)"
  shows "\<exists>cs c. calls w' = calls w @ LoadInstance i # cs @ [c]
           \<and> safe (prov (calls w @ LoadInstance i # cs) c)"
proof -
  from assms(2) obtain cs c where "calls w' = calls a @ cs @ [c]" "safe (prov (calls a @ cs) c)"
    by blast
  with assms(1) have "calls w' = calls w @ LoadInstance i # (cs0 @ cs) @ [c]
      \<and> safe (prov (calls w @ LoadInstance i # (cs0 @ cs)) c)" by simp
  then show ?thesis by blast
qed

lemma extend_calls:
  assumes "calls a = calls w @ LoadInstance i # cs0" and "\<exists>cs. calls b = calls a @ cs"
  shows "\<exists>cs1. calls b = calls w @ LoadInstance i # cs1"
  using assms by auto

lemma discover_body_abort:
  assumes "discover_body prov i w = (Inl e, w')"
  shows "calls w' = calls w @ [LoadInstance i]
       \<or> (\<exists>cs c. calls w' = calls w @ LoadInstance i # cs @ [c]
             \<and> safe (prov (calls w @ LoadInstance i # cs) c))"
  using assms
proof (cases rule: discover_body_Inl_cases)
  case details
  with instance_details_world [of prov i w] show ?thesis by simp
next
  case (inst d)
  with instance_details_world [of prov i w] show ?thesis by simp
next
  case (volumes d w1)
  from instance_details_world [of prov i w] volumes(1)
  have c1: "calls w1 = calls w @ LoadInstance i # []" by simp
  from volumes_abort [OF volumes(2)]
  have "\<exists>cs c. calls w' = calls w1 @ cs @ [c] \<and> safe (prov (calls w1 @ cs) c)"
    by (intro exI [of _ "[]"]) simp
  from after_lookup [OF c1 this] show ?thesis by blast
next
  case (enis d w1 vols w2)
  from instance_details_world [of prov i w] enis(1)
  have c1: "calls w1 = calls w @ LoadInstance i # []" by simp
  from volumes_calls [of prov i w1] enis(2) have "\<exists>cs. calls w2 = calls w1 @ cs" by simp
  from extend_calls [OF c1 this] obtain cs2 where c2: "calls w2 = calls w @ LoadInstance i # cs2" ..
  from network_interfaces_abort [OF enis(3)]
  have "\<exists>cs c. calls w' = calls w2 @ cs @ [c] \<and> safe (prov (calls w2 @ cs) c)"
    by (intro exI [of _ "[]"]) simp
  from after_lookup [OF c2 this] show ?thesis by blast
next
  case (snaps d w1 vols w2 enis w3)
  from instance_details_world [of prov i w] snaps(1)
  have c1: "calls w1 = calls w @ LoadInstance i # []" by simp
  from volumes_calls [of prov i w1] snaps(2) have "\<exists>cs. calls w2 = calls w1 @ cs" by simp
  from extend_calls [OF c1 this] obtain cs2 where c2: "calls w2 = calls w @ LoadInstance i # cs2" ..
  from network_interfaces_calls [of prov i w2] snaps(3)
  have "\<exists>cs. calls w3 = calls w2 @ cs" by simp
  from extend_calls [OF c2 this] obtain cs3 where c3: "calls w3 = calls w @ LoadInstance i # cs3" ..
  from after_lookup [OF c3 snapshots_abort [OF snaps(4)]] show ?thesis by blast
next
  case (amis d w1 vols w2 enis w3 snaps w4)
  from instance_details_world [of prov i w] amis(1)
  have c1: "calls w1 = calls w @ LoadInstance i # []" by simp
  from volumes_calls [of prov i w1] amis(2) have "\<exists>cs. calls w2 = calls w1 @ cs" by simp
  from extend_calls [OF c1 this] obtain cs2 where c2: "calls w2 = calls w @ LoadInstance i # cs2" ..
  from network_interfaces_calls [of prov i w2] amis(3)
  have "\<exists>cs. calls w3 = calls w2 @ cs" by simp
  from extend_calls [OF c2 this] obtain cs3 where c3: "calls w3 = calls w @ LoadInstance i # cs3" ..
  from snapshots_calls [of prov i w3] amis(4) have "\<exists>cs. calls w4 = calls w3 @ cs" by simp
  from extend_calls [OF c3 this] obtain cs4 where c4: "calls w4 = calls w @ LoadInstance i # cs4" ..
  from after_lookup [OF c4 ami_abort [OF amis(5)]] show ?thesis by blast
next
  case (sgs d w1 vols w2 enis w3 snaps w4 amis w5)
  from instance_details_world [of prov i w] sgs(1)
  have c1: "calls w1 = calls w @ LoadInstance i # []" by simp
  from volumes_calls [of prov i w1] sgs(2) have "\<exists>cs. calls w2 = calls w1 @ cs" by simp
  from extend_calls [OF c1 this] obtain cs2 where c2: "calls w2 = calls w @ LoadInstance i # cs2" ..
  from network_interfaces_calls [of prov i w2] sgs(3)
  have "\<exists>cs. calls w3 = calls w2 @ cs" by simp
  from extend_calls [OF c2 this] obtain cs3 where c3: "calls w3 = calls w @ LoadInstance i # cs3" ..
  from snapshots_calls [of prov i w3] sgs(4) have "\<exists>cs. calls w4 = calls w3 @ cs" by simp
  from extend_calls [OF c3 this] obtain cs4 where c4: "calls w4 = calls w @ LoadInstance i # cs4" ..
  from ami_calls [of prov i w4] sgs(5) have "\<exists>cs. calls w5 = calls w4 @ cs" by simp
  from extend_calls [OF c4 this] obtain cs5 where c5: "calls w5 = calls w @ LoadInstance i # cs5" ..
  from after_lookup [OF c5 security_groups_abort [OF sgs(6)]] show ?thesis by blast
next
  case (eips d w1 vols w2 enis w3 snaps w4 amis w5 sgs w6)
  from instance_details_world [of prov i w] eips(1)
  have c1: "calls w1 = calls w @ LoadInstance i # []" by simp
  from volumes_calls [of prov i w1] eips(2) have "\<exists>cs. calls w2 = calls w1 @ cs" by simp
  from extend_calls [OF c1 this] obtain cs2 where c2: "calls w2 = calls w @ LoadInstance i # cs2" ..
  from network_interfaces_calls [of prov i w2] eips(3)
  have "\<exists>cs. calls w3 = calls w2 @ cs" by simp
  from extend_calls [OF c2 this] obtain cs3 where c3: "calls w3 = calls w @ LoadInstance i # cs3" ..
  from snapshots_calls [of prov i w3] eips(4) have "\<exists>cs. calls w4 = calls w3 @ cs" by simp
  from extend_calls [OF c3 this] obtain cs4 where c4: "calls w4 = calls w @ LoadInstance i # cs4" ..
  from ami_calls [of prov i w4] eips(5) have "\<exists>cs. calls w5 = calls w4 @ cs" by simp
  from extend_calls [OF c4 this] obtain cs5 where c5: "calls w5 = calls w @ LoadInstance i # cs5" ..
  from security_groups_calls [of prov i w5] eips(6)
  have "\<exists>cs. calls w6 = calls w5 @ cs" by simp
  from extend_calls [OF c5 this] obtain cs6 where c6: "calls w6 = calls w @ LoadInstance i # cs6" ..
  from elastic_ips_abort [OF eips(7)]
  have "\<exists>cs c. calls w' = calls w6 @ cs @ [c] \<and> safe (prov (calls w6 @ cs) c)"
    by (intro exI [of _ "[]"]) simp
  from after_lookup [OF c6 this] show ?thesis by blast
qed

text \<open>
  A collector whose first request is answered by a raised \<open>ClientError\<close> returns the
  empty list, after at least one request.
\<close>

lemma raises_client_errorE:
  assumes "raises_client_error m"
  obtains c where "m = Inl (ClientError c)"
proof (cases m)
  case (Inl e)
  with assms show ?thesis by (cases e) (auto intro: that)
next
  case (Inr x)
  with assms show ?thesis by simp
qed

lemma volumes_throttled:
  assumes "raises_client_error (prov (calls a) (DescribeVolumes i))"
  shows "\<exists>a'. get_associated_volumes prov i a = (Inr [], a') \<and> length (calls a) < length (calls a')"
proof -
  from assms obtain c where "prov (calls a) (DescribeVolumes i) = Inl (ClientError c)"
    by (rule raises_client_errorE)
  from volumes_absorb [of prov a i c, OF this] show ?thesis by (simp add: emit_def)
qed

lemma network_interfaces_throttled:
  assumes "raises_client_error (prov (calls a) (DescribeNetworkInterfaces i))"
  shows "\<exists>a'. get_associated_network_interfaces prov i a = (Inr [], a')
           \<and> length (calls a) < length (calls a')"
proof -
  from assms obtain c where "prov (calls a) (DescribeNetworkInterfaces i) = Inl (ClientError c)"
    by (rule raises_client_errorE)
  from network_interfaces_absorb [of prov a i c, OF this] show ?thesis by (simp add: emit_def)
qed

lemma elastic_ips_throttled:
  assumes "raises_client_error (prov (calls a) (DescribeAddresses i))"
  shows "\<exists>a'. get_associated_elastic_ips prov i a = (Inr [], a')
           \<and> length (calls a) < length (calls a')"
proof -
  from assms obtain c where "prov (calls a) (DescribeAddresses i) = Inl (ClientError c)"
    by (rule raises_client_errorE)
  from elastic_ips_absorb [of prov a i c, OF this] show ?thesis by (simp add: emit_def)
qed

lemma snapshots_throttled:
  assumes "raises_client_error (prov (calls a) (DescribeVolumes i))"
  shows "\<exists>a'. get_associated_snapshots prov i a = (Inr [], a')
           \<and> length (calls a) < length (calls a')"
proof -
  from volumes_throttled [of prov a i, OF assms] obtain a' where
    v: "get_associated_volumes prov i a = (Inr [], a')" and l: "length (calls a) < length (calls a')"
    by blast
  from v have "get_associated_snapshots prov i a = (Inr [], a')"
    by (simp add: get_associated_snapshots_def)
  with l show ?thesis by blast
qed

lemma ami_throttled:
  assumes "raises_client_error (prov (calls a) (LoadInstance i))"
  shows "\<exists>a'. get_associated_ami prov i a = (Inr [], a') \<and> length (calls a) < length (calls a')"
proof -
  from assms obtain c where "prov (calls a) (LoadInstance i) = Inl (ClientError c)"
    by (rule raises_client_errorE)
  from ami_absorb_load [of prov a i c, OF this] show ?thesis by (simp add: emit_def)
qed

lemma security_groups_throttled:
  assumes "raises_client_error (prov (calls a) (LoadInstance i))"
  shows "\<exists>a'. get_associated_security_groups prov i a = (Inr [], a')
           \<and> length (calls a) < length (calls a')"
proof -
  from assms obtain c where "prov (calls a) (LoadInstance i) = Inl (ClientError c)"
    by (rule raises_client_errorE)
  from security_groups_absorb_load [of prov a i c, OF this] show ?thesis by (simp add: emit_def)
qed

text \<open>The instance record can always be made of the details of a successful lookup.\<close>

lemma build_dict_keys: "build_dict xs = Inr r \<Longrightarrow> map fst r = map fst xs"
proof (induction xs arbitrary: r)
  case Nil
  then show ?case by simp
next
  case (Cons a xs)
  obtain k m where a: "a = (k, m)" by (cases a)
  with Cons show ?case by (auto split: sum.splits)
qed

lemma rsub_in_keys: "k \<in> set (map fst r) \<Longrightarrow> rsub r k = Inr (the (map_of r k))"
proof -
  assume "k \<in> set (map fst r)"
  then have "map_of r k \<noteq> None" by (simp add: map_of_eq_None_iff)
  then show ?thesis by (auto simp: rsub_def)
qed

lemma handled_Inr:
  assumes "(case body of
              Inl (ClientError code) \<Rightarrow>
                if code = nf then (Inl (ValueError m), w1) else (Inl (ClientError code), w1)
            | Inl x \<Rightarrow> (Inl x, w1)
            | Inr d \<Rightarrow> (Inr d, w1)) = (Inr d', w')"
  shows "body = Inr d'"
  using assms by (auto split: sum.splits exn.splits if_splits)

lemma details_keys:
  assumes "get_instance_details prov i w = (Inr d, w1)"
  shows "map fst d = [''instance_id'', ''instance_type'', ''state'', ''launch_time'',
                      ''availability_zone'', ''vpc_id'', ''subnet_id'', ''private_ip'',
                      ''public_ip'', ''image_id'', ''key_name'', ''tags'']"
proof -
  let ?F = "\<lambda>inst. build_dict
            [(''instance_id'', Inr (PStr i)),
             (''instance_type'', Inr (attr inst ''InstanceType'')),
             (''state'', subscr (attr inst ''State'') ''Name''),
             (''launch_time'',
                if truthy (attr inst ''LaunchTime'')
                then isoformat (attr inst ''LaunchTime'') else Inr PNone),
             (''availability_zone'', subscr (attr inst ''Placement'') ''AvailabilityZone''),
             (''vpc_id'', Inr (attr inst ''VpcId'')),
             (''subnet_id'', Inr (attr inst ''SubnetId'')),
             (''private_ip'', Inr (attr inst ''PrivateIpAddress'')),
             (''public_ip'', Inr (attr inst ''PublicIpAddress'')),
             (''image_id'', Inr (attr inst ''ImageId'')),
             (''key_name'', Inr (attr inst ''KeyName'')),
             (''tags'', tags_dict (Inr (if truthy (attr inst ''Tags'')
                                        then attr inst ''Tags'' else PList [])))]"
  from assms have b: "bind_exn (prov (calls w) (LoadInstance i)) ?F = Inr d"
    unfolding get_instance_details_def call_def Let_def prod.case
    by (rule handled_Inr)
  then obtain inst where "?F inst = Inr d"
    by (cases "prov (calls w) (LoadInstance i)") (simp_all only: bind_exn_def sum.case sum.simps)
  from build_dict_keys [OF this] show ?thesis by simp
qed

lemma instance_resource_total:
  assumes "get_instance_details prov i w = (Inr d, w1)"
  shows "\<exists>inst. instance_resource i d = Inr inst"
proof -
  note k = details_keys [OF assms]
  have "rsub d ''instance_type'' = Inr (the (map_of d ''instance_type''))"
    "rsub d ''state'' = Inr (the (map_of d ''state''))"
    "rsub d ''availability_zone'' = Inr (the (map_of d ''availability_zone''))"
    "rsub d ''vpc_id'' = Inr (the (map_of d ''vpc_id''))"
    "rsub d ''private_ip'' = Inr (the (map_of d ''private_ip''))"
    "rsub d ''public_ip'' = Inr (the (map_of d ''public_ip''))"
    "rsub d ''tags'' = Inr (the (map_of d ''tags''))"
    by (rule rsub_in_keys, simp add: k)+
  then show ?thesis by (simp add: instance_resource_def)
qed

lemma discover_body_throttled:
  assumes det: "get_instance_details prov i w = (Inr d, w1)"
    and H: "\<forall>h c. length (calls w) < length h \<longrightarrow> raises_client_error (prov h c)"
  shows "\<exists>inst w'. instance_resource i d = Inr inst
           \<and> discover_body prov i w = (Inr (make_result d inst [] [] [] [] [] []), w')"
proof -
  from instance_details_world [of prov i w] det
  have l1: "length (calls w) < length (calls w1)" by simp
  from instance_resource_total [OF det] obtain inst where inst: "instance_resource i d = Inr inst" ..
  from H l1 have "raises_client_error (prov (calls w1) (DescribeVolumes i))" by blast
  from volumes_throttled [of prov w1 i, OF this] obtain w2 where
    v: "get_associated_volumes prov i w1 = (Inr [], w2)"
    and l2: "length (calls w1) < length (calls w2)" by blast
  from H l1 l2 have "raises_client_error (prov (calls w2) (DescribeNetworkInterfaces i))"
    by (meson less_trans)
  from network_interfaces_throttled [of prov w2 i, OF this] obtain w3 where
    e: "get_associated_network_interfaces prov i w2 = (Inr [], w3)"
    and l3: "length (calls w2) < length (calls w3)" by blast
  from l1 l2 l3 have l3': "length (calls w) < length (calls w3)" by simp
  with H have "raises_client_error (prov (calls w3) (DescribeVolumes i))" by blast
  from snapshots_throttled [of prov w3 i, OF this] obtain w4 where
    s: "get_associated_snapshots prov i w3 = (Inr [], w4)"
    and l4: "length (calls w3) < length (calls w4)" by blast
  from l3' l4 have l4': "length (calls w) < length (calls w4)" by simp
  with H have "raises_client_error (prov (calls w4) (LoadInstance i))" by blast
  from ami_throttled [of prov w4 i, OF this] obtain w5 where
    a: "get_associated_ami prov i w4 = (Inr [], w5)"
    and l5: "length (calls w4) < length (calls w5)" by blast
  from l4' l5 have l5': "length (calls w) < length (calls w5)" by simp
  with H have "raises_client_error (prov (calls w5) (LoadInstance i))" by blast
  from security_groups_throttled [of prov w5 i, OF this] obtain w6 where
    g: "get_associated_security_groups prov i w5 = (Inr [], w6)"
    and l6: "length (calls w5) < length (calls w6)" by blast
  from l5' l6 have l6': "length (calls w) < length (calls w6)" by simp
  with H have "raises_client_error (prov (calls w6) (DescribeAddresses i))" by blast
  from elastic_ips_throttled [of prov w6 i, OF this] obtain w7 where
    p: "get_associated_elastic_ips prov i w6 = (Inr [], w7)" by blast
  have "discover_body prov i w = (Inr (make_result d inst [] [] [] [] [] []), w7)"
    by (simp add: discover_body_def bind_io_def det inst v e s a g p)
  with inst show ?thesis by blast
qed

lemma fst_handled:
  "fst (case body of
          Inl (ClientError code) \<Rightarrow>
            if code = nf then (Inl (ValueError m), a) else (Inl (ClientError code), a)
        | Inl x \<Rightarrow> (Inl x, a)
        | Inr d \<Rightarrow> (Inr d, a))
   = fst (case body of
          Inl (ClientError code) \<Rightarrow>
            if code = nf then (Inl (ValueError m), b) else (Inl (ClientError code), b)
        | Inl x \<Rightarrow> (Inl x, b)
        | Inr d \<Rightarrow> (Inr d, b))"
  by (auto split: sum.splits exn.splits)

lemma fst_details_emit:
  "fst (get_instance_details prov i (emit ev w)) = fst (get_instance_details prov i w)"
  unfolding get_instance_details_def call_def Let_def prod.case calls_emit
  by (rule fst_handled)

lemma discover_from_body_Inr:
  assumes "discover_body prov i
             (emit (Print (''Discovering resources for EC2 instance: '' @ i)) w) = (Inr r, w1)"
  shows "discover_all_resources prov i w = (Some r, w1)"
  using assms unfolding discover_all_resources_def by simp

text \<open>
  A collector that returns a list, one of whose requests was answered by a raised
  \<open>ClientError\<close>, returns the empty list.
\<close>

lemma except_client_error_calls:
  "except_client_error msg body w = (r, w') \<Longrightarrow> calls w' = calls w"
  by (auto simp: except_client_error_def split: option.splits exn.splits)

lemma query_empty:
  assumes "except_client_error msg
             (case answer of Inl e \<Rightarrow> (Some e, [])
              | Inr response \<Rightarrow> collect_loop info member response) w = (Inr rs, w')"
    and "raises_client_error answer"
  shows "rs = []"
  using assms by (cases answer) (auto dest: except_client_error_Inr(1))

lemma network_interfaces_calls1:
  "calls (snd (get_associated_network_interfaces prov i w))
     = calls w @ [DescribeNetworkInterfaces i]"
  by (auto simp: get_associated_network_interfaces_def call_def except_client_error_def emit_def
                 Let_def
           split: option.splits exn.splits sum.splits)

lemma elastic_ips_calls1:
  "calls (snd (get_associated_elastic_ips prov i w)) = calls w @ [DescribeAddresses i]"
  by (auto simp: get_associated_elastic_ips_def call_def except_client_error_def emit_def Let_def
           split: option.splits exn.splits sum.splits)

lemma between_one:
  "calls a' = calls a @ [c] \<Longrightarrow>
   client_error_between prov a a' = raises_client_error (prov (calls a) c)"
  by (simp add: client_error_between_def)

lemma between_two:
  "calls a' = calls a @ [c, c'] \<Longrightarrow>
   client_error_between prov a a'
     = (raises_client_error (prov (calls a) c) \<or> raises_client_error (prov (calls a @ [c]) c'))"
  by (simp add: client_error_between_def)

lemma volumes_empty:
  assumes "get_associated_volumes prov i a = (Inr rs, a')" and "client_error_between prov a a'"
  shows "rs = []"
proof -
  from volumes_calls [of prov i a] assms(1) have "calls a' = calls a @ [DescribeVolumes i]"
    by simp
  from between_one [OF this] assms(2)
  have "raises_client_error (prov (calls a) (DescribeVolumes i))" by simp
  from volumes_throttled [of prov a i, OF this] assms(1) show ?thesis by auto
qed

lemma network_interfaces_empty:
  assumes "get_associated_network_interfaces prov i a = (Inr rs, a')"
    and "client_error_between prov a a'"
  shows "rs = []"
proof -
  from network_interfaces_calls1 [of prov i a] assms(1)
  have "calls a' = calls a @ [DescribeNetworkInterfaces i]" by simp
  from between_one [OF this] assms(2)
  have "raises_client_error (prov (calls a) (DescribeNetworkInterfaces i))" by simp
  from network_interfaces_throttled [of prov a i, OF this] assms(1) show ?thesis by auto
qed

lemma elastic_ips_empty:
  assumes "get_associated_elastic_ips prov i a = (Inr rs, a')"
    and "client_error_between prov a a'"
  shows "rs = []"
proof -
  from elastic_ips_calls1 [of prov i a] assms(1)
  have "calls a' = calls a @ [DescribeAddresses i]" by simp
  from between_one [OF this] assms(2)
  have "raises_client_error (prov (calls a) (DescribeAddresses i))" by simp
  from elastic_ips_throttled [of prov a i, OF this] assms(1) show ?thesis by auto
qed

lemma snapshots_empty:
  assumes run: "get_associated_snapshots prov i a = (Inr rs, a')"
    and ce: "client_error_between prov a a'"
  shows "rs = []"
proof (rule ccontr)
  assume ne: "rs \<noteq> []"
  from snapshots_run [OF run ne] obtain volumes w1 ids where
    v: "get_associated_volumes prov i a = (Inr volumes, w1)"
    and q: "except_client_error ''Error retrieving snapshots: ''
      (case prov (calls w1) (DescribeSnapshots ids) of Inl e \<Rightarrow> (Some e, [])
       | Inr response \<Rightarrow> collect_loop snapshot_info ''Snapshots'' response)
      (w1\<lparr>calls := calls w1 @ [DescribeSnapshots ids]\<rparr>) = (Inr rs, a')"
    by blast
  from volumes_calls [of prov i a] v have c1: "calls w1 = calls a @ [DescribeVolumes i]"
    by simp
  from except_client_error_calls [OF q] c1
  have "calls a' = calls a @ [DescribeVolumes i, DescribeSnapshots ids]" by simp
  from between_two [OF this] ce
  have "raises_client_error (prov (calls a) (DescribeVolumes i))
      \<or> raises_client_error (prov (calls a @ [DescribeVolumes i]) (DescribeSnapshots ids))"
    by simp
  then show False
  proof
    assume "raises_client_error (prov (calls a) (DescribeVolumes i))"
    from snapshots_throttled [of prov a i, OF this] run ne show False by auto
  next
    assume "raises_client_error (prov (calls a @ [DescribeVolumes i]) (DescribeSnapshots ids))"
    then have "raises_client_error (prov (calls w1) (DescribeSnapshots ids))" by (simp only: c1)
    from query_empty [OF q this] ne show False by simp
  qed
qed

lemma ami_empty:
  assumes run: "get_associated_ami prov i a = (Inr rs, a')"
    and ce: "client_error_between prov a a'"
  shows "rs = []"
proof (rule ccontr)
  assume ne: "rs \<noteq> []"
  from ami_run [OF run ne] obtain ids where
    q: "except_client_error ''Error retrieving AMI: ''
      (case prov (calls a @ [LoadInstance i]) (DescribeImages ids) of Inl e \<Rightarrow> (Some e, [])
       | Inr response \<Rightarrow> collect_loop ami_info ''Images'' response)
      (a\<lparr>calls := calls a @ [LoadInstance i, DescribeImages ids]\<rparr>) = (Inr rs, a')"
    by blast
  from except_client_error_calls [OF q]
  have "calls a' = calls a @ [LoadInstance i, DescribeImages ids]" by simp
  from between_two [OF this] ce
  have "raises_client_error (prov (calls a) (LoadInstance i))
      \<or> raises_client_error (prov (calls a @ [LoadInstance i]) (DescribeImages ids))"
    by simp
  then show False
  proof
    assume "raises_client_error (prov (calls a) (LoadInstance i))"
    from ami_throttled [of prov a i, OF this] run ne show False by auto
  next
    assume "raises_client_error (prov (calls a @ [LoadInstance i]) (DescribeImages ids))"
    from query_empty [OF q this] ne show False by simp
  qed
qed

lemma security_groups_empty:
  assumes run: "get_associated_security_groups prov i a = (Inr rs, a')"
    and ce: "client_error_between prov a a'"
  shows "rs = []"
proof (rule ccontr)
  assume ne: "rs \<noteq> []"
  from security_groups_run [OF run ne] obtain ids where
    q: "except_client_error ''Error retrieving security groups: ''
      (case prov (calls a @ [LoadInstance i]) (DescribeSecurityGroups ids) of
         Inl e \<Rightarrow> (Some e, [])
       | Inr response \<Rightarrow> collect_loop sg_info ''SecurityGroups'' response)
      (a\<lparr>calls := calls a @ [LoadInstance i, DescribeSecurityGroups ids]\<rparr>) = (Inr rs, a')"
    by blast
  from except_client_error_calls [OF q]
  have "calls a' = calls a @ [LoadInstance i, DescribeSecurityGroups ids]" by simp
  from between_two [OF this] ce
  have "raises_client_error (prov (calls a) (LoadInstance i))
      \<or> raises_client_error (prov (calls a @ [LoadInstance i]) (DescribeSecurityGroups ids))"
    by simp
  then show False
  proof
    assume "raises_client_error (prov (calls a) (LoadInstance i))"
    from security_groups_throttled [of prov a i, OF this] run ne show False by auto
  next
    assume "raises_client_error (prov (calls a @ [LoadInstance i]) (DescribeSecurityGroups ids))"
    from query_empty [OF q this] ne show False by simp
  qed
qed

lemma discovery_absorbs:
  assumes "discover_all_resources prov i w = (Some r, w')"
  shows "\<exists>inst vols enis snaps amis sgs eips w1 w2 w3 w4 w5 w6.
            resources r = [inst] @ vols @ enis @ snaps @ amis @ sgs @ eips
          \<and> calls w1 = calls w @ [LoadInstance i]
          \<and> get_associated_volumes prov i w1 = (Inr vols, w2)
          \<and> get_associated_network_interfaces prov i w2 = (Inr enis, w3)
          \<and> get_associated_snapshots prov i w3 = (Inr snaps, w4)
          \<and> get_associated_ami prov i w4 = (Inr amis, w5)
          \<and> get_associated_security_groups prov i w5 = (Inr sgs, w6)
          \<and> get_associated_elastic_ips prov i w6 = (Inr eips, w')
          \<and> (client_error_between prov w1 w2 \<longrightarrow> vols = [])
          \<and> (client_error_between prov w2 w3 \<longrightarrow> enis = [])
          \<and> (client_error_between prov w3 w4 \<longrightarrow> snaps = [])
          \<and> (client_error_between prov w4 w5 \<longrightarrow> amis = [])
          \<and> (client_error_between prov w5 w6 \<longrightarrow> sgs = [])
          \<and> (client_error_between prov w6 w' \<longrightarrow> eips = [])"
proof -
  let ?w0 = "emit (Print (''Discovering resources for EC2 instance: '' @ i)) w"
  from discover_Some [OF assms] obtain d inst vols enis snaps amis sgs eips w1 w2 w3 w4 w5 w6
    where det: "get_instance_details prov i ?w0 = (Inr d, w1)"
      and inst: "instance_resource i d = Inr inst"
      and vols: "get_associated_volumes prov i w1 = (Inr vols, w2)"
      and enis: "get_associated_network_interfaces prov i w2 = (Inr enis, w3)"
      and snaps: "get_associated_snapshots prov i w3 = (Inr snaps, w4)"
      and amis: "get_associated_ami prov i w4 = (Inr amis, w5)"
      and sgs: "get_associated_security_groups prov i w5 = (Inr sgs, w6)"
      and eips: "get_associated_elastic_ips prov i w6 = (Inr eips, w')"
      and r: "r = make_result d inst vols enis snaps amis sgs eips"
    by (rule discover_body_Inr)
  from instance_details_world [of prov i ?w0] det
  have c: "calls w1 = calls w @ [LoadInstance i]" by (simp add: emit_def)
  have res: "resources r = [inst] @ vols @ enis @ snaps @ amis @ sgs @ eips"
    by (simp only: r resources_make_result)
  show ?thesis
    apply (rule exI [of _ inst], rule exI [of _ vols], rule exI [of _ enis])
    apply (rule exI [of _ snaps], rule exI [of _ amis], rule exI [of _ sgs])
    apply (rule exI [of _ eips], rule exI [of _ w1], rule exI [of _ w2], rule exI [of _ w3])
    apply (rule exI [of _ w4], rule exI [of _ w5], rule exI [of _ w6])
    apply (intro conjI impI)
    apply (rule res)
    apply (rule c)
    apply (rule vols)
    apply (rule enis)
    apply (rule snaps)
    apply (rule amis)
    apply (rule sgs)
    apply (rule eips)
    apply (erule volumes_empty [OF vols])
    apply (erule network_interfaces_empty [OF enis])
    apply (erule snapshots_empty [OF snaps])
    apply (erule ami_empty [OF amis])
    apply (erule security_groups_empty [OF sgs])
    apply (erule elastic_ips_empty [OF eips])
    done
qed

text \<open>The sample providers.\<close>

lemma lookup_only_fails: "h \<noteq> [] \<Longrightarrow> raises_client_error (lookup_only_provider h c)"
  by (simp add: lookup_only_provider_def)

lemma lookup_only_between:
  assumes "calls a \<noteq> []" and "length (calls a) < length (calls a')"
  shows "client_error_between lookup_only_provider a a'"
proof -
  from assms(2) obtain c cs where "drop (length (calls a)) (calls a') = c # cs"
    by (cases "drop (length (calls a)) (calls a')") simp_all
  with lookup_only_fails [OF assms(1)] show ?thesis
    by (simp add: client_error_between_def)
qed

lemma not_found_lookup:
  "not_found_provider (calls empty_world) (LoadInstance demo_id)
     = Inl (ClientError ''InvalidInstanceID.NotFound'')"
  by (simp add: not_found_provider_def)

lemma denied_lookup:
  "denied_provider (calls empty_world) (LoadInstance demo_id)
     = Inl (ClientError ''UnauthorizedOperation'')"
  by (simp add: denied_provider_def)

lemma unreachable_lookup:
  "unreachable_provider (calls empty_world) (LoadInstance demo_id) = Inr demo_instance"
  by code_simp

lemma unreachable_calls:
  "calls (snd (discover_all_resources unreachable_provider demo_id empty_world))
     = [LoadInstance demo_id, DescribeVolumes demo_id]"
  by code_simp

lemma lookup_only_details:
  "fst (get_instance_details lookup_only_provider demo_id empty_world)
     = Inr (instance_details demo_result)"
  by code_simp

text \<open>
  C5, as the code has it. \<open>discover_all_resources\<close> returns no result when the provider
  reports the instance as not found: the error is printed as
  \<open>Error: Instance <id> not found\<close> and no collector runs. It is not the only failure
  that aborts the discovery: whatever the instance lookup raises aborts it, after that one
  request. A \<open>ClientError\<close> raised for a collector's request never aborts the discovery:
  when the discovery returns no result, the exception it prints is not a \<open>ClientError\<close>,
  unless it is the one the instance lookup itself raised, and the discovery stopped either
  at the lookup or right after a later request whose answer was not a raised
  \<open>ClientError\<close>. When the discovery returns a result, a collector one of whose requests
  was answered by a raised \<open>ClientError\<close> contributes the empty list to it. When the
  lookup gives the details and every request after it raises a \<open>ClientError\<close>, the
  discovery returns a result all the same: its resources are the instance record alone,
  its total is 1 and its six counts are 0.
\<close>

theorem discovery_failures:
  "(prov (calls w) (LoadInstance i) = Inl (ClientError ''InvalidInstanceID.NotFound'') \<longrightarrow>
      discover_all_resources prov i w
        = (None, w\<lparr>calls := calls w @ [LoadInstance i],
                   out := out w @
                     [Print (''Discovering resources for EC2 instance: '' @ i),
                      PrintErr ''Error: '' (ValueError (''Instance '' @ i @ '' not found''))]\<rparr>))
   \<and> (prov (calls w) (LoadInstance i) = Inl e \<longrightarrow>
        fst (discover_all_resources prov i w) = None
        \<and> calls (snd (discover_all_resources prov i w)) = calls w @ [LoadInstance i])
   \<and> (fst (discover_all_resources prov i w) = None \<longrightarrow>
        (\<exists>p x. last (out (snd (discover_all_resources prov i w))) = PrintErr p x
           \<and> (is_client_error x \<longrightarrow> prov (calls w) (LoadInstance i) = Inl x)))
   \<and> (fst (discover_all_resources prov i w) = None \<longrightarrow>
        calls (snd (discover_all_resources prov i w)) = calls w @ [LoadInstance i]
        \<or> (\<exists>cs c. calls (snd (discover_all_resources prov i w))
                     = calls w @ LoadInstance i # cs @ [c]
              \<and> safe (prov (calls w @ LoadInstance i # cs) c)))
   \<and> (discover_all_resources prov i w = (Some r, w') \<longrightarrow>
        (\<exists>inst vols enis snaps amis sgs eips w1 w2 w3 w4 w5 w6.
            resources r = [inst] @ vols @ enis @ snaps @ amis @ sgs @ eips
          \<and> calls w1 = calls w @ [LoadInstance i]
          \<and> get_associated_volumes prov i w1 = (Inr vols, w2)
          \<and> get_associated_network_interfaces prov i w2 = (Inr enis, w3)
          \<and> get_associated_snapshots prov i w3 = (Inr snaps, w4)
          \<and> get_associated_ami prov i w4 = (Inr amis, w5)
          \<and> get_associated_security_groups prov i w5 = (Inr sgs, w6)
          \<and> get_associated_elastic_ips prov i w6 = (Inr eips, w')
          \<and> (client_error_between prov w1 w2 \<longrightarrow> vols = [])
          \<and> (client_error_between prov w2 w3 \<longrightarrow> enis = [])
          \<and> (client_error_between prov w3 w4 \<longrightarrow> snaps = [])
          \<and> (client_error_between prov w4 w5 \<longrightarrow> amis = [])
          \<and> (client_error_between prov w5 w6 \<longrightarrow> sgs = [])
          \<and> (client_error_between prov w6 w' \<longrightarrow> eips = [])))
   \<and> (fst (get_instance_details prov i w) = Inr d
       \<and> (\<forall>h c. length (calls w) < length h \<longrightarrow> raises_client_error (prov h c)) \<longrightarrow>
        (\<exists>inst r. instance_resource i d = Inr inst
           \<and> fst (discover_all_resources prov i w) = Some r
           \<and> instance_details r = d \<and> resources r = [inst]
           \<and> summary r = [(''total_resources'', PInt 1), (''volumes'', PInt 0),
                           (''network_interfaces'', PInt 0), (''snapshots'', PInt 0),
                           (''amis'', PInt 0), (''security_groups'', PInt 0),
                           (''elastic_ips'', PInt 0)]))"
proof (intro conjI impI)
  let ?w0 = "emit (Print (''Discovering resources for EC2 instance: '' @ i)) w"
  have c0: "calls ?w0 = calls w" by (rule calls_emit)
  {
    assume "prov (calls w) (LoadInstance i) = Inl (ClientError ''InvalidInstanceID.NotFound'')"
    then have "prov (calls ?w0) (LoadInstance i) = Inl (ClientError ''InvalidInstanceID.NotFound'')"
      by (simp only: c0)
    from discover_from_body_Inl
      [OF discover_body_details_Inl [OF instance_details_not_found [of prov ?w0 i, OF this]]]
    show "discover_all_resources prov i w
        = (None, w\<lparr>calls := calls w @ [LoadInstance i],
                   out := out w @
                     [Print (''Discovering resources for EC2 instance: '' @ i),
                      PrintErr ''Error: '' (ValueError (''Instance '' @ i @ '' not found''))]\<rparr>)"
      by (simp add: emit_def)
  }
  {
    assume "prov (calls w) (LoadInstance i) = Inl e"
    then have "prov (calls ?w0) (LoadInstance i) = Inl e" by (simp only: c0)
    from instance_details_raises [of prov ?w0 i e, OF this] obtain x where
      "get_instance_details prov i ?w0 = (Inl x, ?w0\<lparr>calls := calls ?w0 @ [LoadInstance i]\<rparr>)"
      by blast
    from discover_from_body_Inl [OF discover_body_details_Inl [OF this]]
    show "fst (discover_all_resources prov i w) = None"
      and "calls (snd (discover_all_resources prov i w)) = calls w @ [LoadInstance i]"
      by (simp_all add: emit_def)
  }
  {
    assume "fst (discover_all_resources prov i w) = None"
    then obtain x w1 where b: "discover_body prov i ?w0 = (Inl x, w1)"
      and d: "discover_all_resources prov i w
       = (None, emit (PrintErr (case x of ValueError m \<Rightarrow> ''Error: ''
                                | _ \<Rightarrow> ''Unexpected error: '') x) w1)"
      by (rule discover_None)
    have "is_client_error x \<longrightarrow> prov (calls w) (LoadInstance i) = Inl x"
    proof
      assume ce: "is_client_error x"
      with discover_body_Inl [OF b] have "get_instance_details prov i ?w0 = (Inl x, w1)" by blast
      from instance_details_Inl [OF this ce] show "prov (calls w) (LoadInstance i) = Inl x"
        by (simp only: c0)
    qed
    moreover have "last (out (snd (discover_all_resources prov i w)))
       = PrintErr (case x of ValueError m \<Rightarrow> ''Error: '' | _ \<Rightarrow> ''Unexpected error: '') x"
      by (simp add: d emit_def)
    ultimately show "\<exists>p x. last (out (snd (discover_all_resources prov i w))) = PrintErr p x
           \<and> (is_client_error x \<longrightarrow> prov (calls w) (LoadInstance i) = Inl x)"
      by blast
    have cw: "calls (snd (discover_all_resources prov i w)) = calls w1"
      by (simp add: d)
    from discover_body_abort [OF b]
    show "calls (snd (discover_all_resources prov i w)) = calls w @ [LoadInstance i]
        \<or> (\<exists>cs c. calls (snd (discover_all_resources prov i w))
                     = calls w @ LoadInstance i # cs @ [c]
              \<and> safe (prov (calls w @ LoadInstance i # cs) c))"
      unfolding cw c0 .
  }
  {
    assume "discover_all_resources prov i w = (Some r, w')"
    from discovery_absorbs [OF this]
    show "\<exists>inst vols enis snaps amis sgs eips w1 w2 w3 w4 w5 w6.
            resources r = [inst] @ vols @ enis @ snaps @ amis @ sgs @ eips
          \<and> calls w1 = calls w @ [LoadInstance i]
          \<and> get_associated_volumes prov i w1 = (Inr vols, w2)
          \<and> get_associated_network_interfaces prov i w2 = (Inr enis, w3)
          \<and> get_associated_snapshots prov i w3 = (Inr snaps, w4)
          \<and> get_associated_ami prov i w4 = (Inr amis, w5)
          \<and> get_associated_security_groups prov i w5 = (Inr sgs, w6)
          \<and> get_associated_elastic_ips prov i w6 = (Inr eips, w')
          \<and> (client_error_between prov w1 w2 \<longrightarrow> vols = [])
          \<and> (client_error_between prov w2 w3 \<longrightarrow> enis = [])
          \<and> (client_error_between prov w3 w4 \<longrightarrow> snaps = [])
          \<and> (client_error_between prov w4 w5 \<longrightarrow> amis = [])
          \<and> (client_error_between prov w5 w6 \<longrightarrow> sgs = [])
          \<and> (client_error_between prov w6 w' \<longrightarrow> eips = [])" .
  }
  {
    assume h: "fst (get_instance_details prov i w) = Inr d
       \<and> (\<forall>h c. length (calls w) < length h \<longrightarrow> raises_client_error (prov h c))"
    from conjunct1 [OF h] have "fst (get_instance_details prov i ?w0) = Inr d"
      by (simp only: fst_details_emit)
    then obtain w1 where det: "get_instance_details prov i ?w0 = (Inr d, w1)"
      by (cases "get_instance_details prov i ?w0") simp
    from h have "\<forall>h c. length (calls ?w0) < length h \<longrightarrow> raises_client_error (prov h c)"
      unfolding c0 by (rule conjunct2)
    from discover_body_throttled [OF det this] obtain inst w' where
      inst: "instance_resource i d = Inr inst"
      and b: "discover_body prov i ?w0 = (Inr (make_result d inst [] [] [] [] [] []), w')"
      by blast
    from discover_from_body_Inr [OF b]
    have r: "fst (discover_all_resources prov i w) = Some (make_result d inst [] [] [] [] [] [])"
      by simp
    have "instance_details (make_result d inst [] [] [] [] [] []) = d"
      "resources (make_result d inst [] [] [] [] [] []) = [inst]"
      "summary (make_result d inst [] [] [] [] [] [])
         = [(''total_resources'', PInt 1), (''volumes'', PInt 0),
            (''network_interfaces'', PInt 0), (''snapshots'', PInt 0),
            (''amis'', PInt 0), (''security_groups'', PInt 0),
            (''elastic_ips'', PInt 0)]"
      by (simp_all add: make_result_def)
    with inst r show "\<exists>inst r. instance_resource i d = Inr inst
           \<and> fst (discover_all_resources prov i w) = Some r
           \<and> instance_details r = d \<and> resources r = [inst]
           \<and> summary r = [(''total_resources'', PInt 1), (''volumes'', PInt 0),
                           (''network_interfaces'', PInt 0), (''snapshots'', PInt 0),
                           (''amis'', PInt 0), (''security_groups'', PInt 0),
                           (''elastic_ips'', PInt 0)]"
      by blast
  }
qed

theorem discovery_failures_witness:
  "discover_all_resources not_found_provider demo_id empty_world
     = (None, \<lparr>calls = [LoadInstance demo_id],
               out = [Print (''Discovering resources for EC2 instance: '' @ demo_id),
                      PrintErr ''Error: '' (ValueError (''Instance '' @ demo_id @ '' not found''))],
               files = []\<rparr>)
   \<and> fst (discover_all_resources denied_provider demo_id empty_world) = None
   \<and> calls (snd (discover_all_resources denied_provider demo_id empty_world))
       = [LoadInstance demo_id]
   \<and> fst (discover_all_resources unreachable_provider demo_id empty_world) = None
   \<and> (\<exists>p x. last (out (snd (discover_all_resources unreachable_provider demo_id empty_world)))
               = PrintErr p x
          \<and> \<not> is_client_error x)
   \<and> (\<exists>cs c. calls (snd (discover_all_resources unreachable_provider demo_id empty_world))
                 = LoadInstance demo_id # cs @ [c]
          \<and> safe (unreachable_provider (LoadInstance demo_id # cs) c))
   \<and> (\<exists>r w' inst vols enis snaps amis sgs eips w1 w2 w3 w4 w5 w6.
          discover_all_resources lookup_only_provider demo_id empty_world = (Some r, w')
        \<and> instance_details r = instance_details demo_result
        \<and> instance_resource demo_id (instance_details demo_result) = Inr inst
        \<and> resources r = [inst]
        \<and> summary r = [(''total_resources'', PInt 1), (''volumes'', PInt 0),
                        (''network_interfaces'', PInt 0), (''snapshots'', PInt 0),
                        (''amis'', PInt 0), (''security_groups'', PInt 0),
                        (''elastic_ips'', PInt 0)]
        \<and> calls w1 = [LoadInstance demo_id]
        \<and> get_associated_volumes lookup_only_provider demo_id w1 = (Inr vols, w2)
        \<and> get_associated_network_interfaces lookup_only_provider demo_id w2 = (Inr enis, w3)
        \<and> get_associated_snapshots lookup_only_provider demo_id w3 = (Inr snaps, w4)
        \<and> get_associated_ami lookup_only_provider demo_id w4 = (Inr amis, w5)
        \<and> get_associated_security_groups lookup_only_provider demo_id w5 = (Inr sgs, w6)
        \<and> get_associated_elastic_ips lookup_only_provider demo_id w6 = (Inr eips, w')
        \<and> client_error_between lookup_only_provider w1 w2 \<and> vols = []
        \<and> client_error_between lookup_only_provider w2 w3 \<and> enis = []
        \<and> client_error_between lookup_only_provider w3 w4 \<and> snaps = []
        \<and> client_error_between lookup_only_provider w4 w5 \<and> amis = []
        \<and> client_error_between lookup_only_provider w5 w6 \<and> sgs = []
        \<and> client_error_between lookup_only_provider w6 w' \<and> eips = [])"
proof -
  let ?nf = "discover_all_resources not_found_provider demo_id empty_world"
  let ?dn = "discover_all_resources denied_provider demo_id empty_world"
  let ?un = "discover_all_resources unreachable_provider demo_id empty_world"
  let ?lo = "discover_all_resources lookup_only_provider demo_id empty_world"
  have ce: "calls empty_world = []" by (simp add: empty_world_def)
  note nf = discovery_failures [of not_found_provider empty_world demo_id]
  note dn = discovery_failures [of denied_provider empty_world demo_id
                "ClientError ''UnauthorizedOperation''"]
  note un = discovery_failures [of unreachable_provider empty_world demo_id]
  from nf [THEN conjunct1, THEN mp, OF not_found_lookup]
  have 1: "?nf = (None, \<lparr>calls = [LoadInstance demo_id],
               out = [Print (''Discovering resources for EC2 instance: '' @ demo_id),
                      PrintErr ''Error: '' (ValueError (''Instance '' @ demo_id @ '' not found''))],
               files = []\<rparr>)"
    by (simp add: empty_world_def)
  from dn [THEN conjunct2, THEN conjunct1, THEN mp, OF denied_lookup]
  have 2: "fst ?dn = None \<and> calls (snd ?dn) = [LoadInstance demo_id]"
    by (simp add: empty_world_def)
  from un [THEN conjunct2, THEN conjunct2, THEN conjunct1, THEN mp, OF unreachable_run]
  obtain p x where l: "last (out (snd ?un)) = PrintErr p x"
    and x: "is_client_error x \<longrightarrow>
              unreachable_provider (calls empty_world) (LoadInstance demo_id) = Inl x"
    by blast
  from x unreachable_lookup have "\<not> is_client_error x" by auto
  with l have 3: "\<exists>p x. last (out (snd ?un)) = PrintErr p x \<and> \<not> is_client_error x" by blast
  from un [THEN conjunct2, THEN conjunct2, THEN conjunct2, THEN conjunct1, THEN mp,
           OF unreachable_run]
  have "calls (snd ?un) = calls empty_world @ [LoadInstance demo_id]
      \<or> (\<exists>cs c. calls (snd ?un) = calls empty_world @ LoadInstance demo_id # cs @ [c]
            \<and> safe (unreachable_provider (calls empty_world @ LoadInstance demo_id # cs) c))" .
  then have 4: "\<exists>cs c. calls (snd ?un) = LoadInstance demo_id # cs @ [c]
          \<and> safe (unreachable_provider (LoadInstance demo_id # cs) c)"
  proof
    assume "calls (snd ?un) = calls empty_world @ [LoadInstance demo_id]"
    with unreachable_calls show ?thesis by (simp add: ce)
  next
    assume "\<exists>cs c. calls (snd ?un) = calls empty_world @ LoadInstance demo_id # cs @ [c]
            \<and> safe (unreachable_provider (calls empty_world @ LoadInstance demo_id # cs) c)"
    then show ?thesis by (simp add: ce)
  qed
  have h: "\<forall>h c. length (calls empty_world) < length h \<longrightarrow>
             raises_client_error (lookup_only_provider h c)"
    by (auto simp: empty_world_def intro: lookup_only_fails)
  from discovery_failures [of lookup_only_provider empty_world demo_id _ _ _
           "instance_details demo_result",
         THEN conjunct2, THEN conjunct2, THEN conjunct2, THEN conjunct2, THEN conjunct2,
         THEN mp, OF conjI [OF lookup_only_details h]]
  obtain inst r where inst: "instance_resource demo_id (instance_details demo_result) = Inr inst"
    and s: "fst ?lo = Some r"
    and d: "instance_details r = instance_details demo_result"
    and res: "resources r = [inst]"
    and su: "summary r = [(''total_resources'', PInt 1), (''volumes'', PInt 0),
                        (''network_interfaces'', PInt 0), (''snapshots'', PInt 0),
                        (''amis'', PInt 0), (''security_groups'', PInt 0),
                        (''elastic_ips'', PInt 0)]"
    by blast
  from s obtain w' where run: "?lo = (Some r, w')" by (cases ?lo) simp
  from discovery_failures [of lookup_only_provider empty_world demo_id _ r w',
         THEN conjunct2, THEN conjunct2, THEN conjunct2, THEN conjunct2, THEN conjunct1,
         THEN mp, OF run]
  obtain inst' vols enis snaps amis sgs eips w1 w2 w3 w4 w5 w6 where
        c1: "calls w1 = calls empty_world @ [LoadInstance demo_id]"
    and v: "get_associated_volumes lookup_only_provider demo_id w1 = (Inr vols, w2)"
    and e: "get_associated_network_interfaces lookup_only_provider demo_id w2 = (Inr enis, w3)"
    and sn: "get_associated_snapshots lookup_only_provider demo_id w3 = (Inr snaps, w4)"
    and a: "get_associated_ami lookup_only_provider demo_id w4 = (Inr amis, w5)"
    and g: "get_associated_security_groups lookup_only_provider demo_id w5 = (Inr sgs, w6)"
    and p: "get_associated_elastic_ips lookup_only_provider demo_id w6 = (Inr eips, w')"
    and ve: "client_error_between lookup_only_provider w1 w2 \<longrightarrow> vols = []"
    and ee: "client_error_between lookup_only_provider w2 w3 \<longrightarrow> enis = []"
    and se: "client_error_between lookup_only_provider w3 w4 \<longrightarrow> snaps = []"
    and ae: "client_error_between lookup_only_provider w4 w5 \<longrightarrow> amis = []"
    and ge: "client_error_between lookup_only_provider w5 w6 \<longrightarrow> sgs = []"
    and pe: "client_error_between lookup_only_provider w6 w' \<longrightarrow> eips = []"
    by blast
  from c1 have n1: "calls w1 \<noteq> []" and c1': "calls w1 = [LoadInstance demo_id]"
    by (simp_all add: empty_world_def)
  from volumes_throttled [of lookup_only_provider w1 demo_id, OF lookup_only_fails [OF n1]] v
  have l2: "length (calls w1) < length (calls w2)" by auto
  with n1 have n2: "calls w2 \<noteq> []" by auto
  from network_interfaces_throttled [of lookup_only_provider w2 demo_id,
         OF lookup_only_fails [OF n2]] e
  have l3: "length (calls w2) < length (calls w3)" by auto
  with n2 have n3: "calls w3 \<noteq> []" by auto
  from snapshots_throttled [of lookup_only_provider w3 demo_id, OF lookup_only_fails [OF n3]] sn
  have l4: "length (calls w3) < length (calls w4)" by auto
  with n3 have n4: "calls w4 \<noteq> []" by auto
  from ami_throttled [of lookup_only_provider w4 demo_id, OF lookup_only_fails [OF n4]] a
  have l5: "length (calls w4) < length (calls w5)" by auto
  with n4 have n5: "calls w5 \<noteq> []" by auto
  from security_groups_throttled [of lookup_only_provider w5 demo_id,
         OF lookup_only_fails [OF n5]] g
  have l6: "length (calls w5) < length (calls w6)" by auto
  with n5 have n6: "calls w6 \<noteq> []" by auto
  from elastic_ips_throttled [of lookup_only_provider w6 demo_id, OF lookup_only_fails [OF n6]] p
  have l7: "length (calls w6) < length (calls w')" by auto
  note b1 = lookup_only_between [OF n1 l2]
  note b2 = lookup_only_between [OF n2 l3]
  note b3 = lookup_only_between [OF n3 l4]
  note b4 = lookup_only_between [OF n4 l5]
  note b5 = lookup_only_between [OF n5 l6]
  note b6 = lookup_only_between [OF n6 l7]
  have 5: "\<exists>r w' inst vols enis snaps amis sgs eips w1 w2 w3 w4 w5 w6.
          ?lo = (Some r, w')
        \<and> instance_details r = instance_details demo_result
        \<and> instance_resource demo_id (instance_details demo_result) = Inr inst
        \<and> resources r = [inst]
        \<and> summary r = [(''total_resources'', PInt 1), (''volumes'', PInt 0),
                        (''network_interfaces'', PInt 0), (''snapshots'', PInt 0),
                        (''amis'', PInt 0), (''security_groups'', PInt 0),
                        (''elastic_ips'', PInt 0)]
        \<and> calls w1 = [LoadInstance demo_id]
        \<and> get_associated_volumes lookup_only_provider demo_id w1 = (Inr vols, w2)
        \<and> get_associated_network_interfaces lookup_only_provider demo_id w2 = (Inr enis, w3)
        \<and> get_associated_snapshots lookup_only_provider demo_id w3 = (Inr snaps, w4)
        \<and> get_associated_ami lookup_only_provider demo_id w4 = (Inr amis, w5)
        \<and> get_associated_security_groups lookup_only_provider demo_id w5 = (Inr sgs, w6)
        \<and> get_associated_elastic_ips lookup_only_provider demo_id w6 = (Inr eips, w')
        \<and> client_error_between lookup_only_provider w1 w2 \<and> vols = []
        \<and> client_error_between lookup_only_provider w2 w3 \<and> enis = []
        \<and> client_error_between lookup_only_provider w3 w4 \<and> snaps = []
        \<and> client_error_between lookup_only_provider w4 w5 \<and> amis = []
        \<and> client_error_between lookup_only_provider w5 w6 \<and> sgs = []
        \<and> client_error_between lookup_only_provider w6 w' \<and> eips = []"
    apply (rule exI [of _ r], rule exI [of _ w'], rule exI [of _ inst])
    apply (rule exI [of _ vols], rule exI [of _ enis])
    apply (rule exI [of _ snaps], rule exI [of _ amis], rule exI [of _ sgs])
    apply (rule exI [of _ eips], rule exI [of _ w1], rule exI [of _ w2], rule exI [of _ w3])
    apply (rule exI [of _ w4], rule exI [of _ w5], rule exI [of _ w6])
    apply (intro conjI)
    apply (rule run)
    apply (rule d)
    apply (rule inst)
    apply (rule res)
    apply (rule su)
    apply (rule c1')
    apply (rule v)
    apply (rule e)
    apply (rule sn)
    apply (rule a)
    apply (rule g)
    apply (rule p)
    apply (rule b1)
    apply (rule ve [THEN mp, OF b1])
    apply (rule b2)
    apply (rule ee [THEN mp, OF b2])
    apply (rule b3)
    apply (rule se [THEN mp, OF b3])
    apply (rule b4)
    apply (rule ae [THEN mp, OF b4])
    apply (rule b5)
    apply (rule ge [THEN mp, OF b5])
    apply (rule b6)
    apply (rule pe [THEN mp, OF b6])
    done
  from 1 2 unreachable_run 3 4 5 show ?thesis by (intro conjI) simp_all
qed

text \<open>
  C5 as stated fails: a provider that denies the instance lookup with another error code
  than \<open>InvalidInstanceID.NotFound\<close> makes the discovery return no result too.
\<close>

theorem other_client_error_aborts:
  "fst (discover_all_resources denied_provider demo_id empty_world) = None
   \<and> denied_provider (calls empty_world) (LoadInstance demo_id)
       \<noteq> Inl (ClientError ''InvalidInstanceID.NotFound'')"
  by code_simp

section \<open>The formatter and the command line\<close>

text \<open>
  C10. For the empty list of resources, \<open>format_resources_table\<close> and
  \<open>format_detailed_resources_table\<close> both return the text \<open>No resources found.\<close>,
  whatever the table format and without calling \<open>tabulate\<close>.
\<close>

theorem empty_resources_message:
  "format_resources_table l [] table_format = Inr ''No resources found.''
   \<and> format_detailed_resources_table l [] table_format = Inr ''No resources found.''"
  by (simp add: format_resources_table_def format_detailed_resources_table_def)

theorem empty_resources_message_witness:
  "format_resources_table demo_lib [] ''fancy_grid'' = Inr ''No resources found.''
   \<and> format_detailed_resources_table demo_lib [] ''fancy_grid'' = Inr ''No resources found.''"
  by (rule empty_resources_message)

text \<open>
  C8. \<open>_format_tags\<close> renders the empty mapping as \<open>None\<close>; a mapping that is not
  empty as the texts \<open>key:value\<close> of its first two entries, in insertion order, joined
  by a comma and a space, followed, when it has more than two entries, by \<open>(+N more)\<close>
  after a space, \<open>N\<close> being the number of entries minus two. The mapping
  \<open>{Name: WebServer, Environment: Production, Owner: DevTeam}\<close> is rendered as
  \<open>Name:WebServer, Environment:Production (+1 more)\<close>.
\<close>

theorem format_tags_text:
  "format_tags (PDict []) = Inr ''None''
   \<and> (kv \<noteq> [] \<longrightarrow>
        format_tags (PDict kv)
          = Inr (join '', '' (map (\<lambda>(k, v). py_str k @ '':'' @ py_str v) (take 2 kv))
                 @ (if length kv > 2
                    then '' (+'' @ str_int (int (length kv - 2)) @ '' more)'' else [])))
   \<and> format_tags (PDict [(PStr ''Name'', PStr ''WebServer''),
                           (PStr ''Environment'', PStr ''Production''),
                           (PStr ''Owner'', PStr ''DevTeam'')])
       = Inr ''Name:WebServer, Environment:Production (+1 more)''"
proof (intro conjI impI)
  show "format_tags (PDict []) = Inr ''None''" by (simp add: format_tags_def)
  show "format_tags (PDict kv)
          = Inr (join '', '' (map (\<lambda>(k, v). py_str k @ '':'' @ py_str v) (take 2 kv))
                 @ (if length kv > 2
                    then '' (+'' @ str_int (int (length kv - 2)) @ '' more)'' else []))"
    if "kv \<noteq> []"
  proof -
    have "int (length kv) - 2 = int (length kv - 2)" if "length kv > 2"
      using that by simp
    with \<open>kv \<noteq> []\<close> show ?thesis by (simp add: format_tags_def Let_def)
  qed
  show "format_tags (PDict [(PStr ''Name'', PStr ''WebServer''),
                           (PStr ''Environment'', PStr ''Production''),
                           (PStr ''Owner'', PStr ''DevTeam'')])
       = Inr ''Name:WebServer, Environment:Production (+1 more)''"
    by code_simp
qed

theorem format_tags_text_witness:
  "format_tags (PDict [(PStr ''Name'', PStr ''RootVolume''),
                       (PStr ''Environment'', PStr ''Production'')])
     = Inr ''Name:RootVolume, Environment:Production''"
  using format_tags_text
    [of "[(PStr ''Name'', PStr ''RootVolume''), (PStr ''Environment'', PStr ''Production'')]"]
  by simp

text \<open>
  C4, as the code has it. When the instance id of the command line does not start with
  \<open>i-\<close> or is not 19 characters long, \<open>main\<close> prints the format error and the
  expected format and exits with status 1; nothing else is printed, no request is sent and
  no file is written. The check is on the prefix and the length only: the 17 characters
  after \<open>i-\<close> are not checked to be hexadecimal.
\<close>

theorem malformed_id_rejected:
  assumes "take 2 (arg_instance_id a) \<noteq> ''i-'' \<or> length (arg_instance_id a) \<noteq> 19"
  shows "main e a w
     = (1, w\<lparr>out := out w @
                [Print (''Error: Invalid instance ID format: '' @ arg_instance_id a),
                 Print ''Instance ID should be in format: i-1234567890abcdef0'']\<rparr>)
     \<and> calls (snd (main e a w)) = calls w"
  using assms by (auto simp: main_def emit_def)

theorem malformed_id_rejected_witness:
  "length (arg_instance_id (demo_args ''i-123'')) = 5
   \<and> main (demo_env demo_provider) (demo_args ''i-123'') empty_world
       = (1, \<lparr>calls = [],
              out = [Print ''Error: Invalid instance ID format: i-123'',
                     Print ''Instance ID should be in format: i-1234567890abcdef0''],
              files = []\<rparr>)"
proof -
  have h: "take 2 (arg_instance_id (demo_args ''i-123'')) \<noteq> ''i-''
      \<or> length (arg_instance_id (demo_args ''i-123'')) \<noteq> 19"
    by (simp add: demo_args_def)
  from malformed_id_rejected [OF h, of "demo_env demo_provider" empty_world]
  show ?thesis by (simp add: demo_args_def empty_world_def)
qed

text \<open>
  C4 as stated fails: \<open>i-\<close> followed by seventeen letters \<open>z\<close> is not in the format
  of the specification, yet \<open>main\<close> reports no format error and sends the instance
  lookup to the provider.
\<close>

theorem non_hex_id_accepted:
  "\<not> spec_instance_id_format bad_id
   \<and> calls (snd (main (demo_env not_found_provider) (demo_args bad_id) empty_world))
       = [LoadInstance bad_id]
   \<and> Print (''Error: Invalid instance ID format: '' @ bad_id)
       \<notin> set (out (snd (main (demo_env not_found_provider) (demo_args bad_id) empty_world)))"
  by code_simp

lemma fst_set_rset: "fst ` set (rset r k v) = insert k (fst ` set r)"
proof (induction r)
  case Nil
  then show ?case by simp
next
  case (Cons a r)
  obtain k' v' where a: "a = (k', v')" by (cases a)
  show ?case
  proof (cases "k' = k")
    case True
    with a show ?thesis by simp
  next
    case False
    with a Cons.IH show ?thesis by (simp add: insert_commute)
  qed
qed

lemma flatten_sub_names:
  "fst ` set (flatten_sub key kv acc)
     = fst ` set acc \<union> (\<lambda>(sk, sv). key @ ''_'' @ py_str sk) ` set kv"
proof (induction kv arbitrary: acc)
  case Nil
  then show ?case by simp
next
  case (Cons a kv)
  obtain sk sv where a: "a = (sk, sv)" by (cases a)
  show ?case unfolding a by (simp add: Cons.IH fst_set_rset)
qed

lemma rset_new: "k \<notin> fst ` set r \<Longrightarrow> rset r k v = r @ [(k, v)]"
proof (induction r)
  case Nil
  then show ?case by simp
next
  case (Cons a r)
  obtain k' v' where a: "a = (k', v')" by (cases a)
  with Cons show ?case by auto
qed

lemma flatten_sub_distinct:
  "distinct (map fst acc @ map (\<lambda>(sk, sv). key @ ''_'' @ py_str sk) kv) \<Longrightarrow>
   flatten_sub key kv acc = acc @ map (\<lambda>(sk, sv). (key @ ''_'' @ py_str sk, sv)) kv"
proof (induction kv arbitrary: acc)
  case Nil
  then show ?case by simp
next
  case (Cons a kv)
  obtain sk sv where a: "a = (sk, sv)" by (cases a)
  let ?n = "key @ ''_'' @ py_str sk"
  from Cons.prems a have new: "?n \<notin> fst ` set acc" by auto
  from Cons.prems a
  have "distinct (map fst (acc @ [(?n, sv)]) @ map (\<lambda>(sk, sv). key @ ''_'' @ py_str sk) kv)"
    by auto
  from Cons.IH [OF this] a rset_new [OF new] show ?case by simp
qed

lemma flat_entries_Cons:
  "flat_entries ((key, v) # r) =
     (case v of
         PDict kv \<Rightarrow> map (\<lambda>(sub_key, sub_value). (key @ ''_'' @ py_str sub_key, sub_value)) kv
       | PList xs \<Rightarrow> [(key, PStr (join '', '' (map py_str xs)))]
       | _ \<Rightarrow> [(key, v)]) @ flat_entries r"
  by (simp add: flat_entries_def)

lemma flat_entries_Nil: "flat_entries [] = []"
  by (simp add: flat_entries_def)

lemma flatten_loop_names:
  "fst ` set (flatten_loop r acc) = fst ` set acc \<union> set (flat_names r)"
proof (induction r arbitrary: acc)
  case Nil
  then show ?case by (simp add: flat_names_def flat_entries_Nil)
next
  case (Cons a r)
  obtain key v where a: "a = (key, v)" by (cases a)
  show ?case unfolding a
    by (cases v)
      (simp_all add: Cons.IH flat_names_def flat_entries_Cons fst_set_rset flatten_sub_names
         Un_assoc image_image case_prod_beta)
qed

lemma distinct_append_left: "distinct (xs @ ys @ zs) \<Longrightarrow> distinct (xs @ ys)"
  by auto

lemma flatten_loop_distinct:
  "distinct (map fst acc @ flat_names r) \<Longrightarrow> flatten_loop r acc = acc @ flat_entries r"
proof (induction r arbitrary: acc)
  case Nil
  then show ?case by (simp add: flat_entries_Nil)
next
  case (Cons a r)
  obtain key v where a: "a = (key, v)" by (cases a)
  have one: "flatten_loop ((key, v) # r) acc = acc @ [(key, v')] @ flat_entries r"
    if "flatten_loop ((key, v) # r) acc = flatten_loop r (rset acc key v')"
      and "distinct (map fst acc @ [key] @ flat_names r)" for v'
  proof -
    from that(2) have new: "key \<notin> fst ` set acc" by auto
    from that(2) have "distinct (map fst (acc @ [(key, v')]) @ flat_names r)" by simp
    from Cons.IH [OF this] that(1) rset_new [OF new] show ?thesis by simp
  qed
  show ?case
  proof (cases v)
    case (PDict kv)
    let ?es = "map (\<lambda>(sk, sv). (key @ ''_'' @ py_str sk, sv)) kv"
    from Cons.prems a PDict
    have d: "distinct (map fst acc @ map fst ?es @ flat_names r)"
      by (simp add: flat_names_def flat_entries_Cons)
    have m: "map fst ?es = map (\<lambda>(sk, sv). key @ ''_'' @ py_str sk) kv"
      by (induction kv) auto
    from d have "distinct (map fst acc @ map fst ?es)"
      by (rule distinct_append_left)
    then have "distinct (map fst acc @ map (\<lambda>(sk, sv). key @ ''_'' @ py_str sk) kv)"
      by (simp only: m)
    from flatten_sub_distinct [OF this]
    have f: "flatten_sub key kv acc = acc @ ?es" .
    from d have "distinct (map fst (acc @ ?es) @ flat_names r)" by simp
    from Cons.IH [OF this] f a PDict show ?thesis by (simp add: flat_entries_Cons)
  next
    case (PList xs)
    from Cons.prems a PList
    have "distinct (map fst acc @ [key] @ flat_names r)"
      by (simp add: flat_names_def flat_entries_Cons)
    from one [OF _ this, of "PStr (join '', '' (map py_str xs))"] a PList
    show ?thesis by (simp add: flat_entries_Cons)
  next
    case PNone
    from Cons.prems a PNone have "distinct (map fst acc @ [key] @ flat_names r)"
      by (simp add: flat_names_def flat_entries_Cons)
    from one [OF _ this, of v] a PNone show ?thesis by (simp add: flat_entries_Cons)
  next
    case (PBool b)
    from Cons.prems a PBool have "distinct (map fst acc @ [key] @ flat_names r)"
      by (simp add: flat_names_def flat_entries_Cons)
    from one [OF _ this, of v] a PBool show ?thesis by (simp add: flat_entries_Cons)
  next
    case (PInt n)
    from Cons.prems a PInt have "distinct (map fst acc @ [key] @ flat_names r)"
      by (simp add: flat_names_def flat_entries_Cons)
    from one [OF _ this, of v] a PInt show ?thesis by (simp add: flat_entries_Cons)
  next
    case (PStr t)
    from Cons.prems a PStr have "distinct (map fst acc @ [key] @ flat_names r)"
      by (simp add: flat_names_def flat_entries_Cons)
    from one [OF _ this, of v] a PStr show ?thesis by (simp add: flat_entries_Cons)
  next
    case (PDateTime x y z)
    from Cons.prems a PDateTime have "distinct (map fst acc @ [key] @ flat_names r)"
      by (simp add: flat_names_def flat_entries_Cons)
    from one [OF _ this, of v] a PDateTime show ?thesis by (simp add: flat_entries_Cons)
  qed
qed

lemma flatten_resource_distinct:
  "distinct (flat_names r) \<Longrightarrow> flatten_resource r = flat_entries r"
  using flatten_loop_distinct [of "[]" r] by (simp add: flatten_resource_def)

lemma flatten_resource_names: "fst ` set (flatten_resource r) = set (flat_names r)"
  using flatten_loop_names [of r "[]"] by (simp add: flatten_resource_def)

lemma scalar_entry:
  "(k, v) \<in> set r \<Longrightarrow> scalar v \<Longrightarrow> (k, v) \<in> set (flat_entries r)"
  by (cases v) (force simp: flat_entries_def)+

lemma list_entry:
  "(k, PList xs) \<in> set r \<Longrightarrow> (k, PStr (join '', '' (map py_str xs))) \<in> set (flat_entries r)"
  by (force simp: flat_entries_def)

lemma dict_entry:
  "(k, PDict kv) \<in> set r \<Longrightarrow> (sk, sv) \<in> set kv \<Longrightarrow>
     (k @ ''_'' @ py_str sk, sv) \<in> set (flat_entries r)"
  by (force simp: flat_entries_def)

lemma dataframe_columns_set:
  "set (dataframe_columns rows) = (\<Union>r\<in>set rows. fst ` set r)"
  by (auto simp: dataframe_columns_def)

lemma flatten_sub_lookup:
  "map_of (flatten_sub key kv acc)
     = map_of acc ++ map_of (rev (map (\<lambda>(sk, sv). (key @ ''_'' @ py_str sk, sv)) kv))"
proof (induction kv arbitrary: acc)
  case Nil
  then show ?case by simp
next
  case (Cons a kv)
  obtain sk sv where a: "a = (sk, sv)" by (cases a)
  show ?case unfolding a
    by (rule ext) (simp add: Cons.IH map_of_rset map_add_def split: option.splits)
qed

lemma flatten_loop_lookup:
  "map_of (flatten_loop r acc) = map_of acc ++ map_of (rev (flat_entries r))"
proof (induction r arbitrary: acc)
  case Nil
  then show ?case by (simp add: flat_entries_Nil)
next
  case (Cons a r)
  obtain key v where a: "a = (key, v)" by (cases a)
  show ?case unfolding a
    by (rule ext, cases v)
       (simp_all add: Cons.IH flat_entries_Cons map_of_rset flatten_sub_lookup map_add_def
          split: option.splits)
qed

lemma flatten_resource_lookup:
  "map_of (flatten_resource r) = map_of (rev (flat_entries r))"
  using flatten_loop_lookup [of r "[]"] by (simp add: flatten_resource_def)

text \<open>
  C9, as the code has it. The flattened row of a record has a column for every field that
  is not a dict, under the name of the field, and a column \<open>key_subkey\<close> for every entry
  of a dict-valued field (\<open>tags_k\<close> for the tag \<open>k\<close>), and no other column. A column
  holds the value that flattening assigned last to its name. So when the names are pairwise
  distinct, the column of a scalar field holds its value, the column \<open>key_subkey\<close> holds
  the value of that entry, and the column of a list-valued field holds the texts of its
  items joined by a comma and a space. The header handed to the CSV writer is the union of
  the columns of all flattened rows, and the file written is what the writer makes of this
  header and these rows.
\<close>

theorem csv_flattening:
  "(\<forall>k v. (k, v) \<in> set r \<and> scalar v \<longrightarrow> k \<in> fst ` set (flatten_resource r))
   \<and> (\<forall>k xs. (k, PList xs) \<in> set r \<longrightarrow> k \<in> fst ` set (flatten_resource r))
   \<and> (\<forall>k kv sk sv. (k, PDict kv) \<in> set r \<and> (sk, sv) \<in> set kv \<longrightarrow>
         k @ ''_'' @ py_str sk \<in> fst ` set (flatten_resource r))
   \<and> fst ` set (flatten_resource r) = set (flat_names r)
   \<and> map_of (flatten_resource r) = map_of (rev (flat_entries r))
   \<and> (distinct (flat_names r) \<longrightarrow>
        (\<forall>k v. (k, v) \<in> set r \<and> scalar v \<longrightarrow> map_of (flatten_resource r) k = Some v)
      \<and> (\<forall>k kv sk sv. (k, PDict kv) \<in> set r \<and> (sk, sv) \<in> set kv \<longrightarrow>
            map_of (flatten_resource r) (k @ ''_'' @ py_str sk) = Some sv)
      \<and> (\<forall>k xs. (k, PList xs) \<in> set r \<longrightarrow>
            map_of (flatten_resource r) k = Some (PStr (join '', '' (map py_str xs)))))
   \<and> set (dataframe_columns (map flatten_resource rs))
       = (\<Union>x\<in>set rs. fst ` set (flatten_resource x))
   \<and> (to_csv l (dataframe_columns (map flatten_resource rs)) (map flatten_resource rs) f
         = Inr content \<longrightarrow>
        export_to_csv l rs f w
          = (Inr (''Resources exported to '' @ f), w\<lparr>files := files w @ [(f, content)]\<rparr>))"
proof -
  have names: "fst ` set (flatten_resource r) = set (flat_names r)"
    by (rule flatten_resource_names)
  have in_names: "n \<in> fst ` set (flatten_resource r)" if "(n, x) \<in> set (flat_entries r)" for n x
    using that unfolding names flat_names_def by force
  have c1: "\<forall>k v. (k, v) \<in> set r \<and> scalar v \<longrightarrow> k \<in> fst ` set (flatten_resource r)"
    by (blast intro: in_names scalar_entry)
  have c2: "\<forall>k xs. (k, PList xs) \<in> set r \<longrightarrow> k \<in> fst ` set (flatten_resource r)"
    by (blast intro: in_names list_entry)
  have c3: "\<forall>k kv sk sv. (k, PDict kv) \<in> set r \<and> (sk, sv) \<in> set kv \<longrightarrow>
         k @ ''_'' @ py_str sk \<in> fst ` set (flatten_resource r)"
    by (blast intro: in_names dict_entry)
  have c6: "distinct (flat_names r) \<longrightarrow>
        (\<forall>k v. (k, v) \<in> set r \<and> scalar v \<longrightarrow> map_of (flatten_resource r) k = Some v)
      \<and> (\<forall>k kv sk sv. (k, PDict kv) \<in> set r \<and> (sk, sv) \<in> set kv \<longrightarrow>
            map_of (flatten_resource r) (k @ ''_'' @ py_str sk) = Some sv)
      \<and> (\<forall>k xs. (k, PList xs) \<in> set r \<longrightarrow>
            map_of (flatten_resource r) k = Some (PStr (join '', '' (map py_str xs))))"
  proof (intro impI conjI allI)
    assume d: "distinct (flat_names r)"
    then have d': "distinct (map fst (flat_entries r))" by (simp add: flat_names_def)
    note eq = flatten_resource_distinct [OF d]
    show "map_of (flatten_resource r) k = Some v" if "(k, v) \<in> set r \<and> scalar v" for k v
      using that d' by (simp add: eq scalar_entry)
    show "map_of (flatten_resource r) (k @ ''_'' @ py_str sk) = Some sv"
      if "(k, PDict kv) \<in> set r \<and> (sk, sv) \<in> set kv" for k kv sk sv
    proof -
      from that have "(k @ ''_'' @ py_str sk, sv) \<in> set (flat_entries r)"
        by (blast intro: dict_entry)
      with d' show ?thesis unfolding eq by (rule map_of_is_SomeI)
    qed
    show "map_of (flatten_resource r) k = Some (PStr (join '', '' (map py_str xs)))"
      if "(k, PList xs) \<in> set r" for k xs
      using that d' by (simp add: eq list_entry)
  qed
  have c7: "set (dataframe_columns (map flatten_resource rs))
       = (\<Union>x\<in>set rs. fst ` set (flatten_resource x))"
    by (simp add: dataframe_columns_set)
  have c8: "to_csv l (dataframe_columns (map flatten_resource rs)) (map flatten_resource rs) f
         = Inr content \<longrightarrow>
        export_to_csv l rs f w
          = (Inr (''Resources exported to '' @ f), w\<lparr>files := files w @ [(f, content)]\<rparr>)"
    by (simp add: export_to_csv_def)
  show ?thesis
    apply (intro conjI)
    apply (rule c1)
    apply (rule c2)
    apply (rule c3)
    apply (rule names)
    apply (rule flatten_resource_lookup)
    apply (rule c6)
    apply (rule c7)
    apply (rule c8)
    done
qed

lemma demo_eni_names: "distinct (flat_names demo_eni)"
  by code_simp

lemma demo_eni_csv:
  "to_csv demo_lib (dataframe_columns (map flatten_resource [demo_eni]))
             (map flatten_resource [demo_eni]) ''out.csv''
           = Inr ''resource_type,resource_id,security_groups,source_dest_check,tags_Name''"
  by code_simp

text \<open>
  C9 as stated fails for a record in which a later field has the name of a tag's column:
  the column \<open>tags_x\<close> then holds the value of that field, not the value of the tag.
\<close>

theorem tag_column_overwritten:
  "(''tags'', PDict [(PStr ''x'', PStr ''a'')]) \<in> set collision_record
   \<and> (PStr ''x'', PStr ''a'') \<in> set [(PStr ''x'', PStr ''a'')]
   \<and> map_of (flatten_resource collision_record) (''tags'' @ ''_'' @ py_str (PStr ''x''))
       = Some (PStr ''b'')
   \<and> map_of (flatten_resource collision_record) ''tags_x'' \<noteq> Some (PStr ''a'')"
  by code_simp

theorem csv_flattening_witness:
  "distinct (flat_names demo_eni)
   \<and> (''resource_id'', PStr ''eni-1'') \<in> set demo_eni \<and> scalar (PStr ''eni-1'')
   \<and> ''resource_id'' \<in> fst ` set (flatten_resource demo_eni)
   \<and> map_of (flatten_resource demo_eni) ''resource_id'' = Some (PStr ''eni-1'')
   \<and> (''tags'', PDict [(PStr ''Name'', PStr ''Primary-ENI'')]) \<in> set demo_eni
   \<and> ''tags_Name'' \<in> fst ` set (flatten_resource demo_eni)
   \<and> map_of (flatten_resource demo_eni) ''tags_Name'' = Some (PStr ''Primary-ENI'')
   \<and> (''security_groups'', PList [PStr ''sg-1'', PStr ''sg-2'']) \<in> set demo_eni
   \<and> ''security_groups'' \<in> fst ` set (flatten_resource demo_eni)
   \<and> map_of (flatten_resource demo_eni) ''security_groups'' = Some (PStr ''sg-1, sg-2'')
   \<and> export_to_csv demo_lib [demo_eni] ''out.csv'' empty_world
       = (Inr ''Resources exported to out.csv'',
          \<lparr>calls = [], out = [],
            files = [(''out.csv'',
              ''resource_type,resource_id,security_groups,source_dest_check,tags_Name'')]\<rparr>)"
proof -
  have m1: "(''resource_id'', PStr ''eni-1'') \<in> set demo_eni \<and> scalar (PStr ''eni-1'')"
    by (simp add: demo_eni_def)
  have m2: "(''tags'', PDict [(PStr ''Name'', PStr ''Primary-ENI'')]) \<in> set demo_eni
             \<and> (PStr ''Name'', PStr ''Primary-ENI'') \<in> set [(PStr ''Name'', PStr ''Primary-ENI'')]"
    by (simp add: demo_eni_def)
  have m3: "(''security_groups'', PList [PStr ''sg-1'', PStr ''sg-2'']) \<in> set demo_eni"
    by (simp add: demo_eni_def)
  note t = csv_flattening [of demo_eni "[demo_eni]" demo_lib "''out.csv''"
      "''resource_type,resource_id,security_groups,source_dest_check,tags_Name''" empty_world]
  note a1 = t [THEN conjunct1, rule_format, OF m1]
  note a2 = t [THEN conjunct2, THEN conjunct1, rule_format, OF m3]
  note a3 = t [THEN conjunct2, THEN conjunct2, THEN conjunct1, rule_format, OF m2]
  note rest = t [THEN conjunct2, THEN conjunct2, THEN conjunct2, THEN conjunct2, THEN conjunct2]
  note b = rest [THEN conjunct1, THEN mp, OF demo_eni_names]
  note b1 = b [THEN conjunct1, rule_format, OF m1]
  note b2 = b [THEN conjunct2, THEN conjunct1, rule_format, OF m2]
  note b3 = b [THEN conjunct2, THEN conjunct2, rule_format, OF m3]
  note b4 = rest [THEN conjunct2, THEN conjunct2, THEN mp, OF demo_eni_csv]
  from a3 have n2: "''tags_Name'' \<in> fst ` set (flatten_resource demo_eni)"
    by simp
  from b2 have 2: "map_of (flatten_resource demo_eni) ''tags_Name'' = Some (PStr ''Primary-ENI'')"
    by simp
  from b3 have 3: "map_of (flatten_resource demo_eni) ''security_groups''
          = Some (PStr ''sg-1, sg-2'')"
    by simp
  from b4 have 4: "export_to_csv demo_lib [demo_eni] ''out.csv'' empty_world
       = (Inr ''Resources exported to out.csv'',
          \<lparr>calls = [], out = [],
            files = [(''out.csv'',
              ''resource_type,resource_id,security_groups,source_dest_check,tags_Name'')]\<rparr>)"
    by (simp add: empty_world_def)
  show ?thesis
    apply (intro conjI)
    apply (rule demo_eni_names)
    apply (rule m1 [THEN conjunct1])
    apply (rule m1 [THEN conjunct2])
    apply (rule a1)
    apply (rule b1)
    apply (rule m2 [THEN conjunct1])
    apply (rule n2)
    apply (rule 2)
    apply (rule m3)
    apply (rule a2)
    apply (rule 3)
    apply (rule 4)
    done
qed

end
